theory Spec2Isabelle
  imports Main
begin

section \<open>Errors and claim values\<close>

text \<open>
  The error kinds of the \<open>trace\<close> package that the code distinguishes
  (\<open>trace.IsNotFound\<close>, \<open>trace.IsAlreadyExists\<close>); \<open>trace.Wrap\<close> keeps the kind.
  \<open>Failure\<close> stands for every other error (\<open>trace.Errorf\<close>, errors of libraries,
  of the network and of the backend), \<open>Panic\<close> for a run-time panic (an index out of
  range).
\<close>

datatype error =
    NotFound string
  | AlreadyExists string
  | BadParameter string
  | AccessDenied string
  | OAuth2 string string
  | Failure string
  | Panic string

fun IsNotFound :: "error \<Rightarrow> bool" where
  "IsNotFound (NotFound _) = True"
| "IsNotFound _ = False"

fun IsAlreadyExists :: "error \<Rightarrow> bool" where
  "IsAlreadyExists (AlreadyExists _) = True"
| "IsAlreadyExists _ = False"

text \<open>
  The dynamic values a \<open>jose.Claims\<close> map holds (\<open>map[string]interface{}\<close>): what the
  JSON decoder produces, and the \<open>[]string\<close> that \<open>fetchGroups\<close> stores.
\<close>

datatype gvalue =
    GString string
  | GNumber int
  | GBool bool
  | GNil
  | GStrings "string list"
  | GSlice "gvalue list"
  | GMap "(string \<times> gvalue) list"

text \<open>
  A claim map is the list of its entries; \<open>map_of\<close> is the lookup \<open>c[name]\<close>. The order
  of the list is the order in which \<open>range\<close> happens to enumerate the map.
\<close>

type_synonym Claims = "(string \<times> gvalue) list"

text \<open>\<open>Claims.StringClaim\<close> of go-oidc: value, presence, and a type error.\<close>

definition StringClaim :: "Claims \<Rightarrow> string \<Rightarrow> string \<times> bool \<times> error option" where
  "StringClaim c name =
     (case map_of c name of
        None \<Rightarrow> ('''', False, None)
      | Some cl \<Rightarrow>
          (case cl of
             GString v \<Rightarrow> (v, True, None)
           | _ \<Rightarrow> ('''', False, Some (Failure ''unable to parse claim as string''))))"

section \<open>Merging claims\<close>

text \<open>
  \<open>mergeClaims\<close> (oidc.go): for every entry \<open>(k, v)\<close> of \<open>b\<close>, store it in \<open>a\<close> unless \<open>a\<close>
  has the key already. The error it returns is always nil.
\<close>

definition mergeClaims_step :: "string \<times> gvalue \<Rightarrow> Claims \<Rightarrow> Claims" where
  "mergeClaims_step kv a =
     (case map_of a (fst kv) of
        None \<Rightarrow> a @ [kv]
      | Some _ \<Rightarrow> a)"

definition mergeClaims :: "Claims \<Rightarrow> Claims \<Rightarrow> error + Claims" where
  "mergeClaims a b = Inr (fold mergeClaims_step b a)"

section \<open>The state of the auth server and the outside world\<close>

text \<open>Times and durations are integers (nanoseconds), as \<open>time.Duration\<close> is.\<close>

type_synonym time = int

type_synonym bytes = string

record url =
  url_Base :: string
  url_Query :: "string \<Rightarrow> string option"

record http_request =
  http_Method :: string
  http_URL :: url
  http_Authorization :: string

text \<open>A response: the status code, and what \<open>ioutil.ReadAll\<close> gives for the body.\<close>

record http_response =
  StatusCode :: int
  Body :: "error + bytes"

datatype event_type = UserLoginEvent

datatype login_method = LoginMethodOIDC

datatype event_field =
    LoginMethod login_method
  | AuthAttemptSuccess bool
  | AuthAttemptErr error
  | AuthAttemptMessage string
  | EventUser string

type_synonym audit_event = "event_type \<times> event_field list"

record ExternalIdentity =
  ConnectorID :: string
  Username :: string

record ConnectorRef =
  ref_Type :: string
  ref_ID :: string
  ref_Identity :: string

record CreatedBy =
  cb_User :: string
  cb_Time :: time
  cb_Connector :: "ConnectorRef option"

record User =
  user_Name :: string
  user_Roles :: "string list"
  user_Traits :: "string \<Rightarrow> string list option"
  user_Expires :: time
  user_OIDCIdentities :: "ExternalIdentity list"
  user_CreatedBy :: CreatedBy

record WebSession =
  ws_User :: string
  ws_ID :: string
  ExpiryTime :: time
  BearerTokenExpiryTime :: time

text \<open>
  What a call of the OIDC code can change: the user store, the web sessions, the audit
  log, and the requests it has sent over the HTTP client so far (the oldest first).
\<close>

record AuthServer =
  users :: "string \<Rightarrow> User option"
  webSessions :: "string \<Rightarrow> WebSession option"
  auditLog :: "audit_event list"
  sent :: "http_request list"

definition EmitAuditEvent :: "event_type \<Rightarrow> event_field list \<Rightarrow> AuthServer \<Rightarrow> AuthServer" where
  "EmitAuditEvent t fs s = s\<lparr>auditLog := auditLog s @ [(t, fs)]\<rparr>"

section \<open>Group pages of GSuite\<close>

record gsuiteGroup =
  Email :: string

record gsuiteGroups =
  NextPageToken :: string
  Groups :: "gsuiteGroup list"

definition groups :: "gsuiteGroups \<Rightarrow> string list" where
  "groups g = map Email (Groups g)"

text \<open>
  The client: the embedded HTTP client \<open>Client\<close>, whose answer to a request may depend
  on the requests sent before it, and the fields of the struct. \<open>NewRequest\<close> and
  \<open>Unmarshal\<close> are \<open>http.NewRequest\<close> (the error it gives for a method and a URL, if any)
  and \<open>json.Unmarshal\<close> into a \<open>gsuiteGroups\<close>.
\<close>

record gsuiteClient =
  Client :: "http_request list \<Rightarrow> http_request \<Rightarrow> error + http_response"
  NewRequest :: "string \<Rightarrow> url \<Rightarrow> error option"
  Unmarshal :: "bytes \<Rightarrow> error + gsuiteGroups"
  url :: url
  userEmail :: string
  accessToken :: string

text \<open>
  \<open>fetchGroupsPage\<close> in three parts: the URL with its query parameters, the request
  and its answer, and the reading of the answer.
\<close>

definition groupsEndpoint :: "gsuiteClient \<Rightarrow> string \<Rightarrow> url" where
  "groupsEndpoint g pageToken =
     (let u = url g;
          q = (url_Query u)(''userKey'' \<mapsto> userEmail g);
          q = (if pageToken \<noteq> [] then q(''pageToken'' \<mapsto> pageToken) else q)
      in u\<lparr>url_Query := q\<rparr>)"

definition groupsRequest :: "gsuiteClient \<Rightarrow> string \<Rightarrow> http_request" where
  "groupsRequest g pageToken =
     \<lparr>http_Method = ''GET'', http_URL = groupsEndpoint g pageToken,
      http_Authorization = ''Bearer '' @ accessToken g\<rparr>"

definition readGroupsPage :: "gsuiteClient \<Rightarrow> http_response \<Rightarrow> error + gsuiteGroups" where
  "readGroupsPage g resp =
     (case Body resp of
        Inl err \<Rightarrow> Inl err
      | Inr bs \<Rightarrow>
          if StatusCode resp < 200 \<or> StatusCode resp > 299
          then Inl (AccessDenied ''bad status code'')
          else (case Unmarshal g bs of
                  Inl err \<Rightarrow> Inl (BadParameter ''failed to parse response'')
                | Inr response \<Rightarrow> Inr response))"

definition fetchGroupsPage ::
  "gsuiteClient \<Rightarrow> string \<Rightarrow> AuthServer \<Rightarrow> (error + gsuiteGroups) \<times> AuthServer" where
  "fetchGroupsPage g pageToken s =
     (case NewRequest g ''GET'' (groupsEndpoint g pageToken) of
        Some err \<Rightarrow> (Inl err, s)
      | None \<Rightarrow>
          (case Client g (sent s) (groupsRequest g pageToken) of
             Inl err \<Rightarrow> Inl err
           | Inr resp \<Rightarrow> readGroupsPage g resp,
           s\<lparr>sent := sent s @ [groupsRequest g pageToken]\<rparr>))"

definition truncation_event :: audit_event where
  "truncation_event =
     (UserLoginEvent,
      [LoginMethod LoginMethodOIDC,
       AuthAttemptMessage (''Truncating list of teams used to populate claims: '' @
         ''hit maximum number pages that can be fetched from GSuite.'')])"

text \<open>
  The loop of \<open>fetchGroups\<close>, with its variables \<open>count\<close>, \<open>groups\<close> and
  \<open>nextPageToken\<close>. \<open>MaxPages\<close> is a constant of the package that is declared outside the
  sources at hand, so it is a parameter.
\<close>

function fetchGroups_loop ::
  "nat \<Rightarrow> gsuiteClient \<Rightarrow> nat \<Rightarrow> string list \<Rightarrow> string \<Rightarrow> AuthServer
     \<Rightarrow> (error + Claims) \<times> AuthServer" where
  "fetchGroups_loop MaxPages g count gs nextPageToken s =
     (if count > MaxPages
      then (Inr [(''groups'', GStrings gs)],
            EmitAuditEvent (fst truncation_event) (snd truncation_event) s)
      else (case fetchGroupsPage g nextPageToken s of
              (Inl err, s') \<Rightarrow> (Inl err, s')
            | (Inr response, s') \<Rightarrow>
                (let gs' = gs @ groups response
                 in if NextPageToken response = ''''
                    then (Inr [(''groups'', GStrings gs')], s')
                    else fetchGroups_loop MaxPages g (count + 1) gs' (NextPageToken response) s')))"
  by pat_completeness auto
termination
  by (relation "measure (\<lambda>(MaxPages, g, count, gs, tok, s). Suc MaxPages - count)") auto

declare fetchGroups_loop.simps [simp del]

definition fetchGroups :: "nat \<Rightarrow> gsuiteClient \<Rightarrow> AuthServer \<Rightarrow> (error + Claims) \<times> AuthServer" where
  "fetchGroups MaxPages g s = fetchGroups_loop MaxPages g 0 [] '''' s"

text \<open>
  For stating what \<open>fetchGroups\<close> returns: the page that answers a request after the
  requests \<open>h\<close>, the page that answered the \<open>j\<close>-th request of a log, the groups
  of the pages from the \<open>i\<close>-th request of a log on, and a server whose every page
  carries a continuation token.
\<close>

definition pageOf :: "gsuiteClient \<Rightarrow> http_request list \<Rightarrow> http_request \<Rightarrow> error + gsuiteGroups" where
  "pageOf g h req = (case Client g h req of Inl err \<Rightarrow> Inl err | Inr resp \<Rightarrow> readGroupsPage g resp)"

definition fetched :: "gsuiteClient \<Rightarrow> http_request list \<Rightarrow> nat \<Rightarrow> error + gsuiteGroups" where
  "fetched g h j = pageOf g (take j h) (h ! j)"






definition empty_server :: AuthServer where
  "empty_server = \<lparr>users = Map.empty, webSessions = Map.empty, auditLog = [], sent = []\<rparr>"

section \<open>Certificate authorities\<close>

datatype CertAuthType = HostCA | UserCA

record TLSKeyPair =
  Cert :: bytes
  Key :: bytes

text \<open>
  \<open>services.CertAuthorityV2\<close>, with the fields of its spec that \<open>Init\<close> fills in. The
  name in the metadata is the cluster name.
\<close>

record CertAuthority =
  ca_ClusterName :: string
  ca_Type :: CertAuthType
  SigningKeys :: "bytes list"
  CheckingKeys :: "bytes list"
  TLSKeyPairs :: "TLSKeyPair list"

text \<open>\<open>services.CertAuthID\<close>: the type and the domain name.\<close>

type_synonym CertAuthID = "CertAuthType \<times> string"

section \<open>The OIDC connector, the provider and the collaborators\<close>

record OIDCAuthRequest =
  req_ConnectorID :: string
  StateToken :: string
  RedirectURL :: string
  CheckUser :: bool
  CreateWebSession :: bool
  PublicKey :: bytes
  CertTTL :: int
  Compatibility :: string

text \<open>
  The connector, with \<open>MapClaims\<close> as its method: the mapping of claims to roles is
  code of the \<open>services\<close> package, outside the sources at hand. A nil claim map is
  \<open>None\<close>.
\<close>

record OIDCConnector =
  conn_Name :: string
  IssuerURL :: string
  Scope :: "string list"
  ACR :: string
  Provider :: string
  ClaimsToRoles :: "(string \<times> string \<times> string list) list"
  MapClaims :: "Claims option \<Rightarrow> string list"

text \<open>\<open>oidc.Identity\<close> of go-oidc.\<close>

record oidc_Identity =
  ident_ID :: string
  ident_Name :: string
  ident_Email :: string
  ident_ExpiresAt :: time

record TokenResponse =
  IDToken :: string
  AccessToken :: string

text \<open>The provider configuration: the UserInfo endpoint, if the provider has one.\<close>

record ProviderConfig =
  UserInfoEndpoint :: "string option"

type_synonym JWT = string

text \<open>
  The OIDC client of a connector, together with what the provider and the libraries
  answer: \<open>OAuthClient\<close> is the error of \<open>oidcClient.OAuthClient()\<close>, if any;
  \<open>HttpClient\<close> answers a request, given the requests sent before; the other fields are
  \<open>RequestToken\<close>, \<open>jose.ParseJWT\<close>, \<open>VerifyJWT\<close>, \<open>jwt.Claims\<close>, \<open>isHTTPS\<close>,
  \<open>oidc.FetchProviderConfig\<close>, \<open>http.NewRequest\<close>, the JSON decoders and
  \<open>oidc.IdentityFromClaims\<close>.
\<close>

record oidc_client =
  OAuthClient :: "error option"
  RequestToken :: "string \<Rightarrow> error + TokenResponse"
  jose_ParseJWT :: "string \<Rightarrow> error + JWT"
  VerifyJWT :: "JWT \<Rightarrow> error option"
  jwt_Claims :: "JWT \<Rightarrow> error + Claims"
  isHTTPS :: "string \<Rightarrow> error option"
  FetchProviderConfig :: "string \<Rightarrow> error + ProviderConfig"
  HttpClient :: "http_request list \<Rightarrow> http_request \<Rightarrow> error + http_response"
  http_NewRequest :: "string \<Rightarrow> url \<Rightarrow> error option"
  json_DecodeClaims :: "bytes \<Rightarrow> error + Claims"
  json_UnmarshalGroups :: "bytes \<Rightarrow> error + gsuiteGroups"
  IdentityFromClaims :: "Claims option \<Rightarrow> error + oidc_Identity"

text \<open>
  Constants of the packages \<open>teleport\<close> and \<open>auth\<close> that are declared outside the
  sources at hand; \<open>teleport_GSuiteGroupsEndpoint\<close> is what \<open>url.Parse\<close> makes of the
  constant.
\<close>

record constants =
  teleport_GSuiteIssuerURL :: string
  teleport_GSuiteGroupsScope :: string
  teleport_GSuiteGroupsEndpoint :: "error + url"
  teleport_NetIQ :: string
  teleport_ConnectorOIDC :: string
  auth_MaxPages :: nat
  auth_BearerTokenTTL :: int

record Role =
  role_Name :: string
  role_MaxSessionTTL :: int

type_synonym RoleSet = "Role list"

record certRequest =
  cr_user :: User
  cr_roles :: RoleSet
  cr_ttl :: int
  cr_publicKey :: bytes
  cr_compatibility :: string

record certs =
  ssh :: bytes
  tls :: bytes

datatype backend_call = CallGetUser | CallUpsertUser | CallUpsertWebSession

datatype clock_reading = AtSessionTTL | AtSessionExpiry | AtBearerExpiry | AtCertTTL

text \<open>
  The collaborators of the auth server in the OIDC code: lookups of the backend that
  the code only reads, the services that issue sessions and certificates, the calls of
  the backend that fail (\<open>backend_fails\<close>), and the clocks. \<open>clock_Now\<close> is
  \<open>a.clock.Now()\<close> at each place that reads it, \<open>time_Now\<close> is \<open>time.Now()\<close>.
\<close>

record collaborators =
  GetClusterName :: "error + string"
  GetOIDCAuthRequest :: "string \<Rightarrow> error + OIDCAuthRequest"
  GetOIDCConnector :: "string \<Rightarrow> error + OIDCConnector"
  getOIDCClient :: "OIDCConnector \<Rightarrow> error + oidc_client"
  GenerateUser :: "User \<Rightarrow> error + User"
  GetUserByOIDCIdentity :: "(string \<Rightarrow> User option) \<Rightarrow> ExternalIdentity \<Rightarrow> error + User"
  FetchRoles :: "string list \<Rightarrow> (string \<Rightarrow> string list option) \<Rightarrow> error + RoleSet"
  NewWebSession :: "string \<Rightarrow> error + WebSession"
  generateUserCert :: "certRequest \<Rightarrow> error + certs"
  GetCertAuthority :: "CertAuthID \<Rightarrow> bool \<Rightarrow> error + CertAuthority"
  backend_fails :: "backend_call \<Rightarrow> bool"
  clock_Now :: "clock_reading \<Rightarrow> time"
  time_Now :: time

record OIDCAuthResponse =
  resp_Username :: string
  resp_Identity :: ExternalIdentity
  resp_Session :: "WebSession option"
  resp_Cert :: bytes
  resp_TLSCert :: bytes
  resp_Req :: OIDCAuthRequest
  HostSigners :: "CertAuthority list"

section \<open>Claims of the ID token, of UserInfo and of GSuite\<close>

definition claimsFromIDToken :: "oidc_client \<Rightarrow> string \<Rightarrow> error + Claims" where
  "claimsFromIDToken oidcClient idToken =
     (case jose_ParseJWT oidcClient idToken of
        Inl err \<Rightarrow> Inl err
      | Inr jwt \<Rightarrow>
          (case VerifyJWT oidcClient jwt of
             Some err \<Rightarrow> Inl err
           | None \<Rightarrow>
               (case jwt_Claims oidcClient jwt of
                  Inl err \<Rightarrow> Inl err
                | Inr claims \<Rightarrow> Inr claims)))"

text \<open>
  \<open>claimsFromUserInfo\<close> in three parts: finding the endpoint, the request and its
  answer, and the reading of the answer.
\<close>

definition userInfoEndpoint :: "oidc_client \<Rightarrow> string \<Rightarrow> error + string" where
  "userInfoEndpoint oidcClient issuerURL =
     (case isHTTPS oidcClient issuerURL of
        Some err \<Rightarrow> Inl err
      | None \<Rightarrow>
          (case OAuthClient oidcClient of
             Some err \<Rightarrow> Inl err
           | None \<Rightarrow>
               (case FetchProviderConfig oidcClient issuerURL of
                  Inl err \<Rightarrow> Inl err
                | Inr pc \<Rightarrow>
                    (case UserInfoEndpoint pc of
                       None \<Rightarrow> Inl (NotFound ''UserInfo endpoint not found'')
                     | Some endpoint \<Rightarrow>
                         (case isHTTPS oidcClient endpoint of
                            Some err \<Rightarrow> Inl err
                          | None \<Rightarrow> Inr endpoint)))))"

definition userInfoRequest :: "string \<Rightarrow> string \<Rightarrow> http_request" where
  "userInfoRequest endpoint token =
     \<lparr>http_Method = ''GET'', http_URL = \<lparr>url_Base = endpoint, url_Query = Map.empty\<rparr>,
      http_Authorization = ''Bearer '' @ token\<rparr>"

definition readUserInfo :: "oidc_client \<Rightarrow> http_response \<Rightarrow> error + Claims" where
  "readUserInfo oidcClient resp =
     (if StatusCode resp < 200 \<or> StatusCode resp > 299
      then Inl (AccessDenied ''bad status code'')
      else (case Body resp of
              Inl err \<Rightarrow> Inl err
            | Inr bs \<Rightarrow>
                (case json_DecodeClaims oidcClient bs of
                   Inl err \<Rightarrow> Inl err
                 | Inr claims \<Rightarrow> Inr claims)))"

definition claimsFromUserInfo ::
  "oidc_client \<Rightarrow> string \<Rightarrow> string \<Rightarrow> AuthServer \<Rightarrow> (error + Claims) \<times> AuthServer" where
  "claimsFromUserInfo oidcClient issuerURL token s =
     (case userInfoEndpoint oidcClient issuerURL of
        Inl err \<Rightarrow> (Inl err, s)
      | Inr endpoint \<Rightarrow>
          (case http_NewRequest oidcClient ''GET'' \<lparr>url_Base = endpoint, url_Query = Map.empty\<rparr> of
             Some err \<Rightarrow> (Inl err, s)
           | None \<Rightarrow>
               (case HttpClient oidcClient (sent s) (userInfoRequest endpoint token) of
                  Inl err \<Rightarrow> Inl err
                | Inr resp \<Rightarrow> readUserInfo oidcClient resp,
                s\<lparr>sent := sent s @ [userInfoRequest endpoint token]\<rparr>)))"

definition newGsuiteClient ::
  "constants \<Rightarrow> oidc_client \<Rightarrow> string \<Rightarrow> string \<Rightarrow> string \<Rightarrow> error + gsuiteClient" where
  "newGsuiteClient K oidcClient issuerURL email token =
     (case isHTTPS oidcClient issuerURL of
        Some err \<Rightarrow> Inl err
      | None \<Rightarrow>
          (case OAuthClient oidcClient of
             Some err \<Rightarrow> Inl err
           | None \<Rightarrow>
               (case teleport_GSuiteGroupsEndpoint K of
                  Inl err \<Rightarrow> Inl err
                | Inr u \<Rightarrow>
                    Inr \<lparr>Client = HttpClient oidcClient,
                         NewRequest = http_NewRequest oidcClient,
                         Unmarshal = json_UnmarshalGroups oidcClient,
                         url = u, userEmail = email, accessToken = token\<rparr>)))"

definition claimsFromGSuite ::
  "constants \<Rightarrow> oidc_client \<Rightarrow> string \<Rightarrow> string \<Rightarrow> string \<Rightarrow> AuthServer
     \<Rightarrow> (error + Claims) \<times> AuthServer" where
  "claimsFromGSuite K oidcClient issuerURL email token s =
     (case newGsuiteClient K oidcClient issuerURL email token of
        Inl err \<Rightarrow> (Inl err, s)
      | Inr client \<Rightarrow> fetchGroups (auth_MaxPages K) client s)"

text \<open>
  \<open>getClaims\<close>, from its end to its start. \<open>return nil, trace.Wrap(err)\<close> is
  \<open>return_nil_Wrap\<close>: \<open>trace.Wrap(nil)\<close> is nil, so with no error at hand the function
  returns a nil claim map and a nil error.
\<close>

definition return_nil_Wrap :: "error option \<Rightarrow> error + Claims option" where
  "return_nil_Wrap err = (case err of Some e \<Rightarrow> Inl e | None \<Rightarrow> Inr None)"

definition getClaims_gsuite ::
  "constants \<Rightarrow> oidc_client \<Rightarrow> string \<Rightarrow> string list \<Rightarrow> TokenResponse \<Rightarrow> Claims \<Rightarrow> AuthServer
     \<Rightarrow> (error + Claims option) \<times> AuthServer" where
  "getClaims_gsuite K oidcClient issuerURL scope t claims s =
     (if issuerURL = teleport_GSuiteIssuerURL K \<and> teleport_GSuiteGroupsScope K \<in> set scope
      then (case StringClaim claims ''email'' of
              (email, _, Some err) \<Rightarrow> (Inl err, s)
            | (email, _, None) \<Rightarrow>
                (case claimsFromGSuite K oidcClient issuerURL email (AccessToken t) s of
                   (Inl err, s') \<Rightarrow>
                     if \<not> IsNotFound err then (Inl err, s') else (Inr (Some claims), s')
                 | (Inr gsuiteClaims, s') \<Rightarrow>
                     (case mergeClaims claims gsuiteClaims of
                        Inl err \<Rightarrow> (Inl err, s')
                      | Inr claims' \<Rightarrow> (Inr (Some claims'), s'))))
      else (Inr (Some claims), s))"

definition getClaims_subject ::
  "constants \<Rightarrow> oidc_client \<Rightarrow> string \<Rightarrow> string list \<Rightarrow> TokenResponse \<Rightarrow> Claims \<Rightarrow> Claims
     \<Rightarrow> AuthServer \<Rightarrow> (error + Claims option) \<times> AuthServer" where
  "getClaims_subject K oidcClient issuerURL scope t idTokenClaims userInfoClaims s =
     (case StringClaim idTokenClaims ''sub'' of
        (idsub, exists, err) \<Rightarrow>
          if err \<noteq> None \<or> \<not> exists then (return_nil_Wrap err, s)
          else (case StringClaim userInfoClaims ''sub'' of
                  (uisub, exists, err) \<Rightarrow>
                    if err \<noteq> None \<or> \<not> exists then (return_nil_Wrap err, s)
                    else if idsub \<noteq> uisub
                    then (Inl (BadParameter ''invalid subject in UserInfo''), s)
                    else (case mergeClaims idTokenClaims userInfoClaims of
                            Inl err \<Rightarrow> (Inl err, s)
                          | Inr claims \<Rightarrow>
                              getClaims_gsuite K oidcClient issuerURL scope t claims s)))"

definition getClaims ::
  "constants \<Rightarrow> oidc_client \<Rightarrow> string \<Rightarrow> string list \<Rightarrow> string \<Rightarrow> AuthServer
     \<Rightarrow> (error + Claims option) \<times> AuthServer" where
  "getClaims K oidcClient issuerURL scope code s =
     (case OAuthClient oidcClient of
        Some err \<Rightarrow> (Inl err, s)
      | None \<Rightarrow>
          (case RequestToken oidcClient code of
             Inl err \<Rightarrow> (Inl err, s)
           | Inr t \<Rightarrow>
               (case claimsFromIDToken oidcClient (IDToken t) of
                  Inl err \<Rightarrow> (Inl err, s)
                | Inr idTokenClaims \<Rightarrow>
                    (case claimsFromUserInfo oidcClient issuerURL (AccessToken t) s of
                       (Inl err, s') \<Rightarrow>
                         if IsNotFound err then (Inr (Some idTokenClaims), s') else (Inl err, s')
                     | (Inr userInfoClaims, s') \<Rightarrow>
                         getClaims_subject K oidcClient issuerURL scope t
                           idTokenClaims userInfoClaims s'))))"

section \<open>ACR values\<close>

text \<open>A nil claim map reads like an empty one.\<close>

definition entries :: "Claims option \<Rightarrow> Claims" where
  "entries claims = (case claims of None \<Rightarrow> [] | Some c \<Rightarrow> c)"

text \<open>The loop of the NetIQ rule: is one of the values the string \<open>acrValue\<close>?\<close>

fun acrValueMatched :: "string \<Rightarrow> gvalue list \<Rightarrow> bool" where
  "acrValueMatched acrValue [] = False"
| "acrValueMatched acrValue (GString vv # vs) =
     (if acrValue = vv then True else acrValueMatched acrValue vs)"
| "acrValueMatched acrValue (v # vs) = acrValueMatched acrValue vs"

definition validateACRValues_NetIQ :: "string \<Rightarrow> Claims option \<Rightarrow> error option" where
  "validateACRValues_NetIQ acrValue claims =
     (case map_of (entries claims) ''acr'' of
        None \<Rightarrow> Some (BadParameter ''acr not found in claims'')
      | Some tokenAcr \<Rightarrow>
          (case tokenAcr of
             GMap tokenAcrMap \<Rightarrow>
               (case map_of tokenAcrMap ''values'' of
                  None \<Rightarrow> Some (BadParameter ''acr.values not found in claims'')
                | Some tokenAcrValues \<Rightarrow>
                    (case tokenAcrValues of
                       GSlice tokenAcrValuesSlice \<Rightarrow>
                         if \<not> acrValueMatched acrValue tokenAcrValuesSlice
                         then Some (BadParameter ''acr claim does not match'')
                         else None
                     | _ \<Rightarrow> Some (BadParameter ''acr.values unexpected type'')))
           | _ \<Rightarrow> Some (BadParameter ''acr unexpected type'')))"

definition validateACRValues_default :: "string \<Rightarrow> Claims option \<Rightarrow> error option" where
  "validateACRValues_default acrValue claims =
     (case StringClaim (entries claims) ''acr'' of
        (claimValue, exists, err) \<Rightarrow>
          if \<not> exists then Some (BadParameter ''acr claim does not exist'')
          else if err \<noteq> None then err
          else if claimValue \<noteq> acrValue then Some (BadParameter ''acr claim does not match'')
          else None)"

definition validateACRValues :: "constants \<Rightarrow> string \<Rightarrow> string \<Rightarrow> Claims option \<Rightarrow> error option" where
  "validateACRValues K acrValue identityProvider claims =
     (if identityProvider = teleport_NetIQ K then validateACRValues_NetIQ acrValue claims
      else validateACRValues_default acrValue claims)"

section \<open>Dynamic user provisioning\<close>

definition buildOIDCRoles :: "OIDCConnector \<Rightarrow> Claims option \<Rightarrow> error + string list" where
  "buildOIDCRoles connector claims =
     (let roles = MapClaims connector claims
      in if length roles = 0
         then Inl (AccessDenied ''unable to map claims to role for connector'')
         else Inr roles)"

text \<open>\<open>Claims.StringsClaim\<close> of go-oidc: a \<open>[]string\<close>, or a slice of strings only.\<close>

fun all_strings :: "gvalue list \<Rightarrow> string list option" where
  "all_strings [] = Some []"
| "all_strings (GString v # vs) = (case all_strings vs of None \<Rightarrow> None | Some ret \<Rightarrow> Some (v # ret))"
| "all_strings (v # vs) = None"

definition StringsClaim :: "Claims \<Rightarrow> string \<Rightarrow> string list \<times> bool \<times> error option" where
  "StringsClaim c name =
     (case map_of c name of
        None \<Rightarrow> ([], False, None)
      | Some cl \<Rightarrow>
          (case cl of
             GStrings v \<Rightarrow> (v, True, None)
           | GSlice v \<Rightarrow>
               (case all_strings v of
                  None \<Rightarrow> ([], False, Some (Failure ''unable to parse claim as string array''))
                | Some ret \<Rightarrow> (ret, True, None))
           | _ \<Rightarrow> ([], False, Some (Failure ''unable to parse claim as string array''))))"

text \<open>The body of the loop of \<open>claimsToTraitMap\<close>, and the loop over the claim names.\<close>

definition claimsToTraitMap_step ::
  "Claims \<Rightarrow> string \<Rightarrow> (string \<Rightarrow> string list option) \<Rightarrow> (string \<Rightarrow> string list option)" where
  "claimsToTraitMap_step claims claimName traits =
     (let traits = (case StringClaim claims claimName of
                      (claimValue, ok, _) \<Rightarrow> if ok then traits(claimName \<mapsto> [claimValue]) else traits)
      in case StringsClaim claims claimName of
           (claimValues, ok, _) \<Rightarrow> if ok then traits(claimName \<mapsto> claimValues) else traits)"

definition claimsToTraitMap :: "Claims \<Rightarrow> (string \<Rightarrow> string list option)" where
  "claimsToTraitMap claims = fold (claimsToTraitMap_step claims) (map fst claims) Map.empty"

text \<open>
  Modelled from the spec: the user store is code of the package \<open>services\<close>, outside the
  sources at hand. The spec has it as get and put keyed by name, "returning NotFound when
  absent": \<open>GetUser\<close> gives NotFound for a name without a user, \<open>UpsertUser\<close> writes the
  user under its name; each fails when the backend does.
\<close>

definition GetUser :: "collaborators \<Rightarrow> AuthServer \<Rightarrow> string \<Rightarrow> error + User" where
  "GetUser a s name =
     (if backend_fails a CallGetUser then Inl (Failure ''backend'')
      else (case users s name of
              None \<Rightarrow> Inl (NotFound ''user is not found'')
            | Some u \<Rightarrow> Inr u))"

definition UpsertUser :: "collaborators \<Rightarrow> User \<Rightarrow> AuthServer \<Rightarrow> error option \<times> AuthServer" where
  "UpsertUser a user s =
     (if backend_fails a CallUpsertUser then (Some (Failure ''backend''), s)
      else (None, s\<lparr>users := (users s)(user_Name user \<mapsto> user)\<rparr>))"

text \<open>The user record that \<open>createOIDCUser\<close> hands to \<open>GenerateUser\<close>.\<close>

definition newOIDCUser ::
  "constants \<Rightarrow> collaborators \<Rightarrow> OIDCConnector \<Rightarrow> oidc_Identity \<Rightarrow> string list
     \<Rightarrow> (string \<Rightarrow> string list option) \<Rightarrow> User" where
  "newOIDCUser K a connector ident roles traits =
     \<lparr>user_Name = ident_Email ident,
      user_Roles = roles,
      user_Traits = traits,
      user_Expires = ident_ExpiresAt ident,
      user_OIDCIdentities = [\<lparr>ConnectorID = conn_Name connector, Username = ident_Email ident\<rparr>],
      user_CreatedBy =
        \<lparr>cb_User = ''system'', cb_Time = time_Now a,
         cb_Connector = Some \<lparr>ref_Type = teleport_ConnectorOIDC K, ref_ID = conn_Name connector,
                               ref_Identity = ident_Email ident\<rparr>\<rparr>\<rparr>"

text \<open>
  The second half of \<open>createOIDCUser\<close>: the check of the user that exists already,
  and the write.
\<close>

definition createOIDCUser_store :: "collaborators \<Rightarrow> oidc_Identity \<Rightarrow> User \<Rightarrow> AuthServer \<Rightarrow> error option \<times> AuthServer" where
  "createOIDCUser_store a ident user s =
     (case GetUser a s (ident_Email ident) of
        Inl err \<Rightarrow> if \<not> IsNotFound err then (Some err, s) else UpsertUser a user s
      | Inr existingUser \<Rightarrow>
          (case cb_Connector (user_CreatedBy existingUser) of
             None \<Rightarrow> (Some (AlreadyExists ''local user already exists''), s)
           | Some connectorRef \<Rightarrow> UpsertUser a user s))"

definition createOIDCUser ::
  "constants \<Rightarrow> collaborators \<Rightarrow> OIDCConnector \<Rightarrow> oidc_Identity \<Rightarrow> Claims option \<Rightarrow> AuthServer
     \<Rightarrow> error option \<times> AuthServer" where
  "createOIDCUser K a connector ident claims s =
     (case buildOIDCRoles connector claims of
        Inl err \<Rightarrow> (Some err, s)
      | Inr roles \<Rightarrow>
          (let traits = claimsToTraitMap (entries claims)
           in case GenerateUser a (newOIDCUser K a connector ident roles traits) of
                Inl err \<Rightarrow> (Some err, s)
              | Inr user \<Rightarrow> createOIDCUser_store a ident user s))"

section \<open>Validation of the OIDC callback\<close>

text \<open>
  Modelled from the spec: \<open>utils.MinTTL\<close>, \<open>utils.ToTTL\<close> and
  \<open>RoleSet.AdjustSessionTTL\<close> are code of the packages \<open>utils\<close> and \<open>services\<close>, which
  are not among the sources at hand. The spec calls them "the minimum of" two TTLs, the
  "remaining identity lifetime", and "the role-set-adjusted minimum of (remaining
  identity lifetime, role policy)"; the policy of a role is its \<open>role_MaxSessionTTL\<close>.
\<close>

definition MinTTL :: "int \<Rightarrow> int \<Rightarrow> int" where
  "MinTTL a b = min a b"

definition ToTTL :: "time \<Rightarrow> time \<Rightarrow> int" where
  "ToTTL now tm = tm - now"

definition AdjustSessionTTL :: "RoleSet \<Rightarrow> int \<Rightarrow> int" where
  "AdjustSessionTTL roles ttl = fold (\<lambda>role t. min t (role_MaxSessionTTL role)) roles ttl"

text \<open>\<open>url.Values\<close> and its \<open>Get\<close>: the first value of the key, or the empty string.\<close>

type_synonym Values = "(string \<times> string list) list"

definition q_Get :: "Values \<Rightarrow> string \<Rightarrow> string" where
  "q_Get q k = (case map_of q k of None \<Rightarrow> [] | Some [] \<Rightarrow> [] | Some (v # vs) \<Rightarrow> v)"

text \<open>
  Modelled from the spec: the store of web sessions is code of the package \<open>services\<close>,
  outside the sources at hand; the spec has sessions among what is persisted by "get/put
  ... each keyed by name". \<open>UpsertWebSession\<close> writes the session under the name of the
  user, and fails when the backend does.
\<close>

definition UpsertWebSession ::
  "collaborators \<Rightarrow> string \<Rightarrow> WebSession \<Rightarrow> AuthServer \<Rightarrow> error option \<times> AuthServer" where
  "UpsertWebSession a user sess s =
     (if backend_fails a CallUpsertWebSession then (Some (Failure ''backend''), s)
      else (None, s\<lparr>webSessions := (webSessions s)(user \<mapsto> sess)\<rparr>))"

text \<open>
  \<open>validateOIDCAuthCallback\<close> in parts, in the order of the source: the query
  parameters; the lookups; the claims; the ACR values and the identity; the response and
  the provisioning of the user; the user and its roles; the web session; the
  certificates.
\<close>

definition callback_query :: "Values \<Rightarrow> error + string \<times> string" where
  "callback_query q =
     (if q_Get q ''error'' \<noteq> [] then Inl (OAuth2 ''invalid_request'' (q_Get q ''error''))
      else if q_Get q ''code'' = [] then Inl (OAuth2 ''invalid_request'' ''code query param must be set'')
      else if q_Get q ''state'' = [] then Inl (OAuth2 ''invalid_request'' ''missing state query param'')
      else Inr (q_Get q ''code'', q_Get q ''state''))"

definition callback_lookups ::
  "collaborators \<Rightarrow> string \<Rightarrow> error + string \<times> OIDCAuthRequest \<times> OIDCConnector \<times> oidc_client" where
  "callback_lookups a stateToken =
     (case GetClusterName a of
        Inl err \<Rightarrow> Inl err
      | Inr clusterName \<Rightarrow>
          (case GetOIDCAuthRequest a stateToken of
             Inl err \<Rightarrow> Inl err
           | Inr req \<Rightarrow>
               (case GetOIDCConnector a (req_ConnectorID req) of
                  Inl err \<Rightarrow> Inl err
                | Inr connector \<Rightarrow>
                    (case getOIDCClient a connector of
                       Inl err \<Rightarrow> Inl err
                     | Inr oidcClient \<Rightarrow> Inr (clusterName, req, connector, oidcClient)))))"

definition callback_identity ::
  "constants \<Rightarrow> OIDCConnector \<Rightarrow> oidc_client \<Rightarrow> Claims option \<Rightarrow> error + oidc_Identity" where
  "callback_identity K connector oidcClient claims =
     (case (if ACR connector \<noteq> []
            then validateACRValues K (ACR connector) (Provider connector) claims
            else None) of
        Some err \<Rightarrow> Inl err
      | None \<Rightarrow>
          (case IdentityFromClaims oidcClient claims of
             Inl err \<Rightarrow> Inl (OAuth2 ''unsupported_response_type'' ''unable to convert claims to identity'')
           | Inr ident \<Rightarrow> Inr ident))"

definition callback_response :: "OIDCConnector \<Rightarrow> OIDCAuthRequest \<Rightarrow> oidc_Identity \<Rightarrow> OIDCAuthResponse" where
  "callback_response connector req ident =
     \<lparr>resp_Username = [],
      resp_Identity = \<lparr>ConnectorID = conn_Name connector, Username = ident_Email ident\<rparr>,
      resp_Session = None, resp_Cert = [], resp_TLSCert = [], resp_Req = req, HostSigners = []\<rparr>"

definition callback_provision ::
  "constants \<Rightarrow> collaborators \<Rightarrow> OIDCConnector \<Rightarrow> oidc_Identity \<Rightarrow> Claims option \<Rightarrow> AuthServer
     \<Rightarrow> error option \<times> AuthServer" where
  "callback_provision K a connector ident claims s =
     (if length (ClaimsToRoles connector) \<noteq> 0
      then createOIDCUser K a connector ident claims s
      else (None, s))"

definition callback_user ::
  "collaborators \<Rightarrow> OIDCAuthRequest \<Rightarrow> oidc_Identity \<Rightarrow> AuthServer \<Rightarrow> error + User \<times> RoleSet" where
  "callback_user a req ident s =
     (case GetUserByOIDCIdentity a (users s)
             \<lparr>ConnectorID = req_ConnectorID req, Username = ident_Email ident\<rparr> of
        Inl err \<Rightarrow> Inl err
      | Inr user \<Rightarrow>
          (case FetchRoles a (user_Roles user) (user_Traits user) of
             Inl err \<Rightarrow> Inl err
           | Inr roles \<Rightarrow> Inr (user, roles)))"

definition callback_session ::
  "constants \<Rightarrow> collaborators \<Rightarrow> OIDCAuthRequest \<Rightarrow> oidc_Identity \<Rightarrow> User \<Rightarrow> RoleSet
     \<Rightarrow> OIDCAuthResponse \<Rightarrow> AuthServer \<Rightarrow> (error + OIDCAuthResponse) \<times> AuthServer" where
  "callback_session K a req ident user roles response s =
     (let sessionTTL = AdjustSessionTTL roles (ToTTL (clock_Now a AtSessionTTL) (ident_ExpiresAt ident));
          bearerTokenTTL = MinTTL (auth_BearerTokenTTL K) sessionTTL
      in if CreateWebSession req
         then (case NewWebSession a (user_Name user) of
                 Inl err \<Rightarrow> (Inl err, s)
               | Inr sess0 \<Rightarrow>
                   (let sess = sess0\<lparr>ExpiryTime := clock_Now a AtSessionExpiry + sessionTTL,
                                     BearerTokenExpiryTime := clock_Now a AtBearerExpiry + bearerTokenTTL\<rparr>
                    in case UpsertWebSession a (user_Name user) sess s of
                         (Some err, s') \<Rightarrow> (Inl err, s')
                       | (None, s') \<Rightarrow> (Inr (response\<lparr>resp_Session := Some sess\<rparr>), s')))
         else (Inr response, s))"

definition callback_cert ::
  "collaborators \<Rightarrow> string \<Rightarrow> OIDCAuthRequest \<Rightarrow> oidc_Identity \<Rightarrow> User \<Rightarrow> RoleSet
     \<Rightarrow> OIDCAuthResponse \<Rightarrow> error + OIDCAuthResponse" where
  "callback_cert a clusterName req ident user roles response =
     (if length (PublicKey req) \<noteq> 0
      then (let certTTL = MinTTL (ToTTL (clock_Now a AtCertTTL) (ident_ExpiresAt ident)) (CertTTL req)
            in case generateUserCert a
                      \<lparr>cr_user = user, cr_roles = roles, cr_ttl = certTTL,
                       cr_publicKey = PublicKey req, cr_compatibility = Compatibility req\<rparr> of
                 Inl err \<Rightarrow> Inl err
               | Inr certs \<Rightarrow>
                   (case GetCertAuthority a (HostCA, clusterName) False of
                      Inl err \<Rightarrow> Inl err
                    | Inr authority \<Rightarrow>
                        Inr (response\<lparr>resp_Cert := ssh certs, resp_TLSCert := tls certs,
                                      HostSigners := HostSigners response @ [authority]\<rparr>)))
      else Inr response)"

text \<open>From the resolution of the user to the end of the function.\<close>

definition callback_issue ::
  "constants \<Rightarrow> collaborators \<Rightarrow> string \<Rightarrow> OIDCAuthRequest \<Rightarrow> oidc_Identity \<Rightarrow> OIDCAuthResponse
     \<Rightarrow> AuthServer \<Rightarrow> (error + OIDCAuthResponse) \<times> AuthServer" where
  "callback_issue K a clusterName req ident response s =
     (case callback_user a req ident s of
        Inl err \<Rightarrow> (Inl err, s)
      | Inr (user, roles) \<Rightarrow>
          (case callback_session K a req ident user roles (response\<lparr>resp_Username := user_Name user\<rparr>) s of
             (Inl err, s') \<Rightarrow> (Inl err, s')
           | (Inr response', s') \<Rightarrow>
               (callback_cert a clusterName req ident user roles response', s')))"

text \<open>From the claims, which may be nil, to the end of the function.\<close>

definition callback_claims ::
  "constants \<Rightarrow> collaborators \<Rightarrow> string \<Rightarrow> OIDCAuthRequest \<Rightarrow> OIDCConnector \<Rightarrow> oidc_client
     \<Rightarrow> Claims option \<Rightarrow> AuthServer \<Rightarrow> (error + OIDCAuthResponse) \<times> AuthServer" where
  "callback_claims K a clusterName req connector oidcClient claims s =
     (case callback_identity K connector oidcClient claims of
        Inl err \<Rightarrow> (Inl err, s)
      | Inr ident \<Rightarrow>
          (case callback_provision K a connector ident claims s of
             (Some err, s') \<Rightarrow> (Inl err, s')
           | (None, s') \<Rightarrow>
               if \<not> CheckUser req then (Inr (callback_response connector req ident), s')
               else callback_issue K a clusterName req ident (callback_response connector req ident) s'))"

definition validateOIDCAuthCallback ::
  "constants \<Rightarrow> collaborators \<Rightarrow> Values \<Rightarrow> AuthServer \<Rightarrow> (error + OIDCAuthResponse) \<times> AuthServer" where
  "validateOIDCAuthCallback K a q s =
     (case callback_query q of
        Inl err \<Rightarrow> (Inl err, s)
      | Inr (code, stateToken) \<Rightarrow>
          (case callback_lookups a stateToken of
             Inl err \<Rightarrow> (Inl err, s)
           | Inr (clusterName, req, connector, oidcClient) \<Rightarrow>
               (case getClaims K oidcClient (IssuerURL connector) (Scope connector) code s of
                  (Inl err, s') \<Rightarrow>
                    (Inl (OAuth2 ''unsupported_response_type'' ''unable to construct claims''), s')
                | (Inr claims, s') \<Rightarrow>
                    callback_claims K a clusterName req connector oidcClient claims s')))"

definition ValidateOIDCAuthCallback ::
  "constants \<Rightarrow> collaborators \<Rightarrow> Values \<Rightarrow> AuthServer \<Rightarrow> (error + OIDCAuthResponse) \<times> AuthServer" where
  "ValidateOIDCAuthCallback K a q s =
     (case validateOIDCAuthCallback K a q s of
        (Inl err, s') \<Rightarrow>
          (Inl err,
           EmitAuditEvent UserLoginEvent
             [LoginMethod LoginMethodOIDC, AuthAttemptSuccess False, AuthAttemptErr err] s')
      | (Inr re, s') \<Rightarrow>
          (Inr re,
           EmitAuditEvent UserLoginEvent
             [EventUser (resp_Username re), AuthAttemptSuccess True, LoginMethod LoginMethodOIDC] s'))"

section \<open>A concrete provider, connector and request\<close>

text \<open>
  The connector and the identity of the test \<open>TestCreateOIDCUser\<close>, a request that asks
  for a user, a web session and a certificate valid for one hour, and a provider that
  answers with given ID-token and UserInfo claims.
\<close>

definition demo_constants :: constants where
  "demo_constants =
     \<lparr>teleport_GSuiteIssuerURL = ''https://accounts.google.com'',
      teleport_GSuiteGroupsScope = ''https://www.googleapis.com/auth/admin.directory.group.readonly'',
      teleport_GSuiteGroupsEndpoint =
        Inr \<lparr>url_Base = ''https://www.googleapis.com/admin/directory/v1/groups'', url_Query = Map.empty\<rparr>,
      teleport_NetIQ = ''netiq'',
      teleport_ConnectorOIDC = ''oidc'',
      auth_MaxPages = 99,
      auth_BearerTokenTTL = 600000000000\<rparr>"

definition demo_connector :: OIDCConnector where
  "demo_connector =
     \<lparr>conn_Name = ''oidcService'',
      IssuerURL = ''https://www.example.com'',
      Scope = [''profile'', ''email''],
      ACR = [],
      Provider = [],
      ClaimsToRoles = [(''email'', ''foo@example.com'', [''admin''])],
      MapClaims = (\<lambda>claims. if map_of (entries claims) ''email'' = Some (GString ''foo@example.com'')
                            then [''admin''] else [])\<rparr>"

definition demo_request :: OIDCAuthRequest where
  "demo_request =
     \<lparr>req_ConnectorID = ''oidcService'',
      StateToken = ''state'',
      RedirectURL = ''https://www.example.com/redirect'',
      CheckUser = True,
      CreateWebSession = True,
      PublicKey = ''ssh-rsa AAAA'',
      CertTTL = 3600000000000,
      Compatibility = []\<rparr>"

definition demo_IdentityFromClaims :: "Claims option \<Rightarrow> error + oidc_Identity" where
  "demo_IdentityFromClaims claims =
     (case claims of
        None \<Rightarrow> Inl (Failure ''nil claim set'')
      | Some c \<Rightarrow>
          Inr \<lparr>ident_ID = fst (StringClaim c ''sub''),
               ident_Name = [],
               ident_Email = fst (StringClaim c ''email''),
               ident_ExpiresAt = (case map_of c ''exp'' of Some (GNumber n) \<Rightarrow> n * 1000000000 | _ \<Rightarrow> 0)\<rparr>)"

definition demo_client :: "Claims \<Rightarrow> Claims \<Rightarrow> oidc_client" where
  "demo_client idTokenClaims userInfoClaims =
     \<lparr>OAuthClient = None,
      RequestToken = (\<lambda>code. Inr \<lparr>IDToken = ''id-token'', AccessToken = ''access-token''\<rparr>),
      jose_ParseJWT = (\<lambda>tok. Inr tok),
      VerifyJWT = (\<lambda>jwt. None),
      jwt_Claims = (\<lambda>jwt. Inr idTokenClaims),
      isHTTPS = (\<lambda>u. None),
      FetchProviderConfig = (\<lambda>u. Inr \<lparr>UserInfoEndpoint = Some ''https://www.example.com/userinfo''\<rparr>),
      HttpClient = (\<lambda>h req. Inr \<lparr>StatusCode = 200, Body = Inr ''json''\<rparr>),
      http_NewRequest = (\<lambda>m u. None),
      json_DecodeClaims = (\<lambda>bs. Inr userInfoClaims),
      json_UnmarshalGroups = (\<lambda>bs. Inr \<lparr>NextPageToken = [], Groups = []\<rparr>),
      IdentityFromClaims = demo_IdentityFromClaims\<rparr>"

definition demo_hostCA :: CertAuthority where
  "demo_hostCA =
     \<lparr>ca_ClusterName = ''me.localhost'', ca_Type = HostCA, SigningKeys = [],
      CheckingKeys = [''host-pub''], TLSKeyPairs = [\<lparr>Cert = ''host-cert'', Key = []\<rparr>]\<rparr>"

definition demo_collaborators :: "Claims \<Rightarrow> Claims \<Rightarrow> collaborators" where
  "demo_collaborators idTokenClaims userInfoClaims =
     \<lparr>GetClusterName = Inr ''me.localhost'',
      GetOIDCAuthRequest = (\<lambda>st. if st = ''state'' then Inr demo_request
                                  else Inl (NotFound ''request'')),
      GetOIDCConnector = (\<lambda>name. if name = ''oidcService'' then Inr demo_connector
                                   else Inl (NotFound ''connector'')),
      getOIDCClient = (\<lambda>c. Inr (demo_client idTokenClaims userInfoClaims)),
      GenerateUser = (\<lambda>u. Inr u),
      GetUserByOIDCIdentity = (\<lambda>us i. case us (Username i) of
                                          None \<Rightarrow> Inl (NotFound ''user'')
                                        | Some u \<Rightarrow> Inr u),
      FetchRoles = (\<lambda>names traits. Inr [\<lparr>role_Name = ''admin'', role_MaxSessionTTL = 108000000000000\<rparr>]),
      NewWebSession = (\<lambda>u. Inr \<lparr>ws_User = u, ws_ID = ''sid'', ExpiryTime = 0, BearerTokenExpiryTime = 0\<rparr>),
      generateUserCert = (\<lambda>r. if cr_ttl r = 60000000000
                               then Inr \<lparr>ssh = ''ssh-cert-1m'', tls = ''tls-cert-1m''\<rparr>
                               else Inr \<lparr>ssh = ''ssh-cert'', tls = ''tls-cert''\<rparr>),
      GetCertAuthority = (\<lambda>i l. Inr demo_hostCA),
      backend_fails = (\<lambda>c. False),
      clock_Now = (\<lambda>r. 1000000000000),
      time_Now = 1000000000000\<rparr>"

definition demo_query :: Values where
  "demo_query = [(''code'', [''authcode'']), (''state'', [''state''])]"

text \<open>An ID token for the subject \<open>A\<close> that expires one minute after the clock's time.\<close>

definition demo_idTokenClaims :: Claims where
  "demo_idTokenClaims =
     [(''sub'', GString ''A''), (''email'', GString ''foo@example.com''), (''exp'', GNumber 1060)]"

text \<open>
  A local user and a user created through a connector, both named as the federated
  email of the concrete identity, and the stores that hold one of them.
\<close>

definition demo_ident :: oidc_Identity where
  "demo_ident =
     \<lparr>ident_ID = ''A'', ident_Name = [], ident_Email = ''foo@example.com'',
      ident_ExpiresAt = 1060000000000\<rparr>"




section \<open>Identities of servers\<close>

text \<open>
  What the libraries make of byte buffers. An SSH public key is a plain key or a
  certificate (the type assertion \<open>pubKey.(*ssh.Certificate)\<close>); a signer is the signer
  of a private key, given by its public key, or a certificate together with such a
  signer (\<open>ssh.NewCertSigner\<close>).
\<close>

record ssh_Certificate =
  cert_Key :: bytes
  ValidPrincipals :: "string list"
  Extensions :: "(string \<times> string) list"

datatype ssh_PublicKey = PlainKey bytes | Certificate ssh_Certificate

datatype ssh_Signer = BareKeySigner bytes | CertSigner ssh_Certificate bytes

record pkix_Name =
  CommonName :: string
  Organization :: "string list"

record x509_Certificate =
  Subject :: pkix_Name
  Issuer :: pkix_Name
  DNSNames :: "string list"

record tlsca_Identity =
  tlsca_Username :: string
  tlsca_Groups :: "string list"

record tls_Config =
  CipherSuites :: "nat list"
  Certificates :: "(bytes \<times> bytes) list"
  RootCAs :: "x509_Certificate list"
  ClientCAs :: "x509_Certificate list"
  ServerName :: string

text \<open>
  The functions of \<open>golang.org/x/crypto/ssh\<close>, \<open>crypto/tls\<close> and of the packages
  \<open>teleport\<close>, \<open>tlsca\<close> and \<open>utils\<close> that the code calls and that are not among the
  sources at hand. \<open>ssh_ParsePrivateKey\<close> gives the public key of the signer it makes.
\<close>

record libraries =
  ssh_ParseAuthorizedKey :: "bytes \<Rightarrow> error + ssh_PublicKey"
  ssh_ParsePrivateKey :: "bytes \<Rightarrow> error + bytes"
  teleport_ParseRoles :: "string \<Rightarrow> error + string list"
  utils_CertExtensionRole :: string
  utils_CertExtensionAuthority :: string
  utils_DefaultCipherSuites :: "nat list"
  tlsca_ParseCertificatePEM :: "bytes \<Rightarrow> error + x509_Certificate"
  tlsca_FromSubject :: "pkix_Name \<Rightarrow> error + tlsca_Identity"
  tls_X509KeyPair :: "bytes \<Rightarrow> bytes \<Rightarrow> error option"
  EncodeClusterName :: "string \<Rightarrow> string"

text \<open>
  \<open>ssh.NewCertSigner\<close>: the certificate must certify the public key of the signer.
\<close>

definition NewCertSigner :: "ssh_Certificate \<Rightarrow> bytes \<Rightarrow> error + ssh_Signer" where
  "NewCertSigner cert pub =
     (if cert_Key cert \<noteq> pub then Inl (Failure ''ssh: signer and cert have different public key'')
      else Inr (CertSigner cert pub))"

record IdentityID =
  Role :: string
  HostUUID :: string
  NodeName :: string

record Identity =
  ID :: IdentityID
  KeyBytes :: bytes
  CertBytes :: bytes
  TLSCertBytes :: bytes
  TLSCACertsBytes :: "bytes list"
  KeySigner :: "ssh_Signer option"
  id_Cert :: "ssh_Certificate option"
  ClusterName :: string

definition HasTLSConfig :: "Identity \<Rightarrow> bool" where
  "HasTLSConfig i \<longleftrightarrow> length (TLSCACertsBytes i) \<noteq> 0 \<and> length (TLSCertBytes i) \<noteq> 0"

text \<open>The loop of \<open>TLSConfig\<close> over the certificates of the authorities.\<close>

fun parseCACerts :: "libraries \<Rightarrow> bytes list \<Rightarrow> error + x509_Certificate list" where
  "parseCACerts L [] = Inr []"
| "parseCACerts L (c # cs) =
     (case tlsca_ParseCertificatePEM L c of
        Inl err \<Rightarrow> Inl err
      | Inr parsedCert \<Rightarrow>
          (case parseCACerts L cs of
             Inl err \<Rightarrow> Inl err
           | Inr pool \<Rightarrow> Inr (parsedCert # pool)))"

definition TLSConfig :: "libraries \<Rightarrow> Identity \<Rightarrow> nat list \<Rightarrow> error + tls_Config" where
  "TLSConfig L i cipherSuites =
     (if \<not> HasTLSConfig i then Inl (NotFound ''no TLS credentials setup for this identity'')
      else (case tls_X509KeyPair L (TLSCertBytes i) (KeyBytes i) of
              Some err \<Rightarrow> Inl (BadParameter ''failed to parse private key'')
            | None \<Rightarrow>
                (case parseCACerts L (TLSCACertsBytes i) of
                   Inl err \<Rightarrow> Inl err
                 | Inr certPool \<Rightarrow>
                     Inr \<lparr>CipherSuites = cipherSuites,
                          Certificates = [(TLSCertBytes i, KeyBytes i)],
                          RootCAs = certPool, ClientCAs = certPool,
                          ServerName = EncodeClusterName L (ClusterName i)\<rparr>)))"

text \<open>
  \<open>ReadTLSIdentityFromKeyPair\<close>: the certificate and its names, then the identity and
  its TLS configuration. \<open>id.Groups[0]\<close> panics when the subject has no group.
\<close>

definition tlsClusterName :: "x509_Certificate \<Rightarrow> error + string" where
  "tlsClusterName cert =
     (if length (Organization (Issuer cert)) = 0 then Inl (BadParameter ''missing CA organization'')
      else if hd (Organization (Issuer cert)) = [] then Inl (BadParameter ''misssing cluster name'')
      else Inr (hd (Organization (Issuer cert))))"

definition tlsIdentity ::
  "libraries \<Rightarrow> tlsca_Identity \<Rightarrow> string \<Rightarrow> bytes \<Rightarrow> bytes \<Rightarrow> bytes list \<Rightarrow> error + Identity" where
  "tlsIdentity L ident clusterName keyBytes certBytes caCertsBytes =
     (case tlsca_Groups ident of
        [] \<Rightarrow> Inl (Panic ''index out of range'')
      | g # gs \<Rightarrow>
          (let identity =
                 \<lparr>ID = \<lparr>Role = g, HostUUID = tlsca_Username ident, NodeName = []\<rparr>,
                  KeyBytes = keyBytes, CertBytes = [], TLSCertBytes = certBytes,
                  TLSCACertsBytes = caCertsBytes, KeySigner = None, id_Cert = None,
                  ClusterName = clusterName\<rparr>
           in case TLSConfig L identity (utils_DefaultCipherSuites L) of
                Inl err \<Rightarrow> Inl err
              | Inr config \<Rightarrow> Inr identity))"

definition ReadTLSIdentityFromKeyPair ::
  "libraries \<Rightarrow> bytes \<Rightarrow> bytes \<Rightarrow> bytes list \<Rightarrow> error + Identity" where
  "ReadTLSIdentityFromKeyPair L keyBytes certBytes caCertsBytes =
     (if length keyBytes = 0 then Inl (BadParameter ''missing private key'')
      else if length certBytes = 0 then Inl (BadParameter ''missing certificate'')
      else (case tlsca_ParseCertificatePEM L certBytes of
              Inl err \<Rightarrow> Inl err
            | Inr cert \<Rightarrow>
                (case tlsca_FromSubject L (Subject cert) of
                   Inl err \<Rightarrow> Inl err
                 | Inr ident \<Rightarrow>
                     (case tlsClusterName cert of
                        Inl err \<Rightarrow> Inl err
                      | Inr clusterName \<Rightarrow>
                          tlsIdentity L ident clusterName keyBytes certBytes caCertsBytes))))"

text \<open>
  \<open>ReadSSHIdentityFromKeyPair\<close> in parts, in the order of the source: the certificate,
  the signer, the principals, the role, the cluster name, and the function itself. An
  extension that the certificate does not have reads as the empty string.
\<close>

definition sshCertificate :: "libraries \<Rightarrow> bytes \<Rightarrow> error + ssh_Certificate" where
  "sshCertificate L certBytes =
     (case ssh_ParseAuthorizedKey L certBytes of
        Inl err \<Rightarrow> Inl (BadParameter ''failed to parse server certificate'')
      | Inr pubKey \<Rightarrow>
          (case pubKey of
             Certificate cert \<Rightarrow> Inr cert
           | PlainKey k \<Rightarrow> Inl (BadParameter ''expected ssh.Certificate'')))"

definition sshCertSigner :: "libraries \<Rightarrow> bytes \<Rightarrow> ssh_Certificate \<Rightarrow> error + ssh_Signer" where
  "sshCertSigner L keyBytes cert =
     (case ssh_ParsePrivateKey L keyBytes of
        Inl err \<Rightarrow> Inl (BadParameter ''failed to parse private key'')
      | Inr signer \<Rightarrow>
          (case NewCertSigner cert signer of
             Inl err \<Rightarrow> Inl (BadParameter ''unsupported private key'')
           | Inr certSigner \<Rightarrow> Inr certSigner))"

definition checkPrincipals :: "ssh_Certificate \<Rightarrow> error option" where
  "checkPrincipals cert =
     (if length (ValidPrincipals cert) < 1
      then Some (BadParameter ''valid principals: at least one valid principal is required'')
      else if [] \<in> set (ValidPrincipals cert)
      then Some (BadParameter ''valid principal can not be empty'')
      else None)"

definition extension :: "ssh_Certificate \<Rightarrow> string \<Rightarrow> string" where
  "extension cert name = (case map_of (Extensions cert) name of None \<Rightarrow> [] | Some v \<Rightarrow> v)"

definition certRole :: "libraries \<Rightarrow> ssh_Certificate \<Rightarrow> error + string" where
  "certRole L cert =
     (if length (Extensions cert) = 0
      then Inl (BadParameter ''extensions: misssing needed extensions for host roles'')
      else if extension cert (utils_CertExtensionRole L) = []
      then Inl (BadParameter ''misssing cert extension'')
      else (case teleport_ParseRoles L (extension cert (utils_CertExtensionRole L)) of
              Inl err \<Rightarrow> Inl err
            | Inr roles \<Rightarrow>
                if length roles \<noteq> 1 then Inl (Failure ''expected one role per certificate'')
                else Inr (hd roles)))"

definition certClusterName :: "libraries \<Rightarrow> ssh_Certificate \<Rightarrow> error + string" where
  "certClusterName L cert =
     (if extension cert (utils_CertExtensionAuthority L) = []
      then Inl (BadParameter ''missing cert extension'')
      else Inr (extension cert (utils_CertExtensionAuthority L)))"

definition sshIdentity ::
  "libraries \<Rightarrow> bytes \<Rightarrow> bytes \<Rightarrow> ssh_Certificate \<Rightarrow> ssh_Signer \<Rightarrow> error + Identity" where
  "sshIdentity L keyBytes certBytes cert certSigner =
     (case checkPrincipals cert of
        Some err \<Rightarrow> Inl err
      | None \<Rightarrow>
          (case certRole L cert of
             Inl err \<Rightarrow> Inl err
           | Inr role \<Rightarrow>
               (case certClusterName L cert of
                  Inl err \<Rightarrow> Inl err
                | Inr clusterName \<Rightarrow>
                    Inr \<lparr>ID = \<lparr>Role = role, HostUUID = hd (ValidPrincipals cert), NodeName = []\<rparr>,
                         KeyBytes = keyBytes, CertBytes = certBytes, TLSCertBytes = [],
                         TLSCACertsBytes = [], KeySigner = Some certSigner, id_Cert = Some cert,
                         ClusterName = clusterName\<rparr>)))"

definition ReadSSHIdentityFromKeyPair :: "libraries \<Rightarrow> bytes \<Rightarrow> bytes \<Rightarrow> error + Identity" where
  "ReadSSHIdentityFromKeyPair L keyBytes certBytes =
     (if length keyBytes = 0 then Inl (BadParameter ''PrivateKey: missing private key'')
      else if length certBytes = 0 then Inl (BadParameter ''Cert: missing parameter'')
      else (case sshCertificate L certBytes of
              Inl err \<Rightarrow> Inl err
            | Inr cert \<Rightarrow>
                (case sshCertSigner L keyBytes cert of
                   Inl err \<Rightarrow> Inl err
                 | Inr certSigner \<Rightarrow> sshIdentity L keyBytes certBytes cert certSigner)))"

definition ReadIdentityFromKeyPair ::
  "libraries \<Rightarrow> bytes \<Rightarrow> bytes \<Rightarrow> bytes \<Rightarrow> bytes list \<Rightarrow> error + Identity" where
  "ReadIdentityFromKeyPair L keyBytes sshCertBytes tlsCertBytes tlsCACertsBytes =
     (case ReadSSHIdentityFromKeyPair L keyBytes sshCertBytes of
        Inl err \<Rightarrow> Inl err
      | Inr identity \<Rightarrow>
          if length tlsCertBytes \<noteq> 0
          then (case ReadTLSIdentityFromKeyPair L keyBytes tlsCertBytes tlsCACertsBytes of
                  Inl err \<Rightarrow> Inl err
                | Inr tlsIdent \<Rightarrow>
                    Inr (identity\<lparr>TLSCertBytes := tlsCertBytes, TLSCACertsBytes := tlsCACertsBytes\<rparr>))
          else Inr identity)"

text \<open>
  The causes of failure of \<open>ReadSSHIdentityFromKeyPair\<close> that the specification lists,
  in its words: a buffer is empty, the certificate bytes do not parse as a certificate,
  no principal or an empty one, the role or authority extension is absent, the role
  extension does not encode exactly one role. And the causes the code has besides:
  the key bytes do not parse as a private key, the certificate certifies another key,
  the role string does not parse.
\<close>

definition listed_failure :: "libraries \<Rightarrow> bytes \<Rightarrow> bytes \<Rightarrow> bool" where
  "listed_failure L keyBytes certBytes \<longleftrightarrow>
     keyBytes = [] \<or> certBytes = [] \<or>
     (case ssh_ParseAuthorizedKey L certBytes of
        Inl err \<Rightarrow> True
      | Inr (PlainKey k) \<Rightarrow> True
      | Inr (Certificate cert) \<Rightarrow>
          ValidPrincipals cert = [] \<or> [] \<in> set (ValidPrincipals cert) \<or>
          Extensions cert = [] \<or>
          extension cert (utils_CertExtensionRole L) = [] \<or>
          extension cert (utils_CertExtensionAuthority L) = [] \<or>
          (case teleport_ParseRoles L (extension cert (utils_CertExtensionRole L)) of
             Inl err \<Rightarrow> False
           | Inr roles \<Rightarrow> length roles \<noteq> 1))"

definition further_failure :: "libraries \<Rightarrow> bytes \<Rightarrow> bytes \<Rightarrow> bool" where
  "further_failure L keyBytes certBytes \<longleftrightarrow>
     (case ssh_ParseAuthorizedKey L certBytes of
        Inr (Certificate cert) \<Rightarrow>
          (case ssh_ParsePrivateKey L keyBytes of
             Inl err \<Rightarrow> True
           | Inr pub \<Rightarrow> cert_Key cert \<noteq> pub) \<or>
          (case teleport_ParseRoles L (extension cert (utils_CertExtensionRole L)) of
             Inl err \<Rightarrow> True
           | Inr roles \<Rightarrow> False)
      | _ \<Rightarrow> False)"

text \<open>
  Libraries for one host: the key \<open>host-key\<close> with the public key \<open>host-pub\<close>, and a
  certificate for that key with one principal and the role \<open>Node\<close> of the cluster
  \<open>me.localhost\<close>; a TLS certificate \<open>host-tlscert\<close> for that key and the
  certificate \<open>ca-cert\<close> of the authority. Every other buffer fails to parse.
\<close>

definition demo_cert :: ssh_Certificate where
  "demo_cert =
     \<lparr>cert_Key = ''host-pub'',
      ValidPrincipals = [''00000000-0000-0000-0000-000000000000.me.localhost''],
      Extensions = [(''x-teleport-role'', ''Node''), (''x-teleport-authority'', ''me.localhost'')]\<rparr>"

definition demo_libraries :: libraries where
  "demo_libraries =
     \<lparr>ssh_ParseAuthorizedKey = (\<lambda>bs. if bs = ''host-cert'' then Inr (Certificate demo_cert)
                                      else Inl (Failure ''ssh: no key found'')),
      ssh_ParsePrivateKey = (\<lambda>bs. if bs = ''host-key'' then Inr ''host-pub''
                                   else Inl (Failure ''ssh: no key found'')),
      teleport_ParseRoles = (\<lambda>str. if str = ''Node'' then Inr [''Node'']
                                    else Inl (BadParameter ''role is not registered'')),
      utils_CertExtensionRole = ''x-teleport-role'',
      utils_CertExtensionAuthority = ''x-teleport-authority'',
      utils_DefaultCipherSuites = [],
      tlsca_ParseCertificatePEM =
        (\<lambda>bs. if bs = ''host-tlscert'' \<or> bs = ''ca-cert''
              then Inr \<lparr>Subject = \<lparr>CommonName = ''00000000-0000-0000-0000-000000000000.me.localhost'',
                                     Organization = [''Node'']\<rparr>,
                        Issuer = \<lparr>CommonName = ''me.localhost'', Organization = [''me.localhost'']\<rparr>,
                        DNSNames = []\<rparr>
              else Inl (BadParameter ''expected PEM-encoded block'')),
      tlsca_FromSubject =
        (\<lambda>n. if CommonName n = [] \<or> Organization n = []
             then Inl (BadParameter ''missing identity username or groups'')
             else Inr \<lparr>tlsca_Username = CommonName n, tlsca_Groups = Organization n\<rparr>),
      tls_X509KeyPair = (\<lambda>c k. if c = ''host-tlscert'' \<and> k = ''host-key'' then None
                                else Some (Failure ''tls: failed to find any PEM data'')),
      EncodeClusterName = (\<lambda>n. n)\<rparr>"

section \<open>Bootstrap of the auth server\<close>

datatype private_key = RSAPrivateKey bytes | OtherPrivateKey bytes

record ClusterConfig =
  ClusterID :: string
  cc_Spec :: string

record InitConfig =
  DataDir :: string
  cfg_HostUUID :: string
  cfg_ClusterName :: string
  Authorities :: "CertAuthority list"
  cfg_ClusterConfig :: ClusterConfig
  Roles :: "string list"
  ReverseTunnels :: "string list"
  StaticTokens :: string
  AuthPreference :: string
  SkipPeriodicOperations :: bool

text \<open>
  The backend, as far as \<open>Init\<close> reads what it has written: the certificate
  authorities, the cluster configuration and the cluster name. \<open>rest\<close> is everything
  else that is kept (roles, tunnels, tokens, preferences, namespaces, users, remote
  clusters, locks, the files of the data directory).
\<close>

record 'r backend =
  storedAuthorities :: "CertAuthority list"
  storedClusterConfig :: "ClusterConfig option"
  storedClusterName :: "string option"
  rest :: 'r

text \<open>
  The calls of \<open>Init\<close> that neither read nor write an authority, the cluster
  configuration or the cluster name through their result: they may fail, and they change
  the rest of the backend only.
\<close>

datatype other_call =
    AcquireLock string
  | NewAuthServer
  | UpsertRole string
  | UpsertReverseTunnel string
  | SetStaticTokens string
  | SetAuthPreference string
  | UpsertNamespace
  | CreateRole
  | migrateLegacyResources

datatype store_call =
    CallCreateCertAuthority nat
  | CallGetClusterConfig
  | CallSetClusterConfig
  | CallSetClusterName
  | CallGetClusterName
  | CallGetCertAuthority CertAuthType
  | CallUpsertCertAuthority CertAuthType

text \<open>
  What differs from one run to the next: the calls of the store that fail, the outcome
  of the other calls, the keys that are generated (\<open>asrv.GenerateKeyPair\<close> and
  \<open>tlsca.GenerateSelfSignedCA\<close>, for the user or the host authority) and the random
  identifier \<open>uuid.New()\<close>.
\<close>

record 'r chance =
  call_fails :: "store_call \<Rightarrow> bool"
  other :: "other_call \<Rightarrow> 'r backend \<Rightarrow> error option \<times> 'r"
  GenerateKeyPair :: "CertAuthType \<Rightarrow> error + bytes \<times> bytes"
  GenerateSelfSignedCA :: "CertAuthType \<Rightarrow> pkix_Name \<Rightarrow> error + bytes \<times> bytes"
  uuid_New :: string

text \<open>
  What does not: the marshaler of authorities, \<open>ssh.ParseRawPrivateKey\<close> and
  \<open>tlsca.GenerateSelfSignedCAWithPrivateKey\<close> on the key material of an RSA key. The
  TLS functions give the key PEM first, the certificate PEM second.
\<close>

record authority_lib =
  GenerateCertAuthority :: "CertAuthority \<Rightarrow> error + CertAuthority"
  ssh_ParseRawPrivateKey :: "bytes \<Rightarrow> error + private_key"
  GenerateSelfSignedCAWithPrivateKey :: "bytes \<Rightarrow> pkix_Name \<Rightarrow> error + bytes \<times> bytes"

definition ca_id :: "CertAuthority \<Rightarrow> CertAuthID" where
  "ca_id ca = (ca_Type ca, ca_ClusterName ca)"

definition find_authority :: "CertAuthority list \<Rightarrow> CertAuthID \<Rightarrow> CertAuthority option" where
  "find_authority cas i = find (\<lambda>ca. ca_id ca = i) cas"

definition put_authority :: "CertAuthority \<Rightarrow> CertAuthority list \<Rightarrow> CertAuthority list" where
  "put_authority ca cas = filter (\<lambda>c. ca_id c \<noteq> ca_id ca) cas @ [ca]"

text \<open>
  Modelled from the spec: the persistence of authorities, cluster configuration and
  cluster name is code of the packages \<open>services\<close> and \<open>backend\<close>, outside the sources
  at hand. The spec has it as get and put keyed by name, "returning NotFound when absent,
  AlreadyExists on conflicting create"; an authority is keyed by cluster name and type,
  and the cluster name is created, not overwritten ("the first successful set wins").
  A call that \<open>call_fails\<close> gives an error of the backend and changes nothing.
\<close>

definition store_GetCertAuthority ::
  "'r chance \<Rightarrow> 'r backend \<Rightarrow> CertAuthID \<Rightarrow> error + CertAuthority" where
  "store_GetCertAuthority env b i =
     (if call_fails env (CallGetCertAuthority (fst i)) then Inl (Failure ''backend'')
      else (case find_authority (storedAuthorities b) i of
              None \<Rightarrow> Inl (NotFound ''authority not found'')
            | Some ca \<Rightarrow> Inr ca))"

definition store_CreateCertAuthority ::
  "'r chance \<Rightarrow> nat \<Rightarrow> CertAuthority \<Rightarrow> 'r backend \<Rightarrow> error option \<times> 'r backend" where
  "store_CreateCertAuthority env n ca b =
     (if call_fails env (CallCreateCertAuthority n) then (Some (Failure ''backend''), b)
      else (case find_authority (storedAuthorities b) (ca_id ca) of
              Some existing \<Rightarrow> (Some (AlreadyExists ''authority exists''), b)
            | None \<Rightarrow> (None, b\<lparr>storedAuthorities := put_authority ca (storedAuthorities b)\<rparr>)))"

definition store_UpsertCertAuthority ::
  "'r chance \<Rightarrow> CertAuthority \<Rightarrow> 'r backend \<Rightarrow> error option \<times> 'r backend" where
  "store_UpsertCertAuthority env ca b =
     (if call_fails env (CallUpsertCertAuthority (ca_Type ca)) then (Some (Failure ''backend''), b)
      else (None, b\<lparr>storedAuthorities := put_authority ca (storedAuthorities b)\<rparr>))"

definition store_GetClusterConfig :: "'r chance \<Rightarrow> 'r backend \<Rightarrow> error + ClusterConfig" where
  "store_GetClusterConfig env b =
     (if call_fails env CallGetClusterConfig then Inl (Failure ''backend'')
      else (case storedClusterConfig b of
              None \<Rightarrow> Inl (NotFound ''cluster configuration not found'')
            | Some c \<Rightarrow> Inr c))"

definition store_SetClusterConfig ::
  "'r chance \<Rightarrow> ClusterConfig \<Rightarrow> 'r backend \<Rightarrow> error option \<times> 'r backend" where
  "store_SetClusterConfig env c b =
     (if call_fails env CallSetClusterConfig then (Some (Failure ''backend''), b)
      else (None, b\<lparr>storedClusterConfig := Some c\<rparr>))"

definition store_SetClusterName ::
  "'r chance \<Rightarrow> string \<Rightarrow> 'r backend \<Rightarrow> error option \<times> 'r backend" where
  "store_SetClusterName env n b =
     (if call_fails env CallSetClusterName then (Some (Failure ''backend''), b)
      else (case storedClusterName b of
              Some existing \<Rightarrow> (Some (AlreadyExists ''cluster name exists''), b)
            | None \<Rightarrow> (None, b\<lparr>storedClusterName := Some n\<rparr>)))"

definition store_GetClusterName :: "'r chance \<Rightarrow> 'r backend \<Rightarrow> error + string" where
  "store_GetClusterName env b =
     (if call_fails env CallGetClusterName then Inl (Failure ''backend'')
      else (case storedClusterName b of
              None \<Rightarrow> Inl (NotFound ''cluster name not found'')
            | Some n \<Rightarrow> Inr n))"

definition other_step :: "'r chance \<Rightarrow> other_call \<Rightarrow> 'r backend \<Rightarrow> error option \<times> 'r backend" where
  "other_step env c b = (case other env c b of (err, r) \<Rightarrow> (err, b\<lparr>rest := r\<rparr>))"

text \<open>Sequencing: the next step runs on the backend the last one left, unless that failed.\<close>

definition and_then ::
  "error option \<times> 'r backend \<Rightarrow> ('r backend \<Rightarrow> error option \<times> 'r backend)
     \<Rightarrow> error option \<times> 'r backend" where
  "and_then r f = (case r of (Some err, b) \<Rightarrow> (Some err, b) | (None, b) \<Rightarrow> f b)"

text \<open>
  \<open>Init\<close> in parts, in the order of the source. First the checks of the configuration,
  the lock and the server, and the loops over the roles, the authorities and the reverse
  tunnels of the configuration.
\<close>

definition Init_checks :: "InitConfig \<Rightarrow> error option" where
  "Init_checks cfg =
     (if DataDir cfg = [] then Some (BadParameter ''DataDir: data dir can not be empty'')
      else if cfg_HostUUID cfg = [] then Some (BadParameter ''HostUUID: host UUID can not be empty'')
      else None)"

fun Init_roles :: "'r chance \<Rightarrow> string list \<Rightarrow> 'r backend \<Rightarrow> error option \<times> 'r backend" where
  "Init_roles env [] b = (None, b)"
| "Init_roles env (role # roles) b = and_then (other_step env (UpsertRole role) b) (Init_roles env roles)"

text \<open>
  One authority of the configuration, the \<open>n\<close>-th: an authority that exists already is
  left as it is.
\<close>

definition Init_authority ::
  "authority_lib \<Rightarrow> 'r chance \<Rightarrow> nat \<Rightarrow> CertAuthority \<Rightarrow> 'r backend \<Rightarrow> error option \<times> 'r backend" where
  "Init_authority lib env n ca0 b =
     (case GenerateCertAuthority lib ca0 of
        Inl err \<Rightarrow> (Some err, b)
      | Inr ca \<Rightarrow>
          (case store_CreateCertAuthority env n ca b of
             (Some err, b') \<Rightarrow> if \<not> IsAlreadyExists err then (Some err, b') else (None, b')
           | (None, b') \<Rightarrow> (None, b')))"

fun Init_authorities ::
  "authority_lib \<Rightarrow> 'r chance \<Rightarrow> nat \<Rightarrow> CertAuthority list \<Rightarrow> 'r backend \<Rightarrow> error option \<times> 'r backend" where
  "Init_authorities lib env n [] b = (None, b)"
| "Init_authorities lib env n (ca # cas) b =
     and_then (Init_authority lib env n ca b) (Init_authorities lib env (Suc n) cas)"

fun Init_tunnels :: "'r chance \<Rightarrow> string list \<Rightarrow> 'r backend \<Rightarrow> error option \<times> 'r backend" where
  "Init_tunnels env [] b = (None, b)"
| "Init_tunnels env (tunnel # tunnels) b =
     and_then (other_step env (UpsertReverseTunnel tunnel) b) (Init_tunnels env tunnels)"

text \<open>
  The cluster configuration: the identifier that is stored is reused, a new one is made
  only when none is stored.
\<close>

definition Init_clusterID :: "'r chance \<Rightarrow> 'r backend \<Rightarrow> error + string" where
  "Init_clusterID env b =
     (case store_GetClusterConfig env b of
        Inl err \<Rightarrow> if \<not> IsNotFound err then Inl err else Inr (uuid_New env)
      | Inr clusterConfig \<Rightarrow>
          if ClusterID clusterConfig \<noteq> [] then Inr (ClusterID clusterConfig)
          else Inr (uuid_New env))"

definition Init_clusterConfig :: "'r chance \<Rightarrow> InitConfig \<Rightarrow> 'r backend \<Rightarrow> error option \<times> 'r backend" where
  "Init_clusterConfig env cfg b =
     (case Init_clusterID env b of
        Inl err \<Rightarrow> (Some err, b)
      | Inr clusterID \<Rightarrow>
          store_SetClusterConfig env ((cfg_ClusterConfig cfg)\<lparr>ClusterID := clusterID\<rparr>) b)"

text \<open>
  The cluster name: the first server sets it; a server that finds one goes on under the
  name that is stored. The result is the name that the rest of \<open>Init\<close> uses as
  \<open>cfg.ClusterName\<close>.
\<close>

definition Init_clusterName ::
  "'r chance \<Rightarrow> InitConfig \<Rightarrow> 'r backend \<Rightarrow> (error + string) \<times> 'r backend" where
  "Init_clusterName env cfg b =
     (case store_SetClusterName env (cfg_ClusterName cfg) b of
        (None, b') \<Rightarrow> (Inr (cfg_ClusterName cfg), b')
      | (Some err, b') \<Rightarrow>
          if \<not> IsAlreadyExists err then (Inl err, b')
          else (case store_GetClusterName env b' of
                  Inl err' \<Rightarrow> (Inl err', b')
                | Inr cn \<Rightarrow>
                    if cn \<noteq> cfg_ClusterName cfg then (Inr cn, b')
                    else (Inr (cfg_ClusterName cfg), b')))"

text \<open>
  The static tokens, the authentication preference, the default namespace and the
  default admin role; a role that exists already is no error.
\<close>

definition Init_adminRole :: "'r chance \<Rightarrow> 'r backend \<Rightarrow> error option \<times> 'r backend" where
  "Init_adminRole env b =
     (case other_step env CreateRole b of
        (Some err, b') \<Rightarrow> if \<not> IsAlreadyExists err then (Some err, b') else (None, b')
      | (None, b') \<Rightarrow> (None, b'))"

definition Init_settings :: "'r chance \<Rightarrow> InitConfig \<Rightarrow> 'r backend \<Rightarrow> error option \<times> 'r backend" where
  "Init_settings env cfg b =
     and_then (other_step env (SetStaticTokens (StaticTokens cfg)) b) (\<lambda>b.
     and_then (other_step env (SetAuthPreference (AuthPreference cfg)) b) (\<lambda>b.
     and_then (other_step env UpsertNamespace b) (Init_adminRole env)))"

text \<open>
  The authorities of the cluster. On the first start (no authority of the type is
  stored) a key pair and a self-signed TLS authority are generated, for the user and the
  host authority alike.
\<close>

definition clusterSubject :: "string \<Rightarrow> pkix_Name" where
  "clusterSubject domain = \<lparr>CommonName = domain, Organization = [domain]\<rparr>"

definition firstStartCA ::
  "'r chance \<Rightarrow> CertAuthType \<Rightarrow> string \<Rightarrow> 'r backend \<Rightarrow> error option \<times> 'r backend" where
  "firstStartCA env t domain b =
     (case GenerateKeyPair env t of
        Inl err \<Rightarrow> (Some err, b)
      | Inr (priv, pub) \<Rightarrow>
          (case GenerateSelfSignedCA env t (clusterSubject domain) of
             Inl err \<Rightarrow> (Some err, b)
           | Inr (keyPEM, certPEM) \<Rightarrow>
               store_UpsertCertAuthority env
                 \<lparr>ca_ClusterName = domain, ca_Type = t, SigningKeys = [priv], CheckingKeys = [pub],
                  TLSKeyPairs = [\<lparr>Cert = certPEM, Key = keyPEM\<rparr>]\<rparr> b))"

text \<open>
  An authority that is stored without TLS key pairs is migrated. For the user authority
  the TLS authority is generated with \<open>tlsca.GenerateSelfSignedCA\<close>; for the host
  authority it is made of the first SSH signing key, which must be an RSA key.
\<close>

definition migrateUserCA ::
  "'r chance \<Rightarrow> string \<Rightarrow> CertAuthority \<Rightarrow> 'r backend \<Rightarrow> error option \<times> 'r backend" where
  "migrateUserCA env domain userCA b =
     (case GenerateSelfSignedCA env UserCA (clusterSubject domain) of
        Inl err \<Rightarrow> (Some err, b)
      | Inr (keyPEM, certPEM) \<Rightarrow>
          store_UpsertCertAuthority env
            (userCA\<lparr>TLSKeyPairs := [\<lparr>Cert = certPEM, Key = keyPEM\<rparr>]\<rparr>) b)"

definition hostPrivateKeyRSA :: "authority_lib \<Rightarrow> CertAuthority \<Rightarrow> error + bytes" where
  "hostPrivateKeyRSA lib hostCA =
     (case SigningKeys hostCA of
        [] \<Rightarrow> Inl (Panic ''index out of range'')
      | k # ks \<Rightarrow>
          (case ssh_ParseRawPrivateKey lib k of
             Inl err \<Rightarrow> Inl err
           | Inr privateKey \<Rightarrow>
               (case privateKey of
                  RSAPrivateKey privateKeyRSA \<Rightarrow> Inr privateKeyRSA
                | OtherPrivateKey other_key \<Rightarrow> Inl (BadParameter ''expected RSA private key''))))"

definition migrateHostCA ::
  "authority_lib \<Rightarrow> 'r chance \<Rightarrow> string \<Rightarrow> CertAuthority \<Rightarrow> 'r backend
     \<Rightarrow> error option \<times> 'r backend" where
  "migrateHostCA lib env domain hostCA b =
     (case hostPrivateKeyRSA lib hostCA of
        Inl err \<Rightarrow> (Some err, b)
      | Inr privateKeyRSA \<Rightarrow>
          (case GenerateSelfSignedCAWithPrivateKey lib privateKeyRSA (clusterSubject domain) of
             Inl err \<Rightarrow> (Some err, b)
           | Inr (keyPEM, certPEM) \<Rightarrow>
               store_UpsertCertAuthority env
                 (hostCA\<lparr>TLSKeyPairs := [\<lparr>Cert = certPEM, Key = keyPEM\<rparr>]\<rparr>) b))"

definition Init_userCA ::
  "'r chance \<Rightarrow> string \<Rightarrow> 'r backend \<Rightarrow> error option \<times> 'r backend" where
  "Init_userCA env domain b =
     (case store_GetCertAuthority env b (UserCA, domain) of
        Inl err \<Rightarrow> if \<not> IsNotFound err then (Some err, b) else firstStartCA env UserCA domain b
      | Inr userCA \<Rightarrow>
          if length (TLSKeyPairs userCA) = 0 then migrateUserCA env domain userCA b
          else (None, b))"

definition Init_hostCA ::
  "authority_lib \<Rightarrow> 'r chance \<Rightarrow> string \<Rightarrow> 'r backend \<Rightarrow> error option \<times> 'r backend" where
  "Init_hostCA lib env domain b =
     (case store_GetCertAuthority env b (HostCA, domain) of
        Inl err \<Rightarrow> if \<not> IsNotFound err then (Some err, b) else firstStartCA env HostCA domain b
      | Inr hostCA \<Rightarrow>
          if length (TLSKeyPairs hostCA) = 0 then migrateHostCA lib env domain hostCA b
          else (None, b))"

text \<open>
  \<open>Init\<close>: the part that stores what the configuration lists, the part about the
  cluster, and the function. The periodic operations that the last lines start in a
  goroutine of their own are left out. The result is the error, if any, and the backend
  as the call leaves it.
\<close>

definition Init_config ::
  "authority_lib \<Rightarrow> 'r chance \<Rightarrow> InitConfig \<Rightarrow> 'r backend \<Rightarrow> error option \<times> 'r backend" where
  "Init_config lib env cfg b =
     and_then (other_step env (AcquireLock (cfg_ClusterName cfg)) b) (\<lambda>b.
     and_then (other_step env NewAuthServer b) (\<lambda>b.
     and_then (Init_roles env (Roles cfg) b) (\<lambda>b.
     and_then (Init_authorities lib env 0 (Authorities cfg) b)
       (Init_tunnels env (ReverseTunnels cfg)))))"

definition Init_authoritiesOf ::
  "authority_lib \<Rightarrow> 'r chance \<Rightarrow> string \<Rightarrow> 'r backend \<Rightarrow> error option \<times> 'r backend" where
  "Init_authoritiesOf lib env domain b =
     and_then (Init_userCA env domain b) (\<lambda>b.
     and_then (Init_hostCA lib env domain b) (other_step env migrateLegacyResources))"

definition Init_cluster ::
  "authority_lib \<Rightarrow> 'r chance \<Rightarrow> InitConfig \<Rightarrow> 'r backend \<Rightarrow> error option \<times> 'r backend" where
  "Init_cluster lib env cfg b =
     and_then (Init_clusterConfig env cfg b) (\<lambda>b.
       case Init_clusterName env cfg b of
         (Inl err, b') \<Rightarrow> (Some err, b')
       | (Inr domain, b') \<Rightarrow>
           and_then (Init_settings env cfg b') (Init_authoritiesOf lib env domain))"

definition Init ::
  "authority_lib \<Rightarrow> 'r chance \<Rightarrow> InitConfig \<Rightarrow> 'r backend \<Rightarrow> error option \<times> 'r backend" where
  "Init lib env cfg b =
     (case Init_checks cfg of
        Some err \<Rightarrow> (Some err, b)
      | None \<Rightarrow> and_then (Init_config lib env cfg b) (Init_cluster lib env cfg))"

text \<open>
  For stating the idempotence: the part of the backend it is about; a step that leaves
  this part alone; an authority that is stored, and one that is stored with a TLS key
  pair; and the backend after a successful bootstrap with a configuration: the
  authorities of the configuration are stored, the cluster configuration is the one of
  the configuration with a cluster identifier, and the user and host authorities of the
  stored cluster name have TLS key pairs.
\<close>

definition core :: "'r backend \<Rightarrow> CertAuthority list \<times> ClusterConfig option \<times> string option" where
  "core b = (storedAuthorities b, storedClusterConfig b, storedClusterName b)"

definition keeps :: "('r backend \<Rightarrow> error option \<times> 'r backend) \<Rightarrow> bool" where
  "keeps f \<longleftrightarrow> (\<forall>b. core (snd (f b)) = core b)"

definition is_stored :: "'r backend \<Rightarrow> CertAuthID \<Rightarrow> bool" where
  "is_stored b i \<longleftrightarrow> find_authority (storedAuthorities b) i \<noteq> None"

definition has_tls :: "'r backend \<Rightarrow> CertAuthID \<Rightarrow> bool" where
  "has_tls b i \<longleftrightarrow>
     (case find_authority (storedAuthorities b) i of None \<Rightarrow> False | Some ca \<Rightarrow> TLSKeyPairs ca \<noteq> [])"

definition configured :: "authority_lib \<Rightarrow> CertAuthority list \<Rightarrow> 'r backend \<Rightarrow> bool" where
  "configured lib cas b \<longleftrightarrow>
     list_all (\<lambda>ca. case GenerateCertAuthority lib ca of
                      Inl err \<Rightarrow> True
                    | Inr ca' \<Rightarrow> is_stored b (ca_id ca')) cas"

definition bootstrapped :: "authority_lib \<Rightarrow> InitConfig \<Rightarrow> 'r backend \<Rightarrow> bool" where
  "bootstrapped lib cfg b \<longleftrightarrow>
     configured lib (Authorities cfg) b \<and>
     (case storedClusterConfig b of
        None \<Rightarrow> False
      | Some c \<Rightarrow> ClusterID c \<noteq> [] \<and> c = (cfg_ClusterConfig cfg)\<lparr>ClusterID := ClusterID c\<rparr>) \<and>
     (case storedClusterName b of
        None \<Rightarrow> False
      | Some n \<Rightarrow> has_tls b (UserCA, n) \<and> has_tls b (HostCA, n))"

text \<open>A step that leaves the core as it is in \<open>b\<close>, from every backend with that core.\<close>

definition idle_from :: "'r backend \<Rightarrow> ('r backend \<Rightarrow> error option \<times> 'r backend) \<Rightarrow> bool" where
  "idle_from b f \<longleftrightarrow> (\<forall>b1. core b1 = core b \<longrightarrow> core (snd (f b1)) = core b)"

text \<open>
  One backend after another: every authority that was stored still is, and the cluster
  configuration and the cluster name are the same.
\<close>

definition grows :: "'r backend \<Rightarrow> 'r backend \<Rightarrow> bool" where
  "grows b b' \<longleftrightarrow>
     (\<forall>i. is_stored b i \<longrightarrow> is_stored b' i) \<and>
     storedClusterConfig b' = storedClusterConfig b \<and> storedClusterName b' = storedClusterName b"

text \<open>
  The backend after the step for the authority \<open>i\<close>: that authority has a TLS key pair,
  the others are as before.
\<close>

definition settled :: "CertAuthID \<Rightarrow> 'r backend \<Rightarrow> 'r backend \<Rightarrow> bool" where
  "settled i b b' \<longleftrightarrow>
     has_tls b' i \<and>
     (\<forall>j. j \<noteq> i \<longrightarrow> find_authority (storedAuthorities b') j = find_authority (storedAuthorities b) j) \<and>
     (is_stored b i \<longrightarrow> is_stored b' i) \<and>
     storedClusterConfig b' = storedClusterConfig b \<and> storedClusterName b' = storedClusterName b"

text \<open>
  A cluster of the format before TLS: a user and a host authority with an SSH signing
  key each and no TLS key pair, and the name of the cluster. In the run at hand, nothing
  fails, the key material of a private key is its bytes, the TLS authority made of a key
  carries that key, and \<open>tlsca.GenerateSelfSignedCA\<close> makes a key of its own.
\<close>

definition legacy_userCA :: CertAuthority where
  "legacy_userCA =
     \<lparr>ca_ClusterName = ''me.localhost'', ca_Type = UserCA, SigningKeys = [''old-user-key''],
      CheckingKeys = [''old-user-pub''], TLSKeyPairs = []\<rparr>"

definition legacy_hostCA :: CertAuthority where
  "legacy_hostCA =
     \<lparr>ca_ClusterName = ''me.localhost'', ca_Type = HostCA, SigningKeys = [''old-host-key''],
      CheckingKeys = [''old-host-pub''], TLSKeyPairs = []\<rparr>"

definition legacy_backend :: "unit backend" where
  "legacy_backend =
     \<lparr>storedAuthorities = [legacy_userCA, legacy_hostCA], storedClusterConfig = None,
      storedClusterName = Some ''me.localhost'', rest = ()\<rparr>"

definition demo_authority_lib :: authority_lib where
  "demo_authority_lib =
     \<lparr>GenerateCertAuthority = (\<lambda>ca. Inr ca),
      ssh_ParseRawPrivateKey = (\<lambda>bs. Inr (RSAPrivateKey bs)),
      GenerateSelfSignedCAWithPrivateKey = (\<lambda>k n. Inr (k, ''cert of '' @ k))\<rparr>"

definition demo_chance :: "unit chance" where
  "demo_chance =
     \<lparr>call_fails = (\<lambda>c. False),
      other = (\<lambda>c b. (None, ())),
      GenerateKeyPair = (\<lambda>t. Inr (''new-key'', ''new-pub'')),
      GenerateSelfSignedCA = (\<lambda>t n. Inr (''fresh-tls-key'', ''cert of fresh-tls-key'')),
      uuid_New = ''2fd8bd74-6a7c-4c39-a1e0-8f5ea0e0f6a1''\<rparr>"

definition demo_InitConfig :: InitConfig where
  "demo_InitConfig =
     \<lparr>DataDir = ''/var/lib/teleport'',
      cfg_HostUUID = ''00000000-0000-0000-0000-000000000000'',
      cfg_ClusterName = ''me.localhost'',
      Authorities = [],
      cfg_ClusterConfig = \<lparr>ClusterID = [], cc_Spec = ''node''\<rparr>,
      Roles = [],
      ReverseTunnels = [],
      StaticTokens = [],
      AuthPreference = ''local'',
      SkipPeriodicOperations = True\<rparr>"

definition migrated_backend :: "unit backend" where
  "migrated_backend =
     \<lparr>storedAuthorities =
        [legacy_userCA\<lparr>TLSKeyPairs := [\<lparr>Cert = ''cert of fresh-tls-key'', Key = ''fresh-tls-key''\<rparr>]\<rparr>,
         legacy_hostCA\<lparr>TLSKeyPairs := [\<lparr>Cert = ''cert of old-host-key'', Key = ''old-host-key''\<rparr>]\<rparr>],
      storedClusterConfig =
        Some \<lparr>ClusterID = ''2fd8bd74-6a7c-4c39-a1e0-8f5ea0e0f6a1'', cc_Spec = ''node''\<rparr>,
      storedClusterName = Some ''me.localhost'', rest = ()\<rparr>"

text \<open>
  The randomness of a second start: other keys and another identifier than the first
  start drew.
\<close>

definition second_chance :: "unit chance" where
  "second_chance =
     \<lparr>call_fails = (\<lambda>c. False),
      other = (\<lambda>c b. (None, ())),
      GenerateKeyPair = (\<lambda>t. Inr (''second-key'', ''second-pub'')),
      GenerateSelfSignedCA = (\<lambda>t n. Inr (''second-tls-key'', ''cert of second-tls-key'')),
      uuid_New = ''8c1b9f0e-1f0e-4b5c-9d53-3d2f3a1f6c77''\<rparr>"

text \<open>
  A provider of GSuite: the ID token and UserInfo disagree on the email and on the
  groups, UserInfo adds a name, and the groups API answers with one page of one group.
\<close>

definition gsuite_idTokenClaims :: Claims where
  "gsuite_idTokenClaims = [(''sub'', GString ''A''), (''email'', GString ''foo@example.com'')]"

definition gsuite_userInfoClaims :: Claims where
  "gsuite_userInfoClaims =
     [(''sub'', GString ''A''), (''email'', GString ''bar@example.com''), (''name'', GString ''Foo'')]"

definition gsuite_provider :: oidc_client where
  "gsuite_provider =
     (demo_client gsuite_idTokenClaims gsuite_userInfoClaims)
       \<lparr>json_UnmarshalGroups :=
          (\<lambda>bs. Inr \<lparr>NextPageToken = [], Groups = [\<lparr>Email = ''dev@example.com''\<rparr>]\<rparr>)\<rparr>"

definition gsuite_scope :: "string list" where
  "gsuite_scope = [''email'', ''https://www.googleapis.com/auth/admin.directory.group.readonly'']"


section \<open>Properties of claim merging\<close>

lemma map_of_mergeClaims_step:
  "map_of (mergeClaims_step kv a) k =
     (case map_of a k of Some v \<Rightarrow> Some v | None \<Rightarrow> if k = fst kv then Some (snd kv) else None)"
  by (cases kv) (auto simp: mergeClaims_step_def map_add_def split: option.splits)

lemma map_of_fold_mergeClaims_step:
  "map_of (fold mergeClaims_step b a) k =
     (case map_of a k of Some v \<Rightarrow> Some v | None \<Rightarrow> map_of b k)"
proof (induction b arbitrary: a)
  case Nil
  show ?case by (simp split: option.splits)
next
  case (Cons kv b)
  show ?case
    by (cases kv) (simp add: Cons.IH map_of_mergeClaims_step split: option.splits)
qed

lemma getClaims_subject_match:
  "StringClaim idTokenClaims ''sub'' = (sub, True, None) \<Longrightarrow>
   StringClaim userInfoClaims ''sub'' = (sub, True, None) \<Longrightarrow>
   getClaims_subject K oc issuer scope t idTokenClaims userInfoClaims s =
     getClaims_gsuite K oc issuer scope t (fold mergeClaims_step userInfoClaims idTokenClaims) s"
  by (simp add: getClaims_subject_def mergeClaims_def)

lemma getClaims_gsuite_cases:
  "getClaims_gsuite K oc issuer scope t claims s = (Inr (Some m), s') \<Longrightarrow>
     m = claims \<or> (\<exists>gc. m = fold mergeClaims_step gc claims)"
  by (auto simp add: getClaims_gsuite_def mergeClaims_def
      split: if_splits prod.splits option.splits sum.splits)

lemma getClaims_gsuite_off:
  "\<not> (issuer = teleport_GSuiteIssuerURL K \<and> teleport_GSuiteGroupsScope K \<in> set scope) \<Longrightarrow>
   getClaims_gsuite K oc issuer scope t claims s = (Inr (Some claims), s)"
  by (auto simp add: getClaims_gsuite_def)

lemma getClaims_gsuite_on:
  "issuer = teleport_GSuiteIssuerURL K \<Longrightarrow> teleport_GSuiteGroupsScope K \<in> set scope \<Longrightarrow>
   StringClaim claims ''email'' = (email, ok, None) \<Longrightarrow>
   claimsFromGSuite K oc issuer email (AccessToken t) s = (Inr gc, s') \<Longrightarrow>
   getClaims_gsuite K oc issuer scope t claims s = (Inr (Some (fold mergeClaims_step gc claims)), s')"
  by (simp add: getClaims_gsuite_def mergeClaims_def)

text \<open>
  C8. Claim merging is left-biased: \<open>mergeClaims a b\<close> returns, without error, a map in
  which every key of \<open>a\<close> keeps the value it has in \<open>a\<close>, every key that only \<open>b\<close> has
  carries the value of \<open>b\<close>, and no other key is present. Consequently, in \<open>getClaims\<close>,
  when the ID token and UserInfo both give claims for the same subject: whatever claim
  set the function returns, a claim of the ID token has the value of the ID token, and a
  claim of UserInfo that the ID token lacks has the value of UserInfo; without the groups
  of GSuite the result is exactly the claims of the ID token completed by those of
  UserInfo; and with the groups of GSuite fetched, the group claims are added under the
  keys that neither has, and change no key that is there.
\<close>

theorem mergeClaims_left_biased:
  "(\<exists>m. mergeClaims a b = Inr m \<and>
       (\<forall>k. map_of m k = (case map_of a k of Some v \<Rightarrow> Some v | None \<Rightarrow> map_of b k))) \<and>
   (\<forall>t idTokenClaims userInfoClaims sub s1.
      OAuthClient oidcClient = None \<and> RequestToken oidcClient code = Inr t \<and>
      claimsFromIDToken oidcClient (IDToken t) = Inr idTokenClaims \<and>
      claimsFromUserInfo oidcClient issuerURL (AccessToken t) s = (Inr userInfoClaims, s1) \<and>
      StringClaim idTokenClaims ''sub'' = (sub, True, None) \<and>
      StringClaim userInfoClaims ''sub'' = (sub, True, None) \<longrightarrow>
        (\<forall>m s'. getClaims K oidcClient issuerURL scope code s = (Inr (Some m), s') \<longrightarrow>
           (\<forall>k v. map_of idTokenClaims k = Some v \<longrightarrow> map_of m k = Some v) \<and>
           (\<forall>k v. map_of idTokenClaims k = None \<and> map_of userInfoClaims k = Some v \<longrightarrow>
                  map_of m k = Some v)) \<and>
        (\<not> (issuerURL = teleport_GSuiteIssuerURL K \<and> teleport_GSuiteGroupsScope K \<in> set scope) \<longrightarrow>
           (\<exists>m. getClaims K oidcClient issuerURL scope code s = (Inr (Some m), s1) \<and>
                (\<forall>k. map_of m k =
                   (case map_of idTokenClaims k of Some v \<Rightarrow> Some v | None \<Rightarrow> map_of userInfoClaims k)))) \<and>
        (\<forall>merged email ok gsuiteClaims s2.
           issuerURL = teleport_GSuiteIssuerURL K \<and> teleport_GSuiteGroupsScope K \<in> set scope \<and>
           mergeClaims idTokenClaims userInfoClaims = Inr merged \<and>
           StringClaim merged ''email'' = (email, ok, None) \<and>
           claimsFromGSuite K oidcClient issuerURL email (AccessToken t) s1 = (Inr gsuiteClaims, s2) \<longrightarrow>
             (\<exists>m. getClaims K oidcClient issuerURL scope code s = (Inr (Some m), s2) \<and>
                  (\<forall>k. map_of m k =
                     (case map_of idTokenClaims k of
                        Some v \<Rightarrow> Some v
                      | None \<Rightarrow> (case map_of userInfoClaims k of
                                   Some v \<Rightarrow> Some v
                                 | None \<Rightarrow> map_of gsuiteClaims k))))))"
proof (intro conjI allI impI)
  show "\<exists>m. mergeClaims a b = Inr m \<and>
       (\<forall>k. map_of m k = (case map_of a k of Some v \<Rightarrow> Some v | None \<Rightarrow> map_of b k))"
    by (simp add: mergeClaims_def map_of_fold_mergeClaims_step)
next
  fix t idTokenClaims userInfoClaims sub s1
  assume h: "OAuthClient oidcClient = None \<and> RequestToken oidcClient code = Inr t \<and>
      claimsFromIDToken oidcClient (IDToken t) = Inr idTokenClaims \<and>
      claimsFromUserInfo oidcClient issuerURL (AccessToken t) s = (Inr userInfoClaims, s1) \<and>
      StringClaim idTokenClaims ''sub'' = (sub, True, None) \<and>
      StringClaim userInfoClaims ''sub'' = (sub, True, None)"
  define merged0 where "merged0 = fold mergeClaims_step userInfoClaims idTokenClaims"
  have g: "getClaims K oidcClient issuerURL scope code s =
             getClaims_gsuite K oidcClient issuerURL scope t merged0 s1"
    using h by (simp add: getClaims_def getClaims_subject_match merged0_def)
  have m0: "map_of merged0 k =
              (case map_of idTokenClaims k of Some v \<Rightarrow> Some v | None \<Rightarrow> map_of userInfoClaims k)" for k
    by (simp add: merged0_def map_of_fold_mergeClaims_step)
  {
    fix m s' k v
    assume r: "getClaims K oidcClient issuerURL scope code s = (Inr (Some m), s')"
    from getClaims_gsuite_cases[OF r[unfolded g]]
    have c: "m = merged0 \<or> (\<exists>gc. m = fold mergeClaims_step gc merged0)" .
    {
      assume "map_of idTokenClaims k = Some v"
      then show "map_of m k = Some v"
        using c by (auto simp add: m0 map_of_fold_mergeClaims_step)
    }
    {
      assume "map_of idTokenClaims k = None \<and> map_of userInfoClaims k = Some v"
      then show "map_of m k = Some v"
        using c by (auto simp add: m0 map_of_fold_mergeClaims_step)
    }
  }
  {
    assume "\<not> (issuerURL = teleport_GSuiteIssuerURL K \<and> teleport_GSuiteGroupsScope K \<in> set scope)"
    then have "getClaims K oidcClient issuerURL scope code s = (Inr (Some merged0), s1)"
      unfolding g by (rule getClaims_gsuite_off)
    then show "\<exists>m. getClaims K oidcClient issuerURL scope code s = (Inr (Some m), s1) \<and>
                (\<forall>k. map_of m k =
                   (case map_of idTokenClaims k of Some v \<Rightarrow> Some v | None \<Rightarrow> map_of userInfoClaims k))"
      using m0 by simp
  }
  {
    fix merged email ok gsuiteClaims s2
    assume w: "issuerURL = teleport_GSuiteIssuerURL K \<and> teleport_GSuiteGroupsScope K \<in> set scope \<and>
           mergeClaims idTokenClaims userInfoClaims = Inr merged \<and>
           StringClaim merged ''email'' = (email, ok, None) \<and>
           claimsFromGSuite K oidcClient issuerURL email (AccessToken t) s1 = (Inr gsuiteClaims, s2)"
    then have mm: "merged = merged0" by (simp add: mergeClaims_def merged0_def)
    have "getClaims K oidcClient issuerURL scope code s =
            (Inr (Some (fold mergeClaims_step gsuiteClaims merged0)), s2)"
      unfolding g using w[unfolded mm] by (intro getClaims_gsuite_on) blast+
    then show "\<exists>m. getClaims K oidcClient issuerURL scope code s = (Inr (Some m), s2) \<and>
                  (\<forall>k. map_of m k =
                     (case map_of idTokenClaims k of
                        Some v \<Rightarrow> Some v
                      | None \<Rightarrow> (case map_of userInfoClaims k of
                                   Some v \<Rightarrow> Some v
                                 | None \<Rightarrow> map_of gsuiteClaims k)))"
      by (simp add: map_of_fold_mergeClaims_step m0 split: option.splits)
  }
qed

section \<open>Properties of the group pagination\<close>


lemma fetched_append:
  "j < length h \<Longrightarrow> fetched g (h @ h') j = fetched g h j"
  by (simp add: fetched_def nth_append)





lemma loop_last:
  "\<not> M < count \<Longrightarrow> fetchGroupsPage g tok s = (Inr p, s1) \<Longrightarrow> NextPageToken p = [] \<Longrightarrow>
   fetchGroups_loop M g count gs tok s = (Inr [(''groups'', GStrings (gs @ groups p))], s1)"
  by (subst fetchGroups_loop.simps) simp














text \<open>The merging of claims at the provider of GSuite.\<close>

lemma gsuite_provider_token:
  "OAuthClient gsuite_provider = None \<and>
   RequestToken gsuite_provider code = Inr \<lparr>IDToken = ''id-token'', AccessToken = ''access-token''\<rparr>"
  by (simp add: gsuite_provider_def demo_client_def)

lemma gsuite_provider_idToken:
  "claimsFromIDToken gsuite_provider tok = Inr gsuite_idTokenClaims"
  by (simp add: claimsFromIDToken_def gsuite_provider_def demo_client_def)

lemma gsuite_provider_userInfo:
  "claimsFromUserInfo gsuite_provider issuer tok s =
     (Inr gsuite_userInfoClaims,
      s\<lparr>sent := sent s @ [userInfoRequest ''https://www.example.com/userinfo'' tok]\<rparr>)"
  by (simp add: claimsFromUserInfo_def userInfoEndpoint_def readUserInfo_def gsuite_provider_def
      demo_client_def)

lemma gsuite_provider_merged:
  "mergeClaims gsuite_idTokenClaims gsuite_userInfoClaims =
     Inr [(''sub'', GString ''A''), (''email'', GString ''foo@example.com''), (''name'', GString ''Foo'')]"
  by (simp add: mergeClaims_def mergeClaims_step_def gsuite_idTokenClaims_def gsuite_userInfoClaims_def)

lemma gsuite_provider_groups:
  "claimsFromGSuite demo_constants gsuite_provider ''https://accounts.google.com'' email tok s =
     (Inr [(''groups'', GStrings [''dev@example.com''])],
      s\<lparr>sent := sent s @
         [groupsRequest
            \<lparr>Client = HttpClient gsuite_provider, NewRequest = http_NewRequest gsuite_provider,
               Unmarshal = json_UnmarshalGroups gsuite_provider,
               url = \<lparr>url_Base = ''https://www.googleapis.com/admin/directory/v1/groups'',
                       url_Query = Map.empty\<rparr>,
               userEmail = email, accessToken = tok\<rparr> []]\<rparr>)"
proof -
  define g where "g = \<lparr>Client = HttpClient gsuite_provider, NewRequest = http_NewRequest gsuite_provider,
               Unmarshal = json_UnmarshalGroups gsuite_provider,
               url = \<lparr>url_Base = ''https://www.googleapis.com/admin/directory/v1/groups'',
                       url_Query = Map.empty\<rparr>,
               userEmail = email, accessToken = tok\<rparr>"
  have n: "newGsuiteClient demo_constants gsuite_provider ''https://accounts.google.com'' email tok = Inr g"
    by (simp add: newGsuiteClient_def gsuite_provider_def demo_client_def demo_constants_def g_def)
  have p: "fetchGroupsPage g [] s =
             (Inr \<lparr>NextPageToken = [], Groups = [\<lparr>Email = ''dev@example.com''\<rparr>]\<rparr>,
              s\<lparr>sent := sent s @ [groupsRequest g []]\<rparr>)"
    by (simp add: fetchGroupsPage_def readGroupsPage_def g_def gsuite_provider_def demo_client_def)
  have "fetchGroups 99 g s =
          (Inr [(''groups'', GStrings [''dev@example.com''])], s\<lparr>sent := sent s @ [groupsRequest g []]\<rparr>)"
    unfolding fetchGroups_def using loop_last[OF _ p, where M = 99 and count = 0 and gs = "[]"]
    by (simp add: groups_def)
  moreover have "auth_MaxPages demo_constants = 99"
    by (simp add: demo_constants_def)
  ultimately show ?thesis
    unfolding g_def[symmetric]
    by (simp add: claimsFromGSuite_def n)
qed

theorem mergeClaims_left_biased_witness:
  "(\<exists>m. fst (getClaims demo_constants gsuite_provider ''https://www.example.com'' gsuite_scope
             ''authcode'' empty_server) = Inr (Some m) \<and>
        map_of m ''email'' = Some (GString ''foo@example.com'') \<and>
        map_of m ''name'' = Some (GString ''Foo'') \<and>
        map_of m ''groups'' = None) \<and>
   (\<exists>m. fst (getClaims demo_constants gsuite_provider ''https://accounts.google.com'' gsuite_scope
             ''authcode'' empty_server) = Inr (Some m) \<and>
        map_of m ''email'' = Some (GString ''foo@example.com'') \<and>
        map_of m ''name'' = Some (GString ''Foo'') \<and>
        map_of m ''groups'' = Some (GStrings [''dev@example.com'']))"
proof -
  have sub: "StringClaim gsuite_idTokenClaims ''sub'' = (''A'', True, None)"
    "StringClaim gsuite_userInfoClaims ''sub'' = (''A'', True, None)"
    by (simp_all add: StringClaim_def gsuite_idTokenClaims_def gsuite_userInfoClaims_def)
  have H: "OAuthClient gsuite_provider = None \<and>
      RequestToken gsuite_provider ''authcode'' = Inr \<lparr>IDToken = ''id-token'', AccessToken = ''access-token''\<rparr> \<and>
      claimsFromIDToken gsuite_provider (IDToken \<lparr>IDToken = ''id-token'', AccessToken = ''access-token''\<rparr>) =
        Inr gsuite_idTokenClaims \<and>
      claimsFromUserInfo gsuite_provider issuer
          (AccessToken \<lparr>IDToken = ''id-token'', AccessToken = ''access-token''\<rparr>) empty_server =
        (Inr gsuite_userInfoClaims,
         empty_server\<lparr>sent := sent empty_server @ [userInfoRequest ''https://www.example.com/userinfo'' ''access-token'']\<rparr>) \<and>
      StringClaim gsuite_idTokenClaims ''sub'' = (''A'', True, None) \<and>
      StringClaim gsuite_userInfoClaims ''sub'' = (''A'', True, None)" for issuer
    using gsuite_provider_token gsuite_provider_idToken gsuite_provider_userInfo sub by simp
  have id: "map_of gsuite_idTokenClaims ''email'' = Some (GString ''foo@example.com'') \<and>
            map_of gsuite_idTokenClaims ''name'' = None \<and> map_of gsuite_idTokenClaims ''groups'' = None"
    by (simp add: gsuite_idTokenClaims_def)
  have ui: "map_of gsuite_userInfoClaims ''name'' = Some (GString ''Foo'') \<and>
            map_of gsuite_userInfoClaims ''groups'' = None"
    by (simp add: gsuite_userInfoClaims_def)
  note T1 = mergeClaims_left_biased[where K = demo_constants and oidcClient = gsuite_provider
      and issuerURL = "''https://www.example.com''" and scope = gsuite_scope and code = "''authcode''"
      and s = empty_server, THEN conjunct2, rule_format, OF H]
  have off: "\<not> (''https://www.example.com'' = teleport_GSuiteIssuerURL demo_constants \<and>
               teleport_GSuiteGroupsScope demo_constants \<in> set gsuite_scope)"
    by (simp add: demo_constants_def)
  from T1[THEN conjunct2, THEN conjunct1, rule_format, OF off] id ui
  have part1: "\<exists>m. fst (getClaims demo_constants gsuite_provider ''https://www.example.com'' gsuite_scope
             ''authcode'' empty_server) = Inr (Some m) \<and>
        map_of m ''email'' = Some (GString ''foo@example.com'') \<and>
        map_of m ''name'' = Some (GString ''Foo'') \<and>
        map_of m ''groups'' = None"
    by auto
  note T2 = mergeClaims_left_biased[where K = demo_constants and oidcClient = gsuite_provider
      and issuerURL = "''https://accounts.google.com''" and scope = gsuite_scope and code = "''authcode''"
      and s = empty_server, THEN conjunct2, rule_format, OF H]
  have on: "''https://accounts.google.com'' = teleport_GSuiteIssuerURL demo_constants \<and>
            teleport_GSuiteGroupsScope demo_constants \<in> set gsuite_scope \<and>
            mergeClaims gsuite_idTokenClaims gsuite_userInfoClaims =
              Inr [(''sub'', GString ''A''), (''email'', GString ''foo@example.com''), (''name'', GString ''Foo'')] \<and>
            StringClaim [(''sub'', GString ''A''), (''email'', GString ''foo@example.com''), (''name'', GString ''Foo'')]
              ''email'' = (''foo@example.com'', True, None) \<and>
            claimsFromGSuite demo_constants gsuite_provider ''https://accounts.google.com'' ''foo@example.com''
              (AccessToken \<lparr>IDToken = ''id-token'', AccessToken = ''access-token''\<rparr>)
              (empty_server\<lparr>sent := sent empty_server @ [userInfoRequest ''https://www.example.com/userinfo'' ''access-token'']\<rparr>) =
            (Inr [(''groups'', GStrings [''dev@example.com''])],
             (empty_server\<lparr>sent := sent empty_server @ [userInfoRequest ''https://www.example.com/userinfo'' ''access-token'']\<rparr>)
               \<lparr>sent := sent (empty_server\<lparr>sent := sent empty_server @ [userInfoRequest ''https://www.example.com/userinfo'' ''access-token'']\<rparr>) @
         [groupsRequest
            \<lparr>Client = HttpClient gsuite_provider, NewRequest = http_NewRequest gsuite_provider,
               Unmarshal = json_UnmarshalGroups gsuite_provider,
               url = \<lparr>url_Base = ''https://www.googleapis.com/admin/directory/v1/groups'',
                       url_Query = Map.empty\<rparr>,
               userEmail = ''foo@example.com'', accessToken = ''access-token''\<rparr> []]\<rparr>)"
    using gsuite_provider_merged gsuite_provider_groups
    by (simp add: demo_constants_def gsuite_scope_def StringClaim_def)
  from T2[THEN conjunct2, THEN conjunct2, rule_format, OF on] id ui
  have part2: "\<exists>m. fst (getClaims demo_constants gsuite_provider ''https://accounts.google.com'' gsuite_scope
             ''authcode'' empty_server) = Inr (Some m) \<and>
        map_of m ''email'' = Some (GString ''foo@example.com'') \<and>
        map_of m ''name'' = Some (GString ''Foo'') \<and>
        map_of m ''groups'' = Some (GStrings [''dev@example.com''])"
    by auto
  from part1 part2 show ?thesis by blast
qed

section \<open>Properties of the claims and of the callback\<close>

lemma claimsFromUserInfo_frame:
  "claimsFromUserInfo oc issuer token s = (r, s') \<Longrightarrow>
     users s' = users s \<and> webSessions s' = webSessions s \<and> auditLog s' = auditLog s"
  by (auto simp: claimsFromUserInfo_def split: sum.splits option.splits)

lemma getClaims_subject_mismatch:
  "StringClaim idTokenClaims ''sub'' = (idsub, True, None) \<Longrightarrow>
   StringClaim userInfoClaims ''sub'' = (uisub, True, None) \<Longrightarrow>
   idsub \<noteq> uisub \<Longrightarrow>
   getClaims_subject K oc issuer scope t idTokenClaims userInfoClaims s =
     (Inl (BadParameter ''invalid subject in UserInfo''), s)"
  by (simp add: getClaims_subject_def)

lemma getClaims_both:
  "OAuthClient oc = None \<Longrightarrow> RequestToken oc code = Inr t \<Longrightarrow>
   claimsFromIDToken oc (IDToken t) = Inr idTokenClaims \<Longrightarrow>
   claimsFromUserInfo oc issuer (AccessToken t) s = (Inr userInfoClaims, s1) \<Longrightarrow>
   getClaims K oc issuer scope code s =
     getClaims_subject K oc issuer scope t idTokenClaims userInfoClaims s1"
  by (simp add: getClaims_def)

lemma getClaims_subject_missing:
  "map_of idTokenClaims ''sub'' = None \<or>
   ((\<exists>v. map_of idTokenClaims ''sub'' = Some (GString v)) \<and> map_of userInfoClaims ''sub'' = None) \<Longrightarrow>
   getClaims_subject K oc issuer scope t idTokenClaims userInfoClaims s = (Inr None, s)"
  by (auto simp add: getClaims_subject_def StringClaim_def return_nil_Wrap_def)

text \<open>Evaluation of the concrete provider.\<close>

lemma demo_query_ok: "callback_query demo_query = Inr (''authcode'', ''state'')"
  by (simp add: callback_query_def demo_query_def q_Get_def)

lemma demo_lookups:
  "callback_lookups (demo_collaborators idc uic) ''state'' =
     Inr (''me.localhost'', demo_request, demo_connector, demo_client idc uic)"
  by (simp add: callback_lookups_def demo_collaborators_def demo_request_def)

lemma demo_idToken: "claimsFromIDToken (demo_client idc uic) tok = Inr idc"
  by (simp add: claimsFromIDToken_def demo_client_def)

lemma demo_userInfo:
  "claimsFromUserInfo (demo_client idc uic) issuer tok s =
     (Inr uic, s\<lparr>sent := sent s @ [userInfoRequest ''https://www.example.com/userinfo'' tok]\<rparr>)"
  by (simp add: claimsFromUserInfo_def userInfoEndpoint_def readUserInfo_def demo_client_def)

lemma demo_token:
  "OAuthClient (demo_client idc uic) = None \<and>
   RequestToken (demo_client idc uic) code = Inr \<lparr>IDToken = ''id-token'', AccessToken = ''access-token''\<rparr>"
  by (simp add: demo_client_def)

text \<open>
  C2. When the callback reaches the provider, the claims of the ID token and of UserInfo
  are both extracted, both carry a string \<open>sub\<close>, and the two differ, then
  \<open>ValidateOIDCAuthCallback\<close> returns an error, and the user store and the web
  sessions are as before the call.
\<close>

theorem subject_mismatch_fails:
  assumes "callback_query q = Inr (code, stateToken)"
    and "callback_lookups a stateToken = Inr (clusterName, req, connector, oidcClient)"
    and "OAuthClient oidcClient = None"
    and "RequestToken oidcClient code = Inr t"
    and "claimsFromIDToken oidcClient (IDToken t) = Inr idTokenClaims"
    and "claimsFromUserInfo oidcClient (IssuerURL connector) (AccessToken t) s = (Inr userInfoClaims, s1)"
    and "StringClaim idTokenClaims ''sub'' = (idsub, True, None)"
    and "StringClaim userInfoClaims ''sub'' = (uisub, True, None)"
    and "idsub \<noteq> uisub"
  shows "\<exists>err s'. ValidateOIDCAuthCallback K a q s = (Inl err, s') \<and>
           users s' = users s \<and> webSessions s' = webSessions s"
proof -
  have g: "getClaims K oidcClient (IssuerURL connector) (Scope connector) code s =
           (Inl (BadParameter ''invalid subject in UserInfo''), s1)"
    using assms(3-9) by (simp add: getClaims_both getClaims_subject_mismatch)
  have v: "validateOIDCAuthCallback K a q s =
           (Inl (OAuth2 ''unsupported_response_type'' ''unable to construct claims''), s1)"
    using assms(1,2) g by (simp add: validateOIDCAuthCallback_def)
  show ?thesis
    using v claimsFromUserInfo_frame[OF assms(6)]
    by (simp add: ValidateOIDCAuthCallback_def EmitAuditEvent_def)
qed

theorem subject_mismatch_fails_witness:
  "StringClaim demo_idTokenClaims ''sub'' = (''A'', True, None) \<and>
   StringClaim [(''sub'', GString ''B'')] ''sub'' = (''B'', True, None) \<and>
   (\<exists>err s'. ValidateOIDCAuthCallback demo_constants
                (demo_collaborators demo_idTokenClaims [(''sub'', GString ''B'')])
                demo_query empty_server = (Inl err, s') \<and>
              users s' = users empty_server \<and> webSessions s' = webSessions empty_server)"
proof -
  have a: "StringClaim demo_idTokenClaims ''sub'' = (''A'', True, None)"
    by (simp add: StringClaim_def demo_idTokenClaims_def)
  have b: "StringClaim [(''sub'', GString ''B'')] ''sub'' = (''B'', True, None)"
    by (simp add: StringClaim_def)
  have ne: "''A'' \<noteq> ''B''" by simp
  show ?thesis
    using a b
      subject_mismatch_fails[OF demo_query_ok demo_lookups conjunct1[OF demo_token]
        conjunct2[OF demo_token] demo_idToken demo_userInfo a b ne,
        where s = empty_server and K = demo_constants]
    by simp
qed

text \<open>
  C10. When the claims of the ID token and of UserInfo are both extracted and the ID
  token has no \<open>sub\<close> entry, or it has a string \<open>sub\<close> and UserInfo has no \<open>sub\<close>
  entry, \<open>getClaims\<close> returns a nil claim map and a nil error, and
  \<open>validateOIDCAuthCallback\<close> goes on with the nil claim map: its result is that of the
  rest of the function on nil claims.
\<close>

theorem getClaims_missing_subject:
  assumes "callback_query q = Inr (code, stateToken)"
    and "callback_lookups a stateToken = Inr (clusterName, req, connector, oidcClient)"
    and "OAuthClient oidcClient = None"
    and "RequestToken oidcClient code = Inr t"
    and "claimsFromIDToken oidcClient (IDToken t) = Inr idTokenClaims"
    and "claimsFromUserInfo oidcClient (IssuerURL connector) (AccessToken t) s = (Inr userInfoClaims, s1)"
    and "map_of idTokenClaims ''sub'' = None \<or>
         ((\<exists>v. map_of idTokenClaims ''sub'' = Some (GString v)) \<and> map_of userInfoClaims ''sub'' = None)"
  shows "getClaims K oidcClient (IssuerURL connector) (Scope connector) code s = (Inr None, s1) \<and>
         validateOIDCAuthCallback K a q s =
           callback_claims K a clusterName req connector oidcClient None s1"
proof -
  have g: "getClaims K oidcClient (IssuerURL connector) (Scope connector) code s = (Inr None, s1)"
    using assms(3-6) getClaims_subject_missing[OF assms(7)] by (simp add: getClaims_both)
  show ?thesis
    using assms(1,2) g by (simp add: validateOIDCAuthCallback_def)
qed

theorem getClaims_missing_subject_witness:
  "map_of demo_idTokenClaims ''sub'' = Some (GString ''A'') \<and>
   map_of [(''email'', GString ''foo@example.com'')] ''sub'' = None \<and>
   fst (getClaims demo_constants
          (demo_client demo_idTokenClaims [(''email'', GString ''foo@example.com'')])
          (IssuerURL demo_connector) (Scope demo_connector) ''authcode'' empty_server) = Inr None \<and>
   fst (validateOIDCAuthCallback demo_constants
          (demo_collaborators demo_idTokenClaims [(''email'', GString ''foo@example.com'')])
          demo_query empty_server) =
     Inl (OAuth2 ''unsupported_response_type'' ''unable to convert claims to identity'')"
proof -
  have a: "map_of demo_idTokenClaims ''sub'' = Some (GString ''A'')"
    by (simp add: demo_idTokenClaims_def)
  have b: "map_of [(''email'', GString ''foo@example.com'')] ''sub'' = None"
    by simp
  have h: "map_of demo_idTokenClaims ''sub'' = None \<or>
         ((\<exists>v. map_of demo_idTokenClaims ''sub'' = Some (GString v)) \<and>
          map_of [(''email'', GString ''foo@example.com'')] ''sub'' = None)"
    using a b by simp
  have c: "fst (callback_claims K a cn req demo_connector
             (demo_client idc uic) None s) =
           Inl (OAuth2 ''unsupported_response_type'' ''unable to convert claims to identity'')"
    for K a cn req idc uic s
    by (simp add: callback_claims_def callback_identity_def demo_connector_def demo_client_def
        demo_IdentityFromClaims_def)
  show ?thesis
    using a b c
      getClaims_missing_subject[OF demo_query_ok demo_lookups conjunct1[OF demo_token]
        conjunct2[OF demo_token] demo_idToken demo_userInfo h,
        where s = empty_server and K = demo_constants]
    by simp
qed

section \<open>Properties of the user provisioning\<close>






lemma createOIDCUser_generated:
  "buildOIDCRoles connector claims = Inr roles \<Longrightarrow>
   GenerateUser a (newOIDCUser K a connector ident roles (claimsToTraitMap (entries claims))) = Inr user \<Longrightarrow>
   createOIDCUser K a connector ident claims s = createOIDCUser_store a ident user s"
  by (simp add: createOIDCUser_def)

lemma demo_roles: "buildOIDCRoles demo_connector (Some demo_idTokenClaims) = Inr [''admin'']"
  by (simp add: buildOIDCRoles_def demo_connector_def demo_idTokenClaims_def entries_def)




section \<open>Properties of the TTLs\<close>

lemma callback_cert_ttl:
  "callback_cert a clusterName req ident user roles response = Inr response' \<Longrightarrow>
   length (PublicKey req) \<noteq> 0 \<Longrightarrow>
   \<exists>certs. generateUserCert a
             \<lparr>cr_user = user, cr_roles = roles,
              cr_ttl = min (ident_ExpiresAt ident - clock_Now a AtCertTTL) (CertTTL req),
              cr_publicKey = PublicKey req, cr_compatibility = Compatibility req\<rparr> = Inr certs \<and>
           resp_Cert response' = ssh certs \<and> resp_TLSCert response' = tls certs"
  by (auto simp add: callback_cert_def MinTTL_def ToTTL_def Let_def split: sum.splits)

lemma callback_cert_session:
  "callback_cert a clusterName req ident user roles response = Inr response' \<Longrightarrow>
   resp_Session response' = resp_Session response"
  by (auto simp add: callback_cert_def Let_def split: sum.splits if_splits)

lemma callback_session_ttl:
  "callback_session K a req ident user roles response s = (Inr response', s') \<Longrightarrow>
   CreateWebSession req \<Longrightarrow>
   \<exists>sess. resp_Session response' = Some sess \<and>
          webSessions s' (user_Name user) = Some sess \<and>
          ExpiryTime sess =
            clock_Now a AtSessionExpiry +
            AdjustSessionTTL roles (ident_ExpiresAt ident - clock_Now a AtSessionTTL) \<and>
          BearerTokenExpiryTime sess =
            clock_Now a AtBearerExpiry +
            min (auth_BearerTokenTTL K)
                (AdjustSessionTTL roles (ident_ExpiresAt ident - clock_Now a AtSessionTTL))"
  by (auto simp add: callback_session_def UpsertWebSession_def MinTTL_def ToTTL_def Let_def
      split: sum.splits if_splits)

lemma callback_issue_ttl:
  assumes "callback_user a req ident s = Inr (user, roles)"
    and "callback_issue K a clusterName req ident response s = (Inr response', s')"
  shows "(length (PublicKey req) \<noteq> 0 \<longrightarrow>
            (\<exists>certs. generateUserCert a
                \<lparr>cr_user = user, cr_roles = roles,
                 cr_ttl = min (ident_ExpiresAt ident - clock_Now a AtCertTTL) (CertTTL req),
                 cr_publicKey = PublicKey req, cr_compatibility = Compatibility req\<rparr> = Inr certs \<and>
              resp_Cert response' = ssh certs \<and> resp_TLSCert response' = tls certs)) \<and>
         (CreateWebSession req \<longrightarrow>
            (\<exists>sess. resp_Session response' = Some sess \<and>
               ExpiryTime sess =
                 clock_Now a AtSessionExpiry +
                 AdjustSessionTTL roles (ident_ExpiresAt ident - clock_Now a AtSessionTTL) \<and>
               BearerTokenExpiryTime sess =
                 clock_Now a AtBearerExpiry +
                 min (auth_BearerTokenTTL K)
                     (AdjustSessionTTL roles (ident_ExpiresAt ident - clock_Now a AtSessionTTL))))"
proof -
  obtain r1 s1 where ses: "callback_session K a req ident user roles
      (response\<lparr>resp_Username := user_Name user\<rparr>) s = (r1, s1)"
    by (cases "callback_session K a req ident user roles (response\<lparr>resp_Username := user_Name user\<rparr>) s")
  from assms ses obtain response1 where r1: "r1 = Inr response1"
    and cert: "callback_cert a clusterName req ident user roles response1 = Inr response'"
    by (cases r1) (simp_all add: callback_issue_def)
  show ?thesis
    using callback_cert_ttl[OF cert] callback_cert_session[OF cert]
      callback_session_ttl[OF ses[unfolded r1]]
    by auto
qed

text \<open>Evaluation of the callback with the concrete provider, both subjects \<open>A\<close>.\<close>

lemma demo_getClaims:
  "getClaims demo_constants (demo_client demo_idTokenClaims [(''sub'', GString ''A'')])
     (IssuerURL demo_connector) (Scope demo_connector) code empty_server =
   (Inr (Some demo_idTokenClaims),
    empty_server\<lparr>sent := [userInfoRequest ''https://www.example.com/userinfo'' ''access-token'']\<rparr>)"
proof -
  have "getClaims_subject demo_constants (demo_client demo_idTokenClaims [(''sub'', GString ''A'')])
          (IssuerURL demo_connector) (Scope demo_connector) t demo_idTokenClaims
          [(''sub'', GString ''A'')] s = (Inr (Some demo_idTokenClaims), s)" for t s
    by (simp add: getClaims_subject_def getClaims_gsuite_def StringClaim_def mergeClaims_def
        mergeClaims_step_def demo_idTokenClaims_def demo_constants_def demo_connector_def)
  then show ?thesis
    using getClaims_both[OF conjunct1[OF demo_token] conjunct2[OF demo_token] demo_idToken demo_userInfo,
        where s = empty_server]
    by (simp add: empty_server_def)
qed

lemma demo_identity:
  "callback_identity demo_constants demo_connector (demo_client idc uic) (Some demo_idTokenClaims) =
     Inr demo_ident"
  by (simp add: callback_identity_def demo_connector_def demo_client_def demo_IdentityFromClaims_def
      StringClaim_def demo_idTokenClaims_def demo_ident_def)

lemma user_Name_newOIDCUser [simp]:
  "user_Name (newOIDCUser K a connector ident roles traits) = ident_Email ident"
  by (simp add: newOIDCUser_def)

lemma demo_provision:
  "users s ''foo@example.com'' = None \<Longrightarrow>
   callback_provision demo_constants (demo_collaborators idc uic) demo_connector demo_ident
     (Some demo_idTokenClaims) s =
   (None, s\<lparr>users := (users s)(''foo@example.com'' \<mapsto>
       newOIDCUser demo_constants (demo_collaborators idc uic) demo_connector demo_ident [''admin'']
         (claimsToTraitMap demo_idTokenClaims))\<rparr>)"
proof -
  assume n: "users s ''foo@example.com'' = None"
  have g: "GenerateUser (demo_collaborators idc uic) u = Inr u" for u
    by (simp add: demo_collaborators_def)
  have f: "\<not> backend_fails (demo_collaborators idc uic) c" for c
    by (simp add: demo_collaborators_def)
  have e: "ident_Email demo_ident = ''foo@example.com''"
    by (simp add: demo_ident_def)
  have st: "createOIDCUser_store (demo_collaborators idc uic) demo_ident u s = UpsertUser (demo_collaborators idc uic) u s" for u
    using n f by (simp add: createOIDCUser_store_def GetUser_def e)
  have c: "length (ClaimsToRoles demo_connector) \<noteq> 0"
    by (simp add: demo_connector_def)
  show ?thesis
    using c f by (simp add: callback_provision_def createOIDCUser_generated[OF demo_roles g] st
        UpsertUser_def e entries_def)
qed

text \<open>
  C5. When \<open>ValidateOIDCAuthCallback\<close> succeeds for a request that asks for the user,
  with \<open>ident\<close> the identity of the claims and \<open>user\<close>, \<open>roles\<close> the user bound to it and
  its role set: if a public key was supplied, the certificates of the response are those
  issued for the TTL \<open>min (ExpiresAt - now) CertTTL\<close>; if a web session was asked for,
  the session of the response expires after the role-set-adjusted remaining lifetime of
  the identity, and its bearer token after the minimum of the bearer-token ceiling and
  that session TTL.
\<close>

theorem callback_ttl_capping:
  assumes "callback_query q = Inr (code, stateToken)"
    and "callback_lookups a stateToken = Inr (clusterName, req, connector, oidcClient)"
    and "getClaims K oidcClient (IssuerURL connector) (Scope connector) code s = (Inr claims, s1)"
    and "callback_identity K connector oidcClient claims = Inr ident"
    and "callback_provision K a connector ident claims s1 = (None, s2)"
    and "CheckUser req"
    and "callback_user a req ident s2 = Inr (user, roles)"
    and "ValidateOIDCAuthCallback K a q s = (Inr response, s')"
  shows "(length (PublicKey req) \<noteq> 0 \<longrightarrow>
            (\<exists>certs. generateUserCert a
                \<lparr>cr_user = user, cr_roles = roles,
                 cr_ttl = min (ident_ExpiresAt ident - clock_Now a AtCertTTL) (CertTTL req),
                 cr_publicKey = PublicKey req, cr_compatibility = Compatibility req\<rparr> = Inr certs \<and>
              resp_Cert response = ssh certs \<and> resp_TLSCert response = tls certs)) \<and>
         (CreateWebSession req \<longrightarrow>
            (\<exists>sess. resp_Session response = Some sess \<and>
               ExpiryTime sess =
                 clock_Now a AtSessionExpiry +
                 AdjustSessionTTL roles (ident_ExpiresAt ident - clock_Now a AtSessionTTL) \<and>
               BearerTokenExpiryTime sess =
                 clock_Now a AtBearerExpiry +
                 min (auth_BearerTokenTTL K)
                     (AdjustSessionTTL roles (ident_ExpiresAt ident - clock_Now a AtSessionTTL))))"
proof -
  have v: "validateOIDCAuthCallback K a q s =
           callback_issue K a clusterName req ident (callback_response connector req ident) s2"
    using assms(1-6) by (simp add: validateOIDCAuthCallback_def callback_claims_def)
  obtain r0 s0 where i: "callback_issue K a clusterName req ident (callback_response connector req ident) s2 = (r0, s0)"
    by (cases "callback_issue K a clusterName req ident (callback_response connector req ident) s2")
  from assms(8) v i have "r0 = Inr response"
    by (cases r0) (simp_all add: ValidateOIDCAuthCallback_def)
  with i have "callback_issue K a clusterName req ident (callback_response connector req ident) s2 = (Inr response, s0)"
    by simp
  from callback_issue_ttl[OF assms(7) this] show ?thesis .
qed

theorem callback_ttl_capping_witness:
  "ident_ExpiresAt demo_ident - 1000000000000 = 60000000000 \<and>
   CertTTL demo_request = 3600000000000 \<and>
   (\<exists>response s'.
      ValidateOIDCAuthCallback demo_constants
        (demo_collaborators demo_idTokenClaims [(''sub'', GString ''A'')]) demo_query empty_server =
        (Inr response, s') \<and>
      resp_Cert response = ''ssh-cert-1m'' \<and>
      map_option ExpiryTime (resp_Session response) = Some (1000000000000 + 60000000000) \<and>
      map_option BearerTokenExpiryTime (resp_Session response) = Some (1000000000000 + 60000000000))"
proof -
  define a where "a = demo_collaborators demo_idTokenClaims [(''sub'', GString ''A'')]"
  define s1 where "s1 = empty_server\<lparr>sent := [userInfoRequest ''https://www.example.com/userinfo'' ''access-token'']\<rparr>"
  define u where "u = newOIDCUser demo_constants a demo_connector demo_ident [''admin'']
         (claimsToTraitMap demo_idTokenClaims)"
  define s2 where "s2 = s1\<lparr>users := (users s1)(''foo@example.com'' \<mapsto> u)\<rparr>"
  define roles where "roles = [\<lparr>role_Name = ''admin'', role_MaxSessionTTL = 108000000000000\<rparr>]"
  have h1: "callback_lookups a ''state'' =
     Inr (''me.localhost'', demo_request, demo_connector, demo_client demo_idTokenClaims [(''sub'', GString ''A'')])"
    unfolding a_def by (rule demo_lookups)
  have h2: "getClaims demo_constants (demo_client demo_idTokenClaims [(''sub'', GString ''A'')])
     (IssuerURL demo_connector) (Scope demo_connector) ''authcode'' empty_server = (Inr (Some demo_idTokenClaims), s1)"
    unfolding s1_def by (rule demo_getClaims)
  have h3: "callback_provision demo_constants a demo_connector demo_ident (Some demo_idTokenClaims) s1 = (None, s2)"
    unfolding s2_def u_def a_def by (rule demo_provision) (simp add: s1_def empty_server_def)
  have h4: "CheckUser demo_request" by (simp add: demo_request_def)
  have h5: "callback_user a demo_request demo_ident s2 = Inr (u, roles)"
    by (simp add: callback_user_def a_def demo_collaborators_def demo_request_def demo_ident_def
        s2_def roles_def)
  have t: "ident_ExpiresAt demo_ident - 1000000000000 = 60000000000"
    by (simp add: demo_ident_def)
  have ck: "clock_Now a r = 1000000000000" for r
    by (simp add: a_def demo_collaborators_def)
  have adj: "AdjustSessionTTL roles 60000000000 = 60000000000"
    by (simp add: AdjustSessionTTL_def roles_def)
  have ses: "\<exists>resp s3. callback_session demo_constants a demo_request demo_ident u roles resp0 s2 = (Inr resp, s3) \<and>
     resp_Username resp = resp_Username resp0 \<and> resp_Req resp = resp_Req resp0" for resp0
    by (simp add: callback_session_def a_def demo_collaborators_def demo_request_def
        UpsertWebSession_def Let_def)
  have crt: "\<exists>resp'. callback_cert a ''me.localhost'' demo_request demo_ident u roles resp = Inr resp'" for resp
    by (simp add: callback_cert_def a_def demo_collaborators_def demo_request_def Let_def)
  have iss: "\<exists>resp s3. callback_issue demo_constants a ''me.localhost'' demo_request demo_ident resp0 s2 = (Inr resp, s3)" for resp0
  proof -
    from ses[of "resp0\<lparr>resp_Username := user_Name u\<rparr>"] obtain r1 s3 where
      "callback_session demo_constants a demo_request demo_ident u roles (resp0\<lparr>resp_Username := user_Name u\<rparr>) s2 = (Inr r1, s3)"
      by blast
    moreover from crt[of r1] obtain r2 where "callback_cert a ''me.localhost'' demo_request demo_ident u roles r1 = Inr r2"
      by blast
    ultimately show ?thesis by (simp add: callback_issue_def h5)
  qed
  have val: "\<exists>resp s3. ValidateOIDCAuthCallback demo_constants a demo_query empty_server = (Inr resp, s3)"
  proof -
    from iss[of "callback_response demo_connector demo_request demo_ident"] obtain resp s3 where
      "callback_issue demo_constants a ''me.localhost'' demo_request demo_ident
         (callback_response demo_connector demo_request demo_ident) s2 = (Inr resp, s3)" by blast
    then show ?thesis
      by (simp add: ValidateOIDCAuthCallback_def validateOIDCAuthCallback_def demo_query_ok h1 h2
          callback_claims_def demo_identity h3 h4)
  qed
  then obtain response s' where v: "ValidateOIDCAuthCallback demo_constants a demo_query empty_server = (Inr response, s')"
    by blast
  note c = callback_ttl_capping[OF demo_query_ok h1 h2 demo_identity h3 h4 h5 v]
  have pk: "length (PublicKey demo_request) \<noteq> 0" "CreateWebSession demo_request"
    "CertTTL demo_request = 3600000000000"
    by (simp_all add: demo_request_def)
  have gen: "generateUserCert a r = Inr certs \<Longrightarrow> cr_ttl r = 60000000000 \<Longrightarrow> ssh certs = ''ssh-cert-1m''" for r certs
    by (auto simp add: a_def demo_collaborators_def)
  have bt: "auth_BearerTokenTTL demo_constants = 600000000000"
    by (simp add: demo_constants_def)
  from c pk have "resp_Cert response = ''ssh-cert-1m''"
    by (auto simp add: t ck dest!: gen)
  moreover from c pk have "map_option ExpiryTime (resp_Session response) = Some (1000000000000 + 60000000000)"
    by (auto simp add: t ck adj)
  moreover from c pk have "map_option BearerTokenExpiryTime (resp_Session response) = Some (1000000000000 + 60000000000)"
    by (auto simp add: t ck adj bt)
  ultimately show ?thesis
    using v t pk(3) unfolding a_def by blast
qed

section \<open>Properties of the identities\<close>

lemma sshCertificate_Inr:
  "sshCertificate L certBytes = Inr cert \<longleftrightarrow> ssh_ParseAuthorizedKey L certBytes = Inr (Certificate cert)"
  by (auto simp add: sshCertificate_def split: sum.splits ssh_PublicKey.splits)

lemma sshCertSigner_Inr:
  "sshCertSigner L keyBytes cert = Inr certSigner \<longleftrightarrow>
     ssh_ParsePrivateKey L keyBytes = Inr (cert_Key cert) \<and> certSigner = CertSigner cert (cert_Key cert)"
  by (auto simp add: sshCertSigner_def NewCertSigner_def split: sum.splits)

lemma checkPrincipals_None:
  "checkPrincipals cert = None \<longleftrightarrow> ValidPrincipals cert \<noteq> [] \<and> [] \<notin> set (ValidPrincipals cert)"
  by (auto simp add: checkPrincipals_def)

lemma certRole_Inr:
  "(\<exists>role. certRole L cert = Inr role) \<longleftrightarrow>
     Extensions cert \<noteq> [] \<and> extension cert (utils_CertExtensionRole L) \<noteq> [] \<and>
     (\<exists>roles. teleport_ParseRoles L (extension cert (utils_CertExtensionRole L)) = Inr roles \<and>
              length roles = 1)"
  by (auto simp add: certRole_def split: sum.splits)

lemma certClusterName_Inr:
  "(\<exists>n. certClusterName L cert = Inr n) \<longleftrightarrow> extension cert (utils_CertExtensionAuthority L) \<noteq> []"
  by (auto simp add: certClusterName_def)

lemma sshIdentity_Inr:
  "(\<exists>i. sshIdentity L keyBytes certBytes cert certSigner = Inr i) \<longleftrightarrow>
     checkPrincipals cert = None \<and> (\<exists>role. certRole L cert = Inr role) \<and>
     (\<exists>n. certClusterName L cert = Inr n)"
  by (auto simp add: sshIdentity_def split: option.splits sum.splits)

lemma sshIdentity_fields:
  "sshIdentity L keyBytes certBytes cert certSigner = Inr i \<Longrightarrow>
     KeySigner i = Some certSigner \<and> id_Cert i = Some cert \<and> KeyBytes i = keyBytes \<and>
     CertBytes i = certBytes \<and> TLSCertBytes i = [] \<and> TLSCACertsBytes i = [] \<and>
     HostUUID (ID i) = hd (ValidPrincipals cert)"
  by (auto simp add: sshIdentity_def split: option.splits sum.splits)

lemma ReadSSHIdentityFromKeyPair_Inr:
  "(\<exists>i. ReadSSHIdentityFromKeyPair L keyBytes certBytes = Inr i) \<longleftrightarrow>
     keyBytes \<noteq> [] \<and> certBytes \<noteq> [] \<and>
     (\<exists>cert. ssh_ParseAuthorizedKey L certBytes = Inr (Certificate cert) \<and>
             ssh_ParsePrivateKey L keyBytes = Inr (cert_Key cert) \<and>
             checkPrincipals cert = None \<and> (\<exists>role. certRole L cert = Inr role) \<and>
             (\<exists>n. certClusterName L cert = Inr n))"
proof -
  have "(\<exists>i. ReadSSHIdentityFromKeyPair L keyBytes certBytes = Inr i) \<longleftrightarrow>
     keyBytes \<noteq> [] \<and> certBytes \<noteq> [] \<and>
     (\<exists>cert certSigner. sshCertificate L certBytes = Inr cert \<and>
        sshCertSigner L keyBytes cert = Inr certSigner \<and>
        (\<exists>i. sshIdentity L keyBytes certBytes cert certSigner = Inr i))"
    by (auto simp add: ReadSSHIdentityFromKeyPair_def split: sum.splits)
  then show ?thesis
    by (simp add: sshCertificate_Inr sshCertSigner_Inr sshIdentity_Inr)
qed

lemma ReadSSHIdentityFromKeyPair_fields:
  assumes "ReadSSHIdentityFromKeyPair L keyBytes certBytes = Inr i"
  shows "\<exists>cert. ssh_ParseAuthorizedKey L certBytes = Inr (Certificate cert) \<and>
           ssh_ParsePrivateKey L keyBytes = Inr (cert_Key cert) \<and>
           KeySigner i = Some (CertSigner cert (cert_Key cert)) \<and> id_Cert i = Some cert \<and>
           KeyBytes i = keyBytes \<and> CertBytes i = certBytes \<and>
           TLSCertBytes i = [] \<and> TLSCACertsBytes i = []"
proof -
  from assms obtain cert certSigner where c: "sshCertificate L certBytes = Inr cert"
    and s: "sshCertSigner L keyBytes cert = Inr certSigner"
    and i: "sshIdentity L keyBytes certBytes cert certSigner = Inr i"
    by (auto simp add: ReadSSHIdentityFromKeyPair_def split: sum.splits if_splits)
  show ?thesis
    using c s sshIdentity_fields[OF i] by (auto simp add: sshCertificate_Inr sshCertSigner_Inr)
qed

lemma failure_iff:
  "(\<exists>err. ReadSSHIdentityFromKeyPair L keyBytes certBytes = Inl err) \<longleftrightarrow>
     listed_failure L keyBytes certBytes \<or> further_failure L keyBytes certBytes"
proof -
  have "(\<exists>err. ReadSSHIdentityFromKeyPair L keyBytes certBytes = Inl err) \<longleftrightarrow>
        \<not> (\<exists>i. ReadSSHIdentityFromKeyPair L keyBytes certBytes = Inr i)"
    by (cases "ReadSSHIdentityFromKeyPair L keyBytes certBytes") auto
  also have "\<dots> \<longleftrightarrow> listed_failure L keyBytes certBytes \<or> further_failure L keyBytes certBytes"
    unfolding ReadSSHIdentityFromKeyPair_Inr checkPrincipals_None certRole_Inr certClusterName_Inr
      listed_failure_def further_failure_def
    by (auto split: sum.splits ssh_PublicKey.splits)
  finally show ?thesis .
qed

text \<open>Evaluation with the libraries of the one host.\<close>

lemma demo_ReadSSH:
  "ReadSSHIdentityFromKeyPair demo_libraries ''host-key'' ''host-cert'' =
     Inr \<lparr>ID = \<lparr>Role = ''Node'', HostUUID = ''00000000-0000-0000-0000-000000000000.me.localhost'',
                NodeName = []\<rparr>,
          KeyBytes = ''host-key'', CertBytes = ''host-cert'', TLSCertBytes = [],
          TLSCACertsBytes = [], KeySigner = Some (CertSigner demo_cert ''host-pub''),
          id_Cert = Some demo_cert, ClusterName = ''me.localhost''\<rparr>"
  by (simp add: ReadSSHIdentityFromKeyPair_def sshCertificate_def sshCertSigner_def NewCertSigner_def
      sshIdentity_def checkPrincipals_def certRole_def certClusterName_def extension_def
      demo_libraries_def demo_cert_def)

lemma demo_ReadTLS:
  "\<exists>i. ReadTLSIdentityFromKeyPair demo_libraries ''host-key'' ''host-tlscert'' [''ca-cert''] = Inr i"
  by (simp add: ReadTLSIdentityFromKeyPair_def tlsClusterName_def tlsIdentity_def TLSConfig_def
      HasTLSConfig_def demo_libraries_def)

text \<open>
  C6, as the code has it. \<open>ReadSSHIdentityFromKeyPair\<close> returns an error exactly when
  one of the causes the specification lists holds, or the key bytes do not parse as a
  private key, or the certificate certifies another key than that of the signer, or
  the role string does not parse. Otherwise it succeeds, and the signer of the identity
  is the certificate signer built from the parsed certificate, never a bare key signer.
\<close>

theorem ReadSSHIdentityFromKeyPair_fails_iff:
  "((\<exists>err. ReadSSHIdentityFromKeyPair L keyBytes certBytes = Inl err) \<longleftrightarrow>
      listed_failure L keyBytes certBytes \<or> further_failure L keyBytes certBytes) \<and>
   (\<forall>i. ReadSSHIdentityFromKeyPair L keyBytes certBytes = Inr i \<longrightarrow>
      (\<exists>cert. ssh_ParseAuthorizedKey L certBytes = Inr (Certificate cert) \<and>
              KeySigner i = Some (CertSigner cert (cert_Key cert)) \<and> id_Cert i = Some cert \<and>
              KeyBytes i = keyBytes \<and> CertBytes i = certBytes))"
proof (intro conjI allI impI)
  show "(\<exists>err. ReadSSHIdentityFromKeyPair L keyBytes certBytes = Inl err) \<longleftrightarrow>
      listed_failure L keyBytes certBytes \<or> further_failure L keyBytes certBytes"
    by (rule failure_iff)
next
  fix i
  assume "ReadSSHIdentityFromKeyPair L keyBytes certBytes = Inr i"
  from ReadSSHIdentityFromKeyPair_fields[OF this]
  show "\<exists>cert. ssh_ParseAuthorizedKey L certBytes = Inr (Certificate cert) \<and>
              KeySigner i = Some (CertSigner cert (cert_Key cert)) \<and> id_Cert i = Some cert \<and>
              KeyBytes i = keyBytes \<and> CertBytes i = certBytes"
    by blast
qed

theorem ReadSSHIdentityFromKeyPair_fails_iff_witness:
  "\<not> listed_failure demo_libraries ''host-key'' ''host-cert'' \<and>
   \<not> further_failure demo_libraries ''host-key'' ''host-cert'' \<and>
   (\<exists>i. ReadSSHIdentityFromKeyPair demo_libraries ''host-key'' ''host-cert'' = Inr i \<and>
        KeySigner i = Some (CertSigner demo_cert ''host-pub'')) \<and>
   listed_failure demo_libraries ''host-key'' [] \<and>
   (\<exists>err. ReadSSHIdentityFromKeyPair demo_libraries ''host-key'' [] = Inl err)"
proof -
  have l: "\<not> listed_failure demo_libraries ''host-key'' ''host-cert''"
    by (simp add: listed_failure_def demo_libraries_def demo_cert_def extension_def)
  have f: "\<not> further_failure demo_libraries ''host-key'' ''host-cert''"
    by (simp add: further_failure_def demo_libraries_def demo_cert_def extension_def)
  have e: "listed_failure demo_libraries ''host-key'' []"
    by (simp add: listed_failure_def)
  note t1 = ReadSSHIdentityFromKeyPair_fails_iff[of demo_libraries "''host-key''" "''host-cert''"]
  note t2 = ReadSSHIdentityFromKeyPair_fails_iff[of demo_libraries "''host-key''" "[]"]
  from t1 l f obtain i where i: "ReadSSHIdentityFromKeyPair demo_libraries ''host-key'' ''host-cert'' = Inr i"
    by (cases "ReadSSHIdentityFromKeyPair demo_libraries ''host-key'' ''host-cert''") auto
  with t1 have "KeySigner i = Some (CertSigner demo_cert ''host-pub'')"
    by (auto simp add: demo_libraries_def demo_cert_def)
  with i l f e t2 show ?thesis by blast
qed

text \<open>
  The claim as stated fails: a key buffer that is not empty but is no private key, with
  the good certificate, meets none of the listed causes, and the call fails.
\<close>

theorem ReadSSHIdentityFromKeyPair_fails_iff_counterexample:
  "\<not> listed_failure demo_libraries ''not a key'' ''host-cert'' \<and>
   ReadSSHIdentityFromKeyPair demo_libraries ''not a key'' ''host-cert'' =
     Inl (BadParameter ''failed to parse private key'')"
  by (simp add: listed_failure_def ReadSSHIdentityFromKeyPair_def sshCertificate_def
      sshCertSigner_def demo_libraries_def demo_cert_def extension_def)

text \<open>
  C7. Let the SSH identity parse. With an empty \<open>tlsCertBytes\<close>,
  \<open>ReadIdentityFromKeyPair\<close> succeeds with that identity, which has no TLS bytes and
  whose \<open>TLSConfig\<close> fails with NotFound. With a non-empty \<open>tlsCertBytes\<close>, it fails
  exactly when \<open>ReadTLSIdentityFromKeyPair\<close> fails on the key, the TLS certificate and
  the certificates of the authorities, and on success the identity carries the TLS
  certificate and the certificates of the authorities.
\<close>

theorem ReadIdentityFromKeyPair_tls_optional:
  assumes "ReadSSHIdentityFromKeyPair L keyBytes sshCertBytes = Inr sshIdent"
  shows "(tlsCertBytes = [] \<longrightarrow>
            ReadIdentityFromKeyPair L keyBytes sshCertBytes tlsCertBytes tlsCACertsBytes = Inr sshIdent \<and>
            TLSCertBytes sshIdent = [] \<and> TLSCACertsBytes sshIdent = [] \<and>
            (\<exists>msg. TLSConfig L sshIdent cipherSuites = Inl (NotFound msg))) \<and>
         (tlsCertBytes \<noteq> [] \<longrightarrow>
            ((\<exists>err. ReadIdentityFromKeyPair L keyBytes sshCertBytes tlsCertBytes tlsCACertsBytes = Inl err) \<longleftrightarrow>
             (\<exists>err. ReadTLSIdentityFromKeyPair L keyBytes tlsCertBytes tlsCACertsBytes = Inl err)) \<and>
            (\<forall>i. ReadIdentityFromKeyPair L keyBytes sshCertBytes tlsCertBytes tlsCACertsBytes = Inr i \<longrightarrow>
                 TLSCertBytes i = tlsCertBytes \<and> TLSCACertsBytes i = tlsCACertsBytes \<and>
                 i = sshIdent\<lparr>TLSCertBytes := tlsCertBytes, TLSCACertsBytes := tlsCACertsBytes\<rparr>))"
proof (intro conjI impI)
  assume e: "tlsCertBytes = []"
  from ReadSSHIdentityFromKeyPair_fields[OF assms]
  have b: "TLSCertBytes sshIdent = []" "TLSCACertsBytes sshIdent = []" by auto
  show "ReadIdentityFromKeyPair L keyBytes sshCertBytes tlsCertBytes tlsCACertsBytes = Inr sshIdent"
    using assms e by (simp add: ReadIdentityFromKeyPair_def)
  show "TLSCertBytes sshIdent = []" "TLSCACertsBytes sshIdent = []" using b by simp_all
  show "\<exists>msg. TLSConfig L sshIdent cipherSuites = Inl (NotFound msg)"
    using b by (simp add: TLSConfig_def HasTLSConfig_def)
next
  assume n: "tlsCertBytes \<noteq> []"
  show "(\<exists>err. ReadIdentityFromKeyPair L keyBytes sshCertBytes tlsCertBytes tlsCACertsBytes = Inl err) \<longleftrightarrow>
        (\<exists>err. ReadTLSIdentityFromKeyPair L keyBytes tlsCertBytes tlsCACertsBytes = Inl err)"
    using assms n by (auto simp add: ReadIdentityFromKeyPair_def split: sum.splits)
  show "\<forall>i. ReadIdentityFromKeyPair L keyBytes sshCertBytes tlsCertBytes tlsCACertsBytes = Inr i \<longrightarrow>
                 TLSCertBytes i = tlsCertBytes \<and> TLSCACertsBytes i = tlsCACertsBytes \<and>
                 i = sshIdent\<lparr>TLSCertBytes := tlsCertBytes, TLSCACertsBytes := tlsCACertsBytes\<rparr>"
    using assms n by (auto simp add: ReadIdentityFromKeyPair_def split: sum.splits)
qed

theorem ReadIdentityFromKeyPair_tls_optional_witness:
  "(\<exists>i. ReadIdentityFromKeyPair demo_libraries ''host-key'' ''host-cert'' [] [] = Inr i \<and>
        TLSCertBytes i = [] \<and> (\<exists>msg. TLSConfig demo_libraries i [] = Inl (NotFound msg))) \<and>
   (\<exists>i. ReadIdentityFromKeyPair demo_libraries ''host-key'' ''host-cert'' ''host-tlscert'' [''ca-cert''] = Inr i \<and>
        TLSCertBytes i = ''host-tlscert'' \<and> TLSCACertsBytes i = [''ca-cert'']) \<and>
   (\<exists>err. ReadIdentityFromKeyPair demo_libraries ''host-key'' ''host-cert'' ''not a cert'' [''ca-cert''] = Inl err)"
proof -
  note t1 = ReadIdentityFromKeyPair_tls_optional[OF demo_ReadSSH, of "[]" "[]" "[]"]
  note t2 = ReadIdentityFromKeyPair_tls_optional[OF demo_ReadSSH, of "''host-tlscert''" "[''ca-cert'']" "[]"]
  note t3 = ReadIdentityFromKeyPair_tls_optional[OF demo_ReadSSH, of "''not a cert''" "[''ca-cert'']" "[]"]
  have bad: "\<exists>err. ReadTLSIdentityFromKeyPair demo_libraries ''host-key'' ''not a cert'' [''ca-cert''] = Inl err"
    by (simp add: ReadTLSIdentityFromKeyPair_def demo_libraries_def)
  have a: "\<exists>i. ReadIdentityFromKeyPair demo_libraries ''host-key'' ''host-cert'' [] [] = Inr i \<and>
        TLSCertBytes i = [] \<and> (\<exists>msg. TLSConfig demo_libraries i [] = Inl (NotFound msg))"
    using t1 by simp
  from demo_ReadTLS t2 obtain i where
    "ReadIdentityFromKeyPair demo_libraries ''host-key'' ''host-cert'' ''host-tlscert'' [''ca-cert''] = Inr i"
    by (cases "ReadIdentityFromKeyPair demo_libraries ''host-key'' ''host-cert'' ''host-tlscert'' [''ca-cert'']") auto
  with t2 have b: "\<exists>i. ReadIdentityFromKeyPair demo_libraries ''host-key'' ''host-cert'' ''host-tlscert'' [''ca-cert''] = Inr i \<and>
        TLSCertBytes i = ''host-tlscert'' \<and> TLSCACertsBytes i = [''ca-cert'']"
    by auto
  from t3 bad have c: "\<exists>err. ReadIdentityFromKeyPair demo_libraries ''host-key'' ''host-cert'' ''not a cert'' [''ca-cert''] = Inl err"
    by simp
  from a b c show ?thesis by blast
qed

section \<open>Properties of the bootstrap\<close>

text \<open>The part of the backend that the idempotence is about.\<close>

lemma find_app:
  "find P (xs @ ys) = (case find P xs of None \<Rightarrow> find P ys | Some x \<Rightarrow> Some x)"
  by (induction xs) auto

lemma find_put_authority:
  "find_authority (put_authority ca cas) i = (if ca_id ca = i then Some ca else find_authority cas i)"
proof -
  have "find (\<lambda>c. ca_id c = i) (filter (\<lambda>c. ca_id c \<noteq> ca_id ca) cas) =
        (if ca_id ca = i then None else find (\<lambda>c. ca_id c = i) cas)"
    by (induction cas) auto
  then show ?thesis
    by (auto simp add: find_authority_def put_authority_def find_app split: option.splits)
qed

lemma find_authority_id: "find_authority cas i = Some ca \<Longrightarrow> ca_id ca = i"
  by (auto simp add: find_authority_def find_Some_iff)

lemma and_then_None:
  "and_then r f = (None, b') \<longleftrightarrow> (\<exists>b1. r = (None, b1) \<and> f b1 = (None, b'))"
  by (cases r) (auto simp add: and_then_def split: option.splits)

lemma and_then_cases:
  "and_then r f = (res, b') \<Longrightarrow>
     (\<exists>err. r = (Some err, b') \<and> res = Some err) \<or> (\<exists>b1. r = (None, b1) \<and> f b1 = (res, b'))"
  by (cases r) (auto simp add: and_then_def split: option.splits)

lemma keeps_and_then:
  "core (snd r) = c \<Longrightarrow> keeps f \<Longrightarrow> core (snd (and_then r f)) = c"
  by (cases r) (auto simp add: and_then_def keeps_def split: option.splits)

lemma keeps_other_step: "keeps (other_step env c)"
  by (simp add: keeps_def other_step_def core_def split: prod.splits)

lemma keepsD: "keeps f \<Longrightarrow> core (snd (f b)) = core b"
  by (simp add: keeps_def)

lemma keeps_Init_roles: "keeps (Init_roles env roles)"
proof (induction roles)
  case Nil
  show ?case by (simp add: keeps_def)
next
  case (Cons r roles)
  show ?case
    unfolding keeps_def
  proof
    fix b
    show "core (snd (Init_roles env (r # roles) b)) = core b"
      using keeps_and_then[OF keepsD[OF keeps_other_step] Cons.IH] by simp
  qed
qed

lemma keeps_Init_tunnels: "keeps (Init_tunnels env tunnels)"
proof (induction tunnels)
  case Nil
  show ?case by (simp add: keeps_def)
next
  case (Cons t tunnels)
  show ?case
    unfolding keeps_def
  proof
    fix b
    show "core (snd (Init_tunnels env (t # tunnels) b)) = core b"
      using keeps_and_then[OF keepsD[OF keeps_other_step] Cons.IH] by simp
  qed
qed

lemma keeps_Init_adminRole: "keeps (Init_adminRole env)"
  unfolding keeps_def
proof
  fix b :: "'a backend"
  obtain e b' where o: "other_step env CreateRole b = (e, b')"
    by (cases "other_step env CreateRole b")
  with keepsD[OF keeps_other_step, of env CreateRole b] have "core b' = core b" by simp
  with o show "core (snd (Init_adminRole env b)) = core b"
    by (simp add: Init_adminRole_def split: option.splits)
qed

lemma keeps_then: "keeps f \<Longrightarrow> keeps g \<Longrightarrow> keeps (\<lambda>b. and_then (f b) g)"
  unfolding keeps_def
proof
  fix b
  assume f: "\<forall>b. core (snd (f b)) = core b" and g: "\<forall>b. core (snd (g b)) = core b"
  from f have "core (snd (f b)) = core b" by simp
  then show "core (snd (and_then (f b) g)) = core b"
    using g by (intro keeps_and_then) (simp_all add: keeps_def)
qed

lemma keeps_Init_settings: "keeps (Init_settings env cfg)"
proof -
  have k1: "keeps (\<lambda>b. and_then (other_step env UpsertNamespace b) (Init_adminRole env))"
    by (rule keeps_then[OF keeps_other_step keeps_Init_adminRole])
  have k2: "keeps (\<lambda>b. and_then (other_step env (SetAuthPreference (AuthPreference cfg)) b)
      (\<lambda>b. and_then (other_step env UpsertNamespace b) (Init_adminRole env)))"
    by (rule keeps_then[OF keeps_other_step k1])
  have k3: "keeps (\<lambda>b. and_then (other_step env (SetStaticTokens (StaticTokens cfg)) b)
      (\<lambda>b. and_then (other_step env (SetAuthPreference (AuthPreference cfg)) b)
      (\<lambda>b. and_then (other_step env UpsertNamespace b) (Init_adminRole env))))"
    by (rule keeps_then[OF keeps_other_step k2])
  then show ?thesis by (simp add: keeps_def Init_settings_def)
qed

text \<open>The second run: on a bootstrapped backend no step changes the core.\<close>

lemma core_eq_iff:
  "core b' = core b \<longleftrightarrow>
     storedAuthorities b' = storedAuthorities b \<and> storedClusterConfig b' = storedClusterConfig b \<and>
     storedClusterName b' = storedClusterName b"
  by (auto simp add: core_def)

lemma is_stored_core: "core b' = core b \<Longrightarrow> is_stored b' = is_stored b"
  by (rule ext) (simp add: core_eq_iff is_stored_def)

lemma has_tls_core: "core b' = core b \<Longrightarrow> has_tls b' = has_tls b"
  by (rule ext) (simp add: core_eq_iff has_tls_def)

lemma configured_core:
  assumes "core b' = core b"
  shows "configured lib cas b' = configured lib cas b"
proof -
  have h: "is_stored b' = is_stored b" by (rule is_stored_core[OF assms])
  show ?thesis unfolding configured_def h by (rule refl)
qed

lemma bootstrapped_core:
  assumes "core b' = core b"
  shows "bootstrapped lib cfg b' = bootstrapped lib cfg b"
proof -
  have h: "has_tls b' = has_tls b" by (rule has_tls_core[OF assms])
  have c: "configured lib (Authorities cfg) b' = configured lib (Authorities cfg) b"
    by (rule configured_core[OF assms])
  have s: "storedClusterConfig b' = storedClusterConfig b" "storedClusterName b' = storedClusterName b"
    using assms by (simp_all add: core_eq_iff)
  show ?thesis unfolding bootstrapped_def h c s by (rule refl)
qed

lemma Init_authority_stored:
  "(case GenerateCertAuthority lib ca of Inl err \<Rightarrow> True | Inr ca' \<Rightarrow> is_stored b (ca_id ca')) \<Longrightarrow>
   snd (Init_authority lib env n ca b) = b"
  by (auto simp add: Init_authority_def store_CreateCertAuthority_def is_stored_def
      split: sum.splits)

lemma Init_authorities_configured:
  "configured lib cas b \<Longrightarrow> snd (Init_authorities lib env n cas b) = b"
proof (induction cas arbitrary: n)
  case Nil
  show ?case by simp
next
  case (Cons ca cas)
  from Cons.prems have h: "(case GenerateCertAuthority lib ca of Inl err \<Rightarrow> True | Inr ca' \<Rightarrow> is_stored b (ca_id ca'))"
    and t: "configured lib cas b" by (simp_all add: configured_def)
  obtain e where a: "Init_authority lib env n ca b = (e, b)"
    using Init_authority_stored[OF h, of env n] by (cases "Init_authority lib env n ca b") auto
  show ?case
    using a Cons.IH[OF t] by (cases e) (simp_all add: and_then_def)
qed

lemma idle_from_then:
  "idle_from b f \<Longrightarrow> idle_from b g \<Longrightarrow> idle_from b (\<lambda>b1. and_then (f b1) g)"
  unfolding idle_from_def
proof (intro allI impI)
  fix b1 :: "'a backend"
  assume f: "\<forall>b1. core b1 = core b \<longrightarrow> core (snd (f b1)) = core b"
    and g: "\<forall>b1. core b1 = core b \<longrightarrow> core (snd (g b1)) = core b"
    and c: "core b1 = core b"
  obtain e b2 where r: "f b1 = (e, b2)" by (cases "f b1")
  with f c have "core b2 = core b" by auto
  with g r show "core (snd (and_then (f b1) g)) = core b"
    by (cases e) (simp_all add: and_then_def)
qed

lemma idle_from_keeps: "keeps f \<Longrightarrow> idle_from b f"
  by (simp add: idle_from_def keeps_def)

lemma idle_fromD: "idle_from b f \<Longrightarrow> core (snd (f b)) = core b"
  by (simp add: idle_from_def)

lemma Init_config_idle:
  assumes "configured lib (Authorities cfg) b"
  shows "idle_from b (Init_config lib env cfg)"
proof -
  have a: "idle_from b (Init_authorities lib env 0 (Authorities cfg))"
    unfolding idle_from_def
  proof (intro allI impI)
    fix b1 :: "'a backend" assume c: "core b1 = core b"
    with assms have "configured lib (Authorities cfg) b1" using configured_core[of b1 b] by simp
    from Init_authorities_configured[OF this] c
    show "core (snd (Init_authorities lib env 0 (Authorities cfg) b1)) = core b" by simp
  qed
  have k1: "idle_from b (\<lambda>b. and_then (Init_authorities lib env 0 (Authorities cfg) b)
       (Init_tunnels env (ReverseTunnels cfg)))"
    by (rule idle_from_then[OF a idle_from_keeps[OF keeps_Init_tunnels]])
  have k2: "idle_from b (\<lambda>b. and_then (Init_roles env (Roles cfg) b) (\<lambda>b.
     and_then (Init_authorities lib env 0 (Authorities cfg) b)
       (Init_tunnels env (ReverseTunnels cfg))))"
    by (rule idle_from_then[OF idle_from_keeps[OF keeps_Init_roles] k1])
  have k3: "idle_from b (\<lambda>b. and_then (other_step env NewAuthServer b) (\<lambda>b.
     and_then (Init_roles env (Roles cfg) b) (\<lambda>b.
     and_then (Init_authorities lib env 0 (Authorities cfg) b)
       (Init_tunnels env (ReverseTunnels cfg)))))"
    by (rule idle_from_then[OF idle_from_keeps[OF keeps_other_step] k2])
  have k4: "idle_from b (\<lambda>b. and_then (other_step env (AcquireLock (cfg_ClusterName cfg)) b) (\<lambda>b.
     and_then (other_step env NewAuthServer b) (\<lambda>b.
     and_then (Init_roles env (Roles cfg) b) (\<lambda>b.
     and_then (Init_authorities lib env 0 (Authorities cfg) b)
       (Init_tunnels env (ReverseTunnels cfg))))))"
    by (rule idle_from_then[OF idle_from_keeps[OF keeps_other_step] k3])
  then show ?thesis by (simp add: idle_from_def Init_config_def)
qed

lemma Init_clusterConfig_idle:
  assumes "storedClusterConfig b = Some c" and "ClusterID c \<noteq> []"
    and "c = (cfg_ClusterConfig cfg)\<lparr>ClusterID := ClusterID c\<rparr>"
  shows "core (snd (Init_clusterConfig env cfg b)) = core b"
proof -
  have "Init_clusterID env b = Inr (ClusterID c) \<or> (\<exists>err. Init_clusterID env b = Inl err)"
    using assms(1,2) by (simp add: Init_clusterID_def store_GetClusterConfig_def)
  then show ?thesis
    using assms(1) assms(3)[symmetric]
    by (auto simp add: Init_clusterConfig_def store_SetClusterConfig_def core_def)
qed

lemma Init_clusterName_idle:
  assumes "storedClusterName b = Some n"
  shows "snd (Init_clusterName env cfg b) = b \<and>
         (fst (Init_clusterName env cfg b) = Inr n \<or> (\<exists>err. fst (Init_clusterName env cfg b) = Inl err))"
  using assms
  by (auto simp add: Init_clusterName_def store_SetClusterName_def store_GetClusterName_def)

lemma Init_userCA_idle: "has_tls b (UserCA, n) \<Longrightarrow> snd (Init_userCA env n b) = b"
  by (auto simp add: Init_userCA_def store_GetCertAuthority_def has_tls_def split: option.splits)

lemma Init_hostCA_idle: "has_tls b (HostCA, n) \<Longrightarrow> snd (Init_hostCA lib env n b) = b"
  by (auto simp add: Init_hostCA_def store_GetCertAuthority_def has_tls_def split: option.splits)

lemma Init_authoritiesOf_idle:
  assumes "has_tls b (UserCA, n)" and "has_tls b (HostCA, n)"
  shows "idle_from b (Init_authoritiesOf lib env n)"
proof -
  have u: "idle_from b (Init_userCA env n)"
    unfolding idle_from_def
  proof (intro allI impI)
    fix b1 :: "'a backend" assume c: "core b1 = core b"
    with assms(1) have "has_tls b1 (UserCA, n)" using has_tls_core[of b1 b] by simp
    from Init_userCA_idle[OF this] c show "core (snd (Init_userCA env n b1)) = core b" by simp
  qed
  have h: "idle_from b (Init_hostCA lib env n)"
    unfolding idle_from_def
  proof (intro allI impI)
    fix b1 :: "'a backend" assume c: "core b1 = core b"
    with assms(2) have "has_tls b1 (HostCA, n)" using has_tls_core[of b1 b] by simp
    from Init_hostCA_idle[OF this] c show "core (snd (Init_hostCA lib env n b1)) = core b" by simp
  qed
  have k1: "idle_from b (\<lambda>b. and_then (Init_hostCA lib env n b) (other_step env migrateLegacyResources))"
    by (rule idle_from_then[OF h idle_from_keeps[OF keeps_other_step]])
  have "idle_from b (\<lambda>b. and_then (Init_userCA env n b) (\<lambda>b.
     and_then (Init_hostCA lib env n b) (other_step env migrateLegacyResources)))"
    by (rule idle_from_then[OF u k1])
  then show ?thesis by (simp add: idle_from_def Init_authoritiesOf_def)
qed

lemma Init_cluster_idle:
  assumes "bootstrapped lib cfg b"
  shows "idle_from b (Init_cluster lib env cfg)"
proof -
  from assms obtain c n where cc: "storedClusterConfig b = Some c" "ClusterID c \<noteq> []"
      "c = (cfg_ClusterConfig cfg)\<lparr>ClusterID := ClusterID c\<rparr>"
    and cn: "storedClusterName b = Some n" and u: "has_tls b (UserCA, n)" and h: "has_tls b (HostCA, n)"
    by (auto simp add: bootstrapped_def split: option.splits)
  have tl: "idle_from b (\<lambda>b1. and_then (Init_settings env cfg b1) (Init_authoritiesOf lib env n))"
    by (rule idle_from_then[OF idle_from_keeps[OF keeps_Init_settings] Init_authoritiesOf_idle[OF u h]])
  have nm: "idle_from b (\<lambda>b1. case Init_clusterName env cfg b1 of
         (Inl err, b') \<Rightarrow> (Some err, b')
       | (Inr domain, b') \<Rightarrow>
           and_then (Init_settings env cfg b') (Init_authoritiesOf lib env domain))"
    unfolding idle_from_def
  proof (intro allI impI)
    fix b1 :: "'a backend" assume c: "core b1 = core b"
    from c cn have n1: "storedClusterName b1 = Some n" by (simp add: core_eq_iff)
    obtain r b2 where i: "Init_clusterName env cfg b1 = (r, b2)" by (cases "Init_clusterName env cfg b1")
    from Init_clusterName_idle[OF n1, of env cfg] i have b2: "b2 = b1"
      and r: "r = Inr n \<or> (\<exists>err. r = Inl err)" by auto
    show "core (snd (case Init_clusterName env cfg b1 of
         (Inl err, b') \<Rightarrow> (Some err, b')
       | (Inr domain, b') \<Rightarrow>
           and_then (Init_settings env cfg b') (Init_authoritiesOf lib env domain))) = core b"
    proof (cases r)
      case (Inl err)
      with i b2 c show ?thesis by simp
    next
      case (Inr d)
      with r have d: "d = n" by auto
      from tl c have "core (snd (and_then (Init_settings env cfg b1) (Init_authoritiesOf lib env n))) = core b"
        by (simp add: idle_from_def)
      with i b2 Inr d show ?thesis by simp
    qed
  qed
  have cf: "idle_from b (Init_clusterConfig env cfg)"
    unfolding idle_from_def
  proof (intro allI impI)
    fix b1 :: "'a backend" assume c: "core b1 = core b"
    with cc have "storedClusterConfig b1 = Some c" by (simp add: core_eq_iff)
    from Init_clusterConfig_idle[OF this cc(2,3)] c
    show "core (snd (Init_clusterConfig env cfg b1)) = core b" by simp
  qed
  have "idle_from b (\<lambda>b. and_then (Init_clusterConfig env cfg b) (\<lambda>b1. case Init_clusterName env cfg b1 of
         (Inl err, b') \<Rightarrow> (Some err, b')
       | (Inr domain, b') \<Rightarrow>
           and_then (Init_settings env cfg b') (Init_authoritiesOf lib env domain)))"
    by (rule idle_from_then[OF cf nm])
  then show ?thesis by (simp add: idle_from_def Init_cluster_def)
qed

lemma Init_idle:
  assumes "bootstrapped lib cfg b"
  shows "core (snd (Init lib env cfg b)) = core b"
proof (cases "Init_checks cfg")
  case (Some err)
  then show ?thesis by (simp add: Init_def)
next
  case None
  have c: "configured lib (Authorities cfg) b"
    using assms by (simp add: bootstrapped_def)
  have "idle_from b (\<lambda>b. and_then (Init_config lib env cfg b) (Init_cluster lib env cfg))"
    by (rule idle_from_then[OF Init_config_idle[OF c] Init_cluster_idle[OF assms]])
  from idle_fromD[OF this] None show ?thesis by (simp add: Init_def)
qed

text \<open>The first run: a successful bootstrap leaves a bootstrapped backend.\<close>

lemma grows_refl: "grows b b"
  by (simp add: grows_def)

lemma grows_trans: "grows b b1 \<Longrightarrow> grows b1 b2 \<Longrightarrow> grows b b2"
  by (simp add: grows_def)

lemma grows_core: "core b' = core b \<Longrightarrow> grows b b'"
  by (simp add: grows_def core_eq_iff is_stored_def)

lemma grows_keeps: "keeps f \<Longrightarrow> f b = (e, b') \<Longrightarrow> grows b b'"
  using keepsD[of f b] by (intro grows_core) simp

lemma grows_put:
  "grows b (b\<lparr>storedAuthorities := put_authority ca (storedAuthorities b)\<rparr>)"
  by (simp add: grows_def is_stored_def find_put_authority)

lemma settled_grows: "settled i b b' \<Longrightarrow> grows b b'"
  unfolding settled_def grows_def is_stored_def by metis

lemma settled_has_tls: "settled i b b' \<Longrightarrow> j \<noteq> i \<Longrightarrow> has_tls b j \<Longrightarrow> has_tls b' j"
  by (simp add: settled_def has_tls_def del: split_paired_All)

lemma settled_put:
  "ca_id ca = i \<Longrightarrow> TLSKeyPairs ca \<noteq> [] \<Longrightarrow>
   settled i b (b\<lparr>storedAuthorities := put_authority ca (storedAuthorities b)\<rparr>)"
  by (simp add: settled_def has_tls_def is_stored_def find_put_authority)

lemma settled_same: "has_tls b i \<Longrightarrow> settled i b b"
  by (simp add: settled_def)

lemma store_UpsertCertAuthority_None:
  "store_UpsertCertAuthority env ca b = (None, b') \<Longrightarrow>
   b' = b\<lparr>storedAuthorities := put_authority ca (storedAuthorities b)\<rparr>"
  by (auto simp add: store_UpsertCertAuthority_def split: if_splits)

lemma firstStartCA_settled: "firstStartCA env t n b = (None, b') \<Longrightarrow> settled (t, n) b b'"
  by (auto simp add: firstStartCA_def ca_id_def split: sum.splits
      dest!: store_UpsertCertAuthority_None intro!: settled_put)

lemma migrateUserCA_settled:
  "migrateUserCA env n userCA b = (None, b') \<Longrightarrow> ca_id userCA = i \<Longrightarrow> settled i b b'"
  by (auto simp add: migrateUserCA_def ca_id_def split: sum.splits
      dest!: store_UpsertCertAuthority_None intro!: settled_put)

lemma migrateHostCA_settled:
  "migrateHostCA lib env n hostCA b = (None, b') \<Longrightarrow> ca_id hostCA = i \<Longrightarrow> settled i b b'"
  by (auto simp add: migrateHostCA_def ca_id_def split: sum.splits
      dest!: store_UpsertCertAuthority_None intro!: settled_put)

lemma Init_userCA_settled:
  assumes "Init_userCA env n b = (None, b')"
  shows "settled (UserCA, n) b b'"
proof (cases "store_GetCertAuthority env b (UserCA, n)")
  case (Inl err)
  with assms have "firstStartCA env UserCA n b = (None, b')"
    by (simp add: Init_userCA_def split: if_splits)
  then show ?thesis by (rule firstStartCA_settled)
next
  case (Inr userCA)
  then have f: "find_authority (storedAuthorities b) (UserCA, n) = Some userCA"
    by (simp add: store_GetCertAuthority_def split: if_splits option.splits)
  show ?thesis
  proof (cases "TLSKeyPairs userCA = []")
    case True
    with assms Inr have "migrateUserCA env n userCA b = (None, b')"
      by (simp add: Init_userCA_def)
    then show ?thesis using find_authority_id[OF f] by (rule migrateUserCA_settled)
  next
    case False
    with assms Inr have "b' = b" by (simp add: Init_userCA_def)
    with f False show ?thesis by (simp add: settled_same has_tls_def)
  qed
qed

lemma Init_hostCA_settled:
  assumes "Init_hostCA lib env n b = (None, b')"
  shows "settled (HostCA, n) b b'"
proof (cases "store_GetCertAuthority env b (HostCA, n)")
  case (Inl err)
  with assms have "firstStartCA env HostCA n b = (None, b')"
    by (simp add: Init_hostCA_def split: if_splits)
  then show ?thesis by (rule firstStartCA_settled)
next
  case (Inr hostCA)
  then have f: "find_authority (storedAuthorities b) (HostCA, n) = Some hostCA"
    by (simp add: store_GetCertAuthority_def split: if_splits option.splits)
  show ?thesis
  proof (cases "TLSKeyPairs hostCA = []")
    case True
    with assms Inr have "migrateHostCA lib env n hostCA b = (None, b')"
      by (simp add: Init_hostCA_def)
    then show ?thesis using find_authority_id[OF f] by (rule migrateHostCA_settled)
  next
    case False
    with assms Inr have "b' = b" by (simp add: Init_hostCA_def)
    with f False show ?thesis by (simp add: settled_same has_tls_def)
  qed
qed

lemma Init_authority_None:
  assumes "Init_authority lib env k ca b = (None, b')"
  shows "grows b b' \<and> (case GenerateCertAuthority lib ca of Inl err \<Rightarrow> True | Inr ca' \<Rightarrow> is_stored b' (ca_id ca'))"
proof (cases "GenerateCertAuthority lib ca")
  case (Inl err)
  with assms show ?thesis by (simp add: Init_authority_def)
next
  case (Inr ca')
  show ?thesis
  proof (cases "find_authority (storedAuthorities b) (ca_id ca')")
    case None
    with assms Inr have "b' = b\<lparr>storedAuthorities := put_authority ca' (storedAuthorities b)\<rparr>"
      by (auto simp add: Init_authority_def store_CreateCertAuthority_def split: if_splits)
    then show ?thesis using Inr
      by (simp add: grows_put is_stored_def find_put_authority)
  next
    case (Some existing)
    with assms Inr have "b' = b"
      by (auto simp add: Init_authority_def store_CreateCertAuthority_def split: if_splits)
    with Some Inr show ?thesis by (simp add: grows_refl is_stored_def)
  qed
qed

lemma configured_grows: "grows b b' \<Longrightarrow> configured lib cas b \<Longrightarrow> configured lib cas b'"
  by (auto simp add: configured_def grows_def list_all_iff simp del: split_paired_All
      split: sum.splits)

lemma Init_authorities_None:
  "Init_authorities lib env k cas b = (None, b') \<Longrightarrow> grows b b' \<and> configured lib cas b'"
proof (induction cas arbitrary: k b)
  case Nil
  then show ?case by (simp add: grows_refl configured_def)
next
  case (Cons ca cas)
  from Cons.prems obtain b1 where a: "Init_authority lib env k ca b = (None, b1)"
    and r: "Init_authorities lib env (Suc k) cas b1 = (None, b')"
    by (auto simp add: and_then_None)
  from Init_authority_None[OF a] have g1: "grows b b1"
    and s1: "(case GenerateCertAuthority lib ca of Inl err \<Rightarrow> True | Inr ca' \<Rightarrow> is_stored b1 (ca_id ca'))"
    by simp_all
  from Cons.IH[OF r] have g2: "grows b1 b'" and c2: "configured lib cas b'" by simp_all
  have "configured lib [ca] b1" using s1 by (simp add: configured_def)
  from configured_grows[OF g2 this] c2 have "configured lib (ca # cas) b'"
    by (simp add: configured_def)
  with grows_trans[OF g1 g2] show ?case by simp
qed

lemma Init_roles_grows: "Init_roles env roles b = (e, b') \<Longrightarrow> grows b b'"
  by (rule grows_keeps[OF keeps_Init_roles])

lemma Init_config_None:
  assumes "Init_config lib env cfg b = (None, b')"
  shows "grows b b' \<and> configured lib (Authorities cfg) b'"
proof -
  from assms obtain b1 b2 b3 b4 where
    s1: "other_step env (AcquireLock (cfg_ClusterName cfg)) b = (None, b1)"
    and s2: "other_step env NewAuthServer b1 = (None, b2)"
    and s3: "Init_roles env (Roles cfg) b2 = (None, b3)"
    and s4: "Init_authorities lib env 0 (Authorities cfg) b3 = (None, b4)"
    and s5: "Init_tunnels env (ReverseTunnels cfg) b4 = (None, b')"
    unfolding Init_config_def and_then_None by blast
  note g1 = grows_keeps[OF keeps_other_step s1]
  note g2 = grows_keeps[OF keeps_other_step s2]
  note g3 = grows_keeps[OF keeps_Init_roles s3]
  from Init_authorities_None[OF s4] have g4: "grows b3 b4" and c4: "configured lib (Authorities cfg) b4"
    by simp_all
  note g5 = grows_keeps[OF keeps_Init_tunnels s5]
  from configured_grows[OF g5 c4] grows_trans[OF g1 grows_trans[OF g2 grows_trans[OF g3 grows_trans[OF g4 g5]]]]
  show ?thesis by simp
qed

lemma configured_authorities:
  assumes "storedAuthorities b' = storedAuthorities b"
  shows "configured lib cas b' = configured lib cas b"
proof -
  have h: "is_stored b' = is_stored b" by (rule ext) (simp add: is_stored_def assms)
  show ?thesis unfolding configured_def h by (rule refl)
qed

lemma Init_clusterConfig_None:
  assumes "Init_clusterConfig env cfg b = (None, b')"
  shows "storedAuthorities b' = storedAuthorities b \<and> storedClusterName b' = storedClusterName b \<and>
         storedClusterConfig b' =
           Some ((cfg_ClusterConfig cfg)\<lparr>ClusterID :=
             (case storedClusterConfig b of
                None \<Rightarrow> uuid_New env
              | Some c \<Rightarrow> if ClusterID c \<noteq> [] then ClusterID c else uuid_New env)\<rparr>)"
proof -
  from assms obtain x where i: "Init_clusterID env b = Inr x"
    and s: "store_SetClusterConfig env ((cfg_ClusterConfig cfg)\<lparr>ClusterID := x\<rparr>) b = (None, b')"
    by (auto simp add: Init_clusterConfig_def split: sum.splits)
  from i have x: "x = (case storedClusterConfig b of
                None \<Rightarrow> uuid_New env
              | Some c \<Rightarrow> if ClusterID c \<noteq> [] then ClusterID c else uuid_New env)"
    by (auto simp add: Init_clusterID_def store_GetClusterConfig_def split: if_splits option.splits)
  from s have "b' = b\<lparr>storedClusterConfig := Some ((cfg_ClusterConfig cfg)\<lparr>ClusterID := x\<rparr>)\<rparr>"
    by (auto simp add: store_SetClusterConfig_def split: if_splits)
  with x show ?thesis by simp
qed

lemma Init_clusterName_Inr:
  assumes "Init_clusterName env cfg b = (Inr n, b')"
  shows "storedAuthorities b' = storedAuthorities b \<and> storedClusterConfig b' = storedClusterConfig b \<and>
         storedClusterName b' = Some n"
  using assms
  by (auto simp add: Init_clusterName_def store_SetClusterName_def store_GetClusterName_def
      split: if_splits option.splits)

lemma Init_authoritiesOf_None:
  assumes "Init_authoritiesOf lib env n b = (None, b')"
  shows "grows b b' \<and> has_tls b' (UserCA, n) \<and> has_tls b' (HostCA, n)"
proof -
  from assms obtain b1 b2 where u: "Init_userCA env n b = (None, b1)"
    and h: "Init_hostCA lib env n b1 = (None, b2)"
    and m: "other_step env migrateLegacyResources b2 = (None, b')"
    unfolding Init_authoritiesOf_def and_then_None by blast
  note su = Init_userCA_settled[OF u]
  note sh = Init_hostCA_settled[OF h]
  from su have t1: "has_tls b1 (UserCA, n)" by (simp add: settled_def)
  from settled_has_tls[OF sh _ t1] have t2: "has_tls b2 (UserCA, n)" by simp
  from sh have t3: "has_tls b2 (HostCA, n)" by (simp add: settled_def)
  from keepsD[OF keeps_other_step, of env migrateLegacyResources b2] m
  have c: "core b' = core b2" by simp
  from t2 t3 has_tls_core[OF c] have "has_tls b' (UserCA, n)" "has_tls b' (HostCA, n)" by simp_all
  moreover have "grows b b'"
    using grows_trans[OF settled_grows[OF su] grows_trans[OF settled_grows[OF sh] grows_core[OF c]]] .
  ultimately show ?thesis by simp
qed

lemma Init_cluster_None:
  assumes "Init_cluster lib env cfg b = (None, b')"
    and "configured lib (Authorities cfg) b"
    and "uuid_New env \<noteq> []"
  shows "bootstrapped lib cfg b' \<and>
         (\<forall>c. storedClusterConfig b = Some c \<longrightarrow> ClusterID c \<noteq> [] \<longrightarrow>
              map_option ClusterID (storedClusterConfig b') = Some (ClusterID c))"
proof -
  from assms(1) obtain b1 where c1: "Init_clusterConfig env cfg b = (None, b1)"
    and r: "(case Init_clusterName env cfg b1 of
         (Inl err, b') \<Rightarrow> (Some err, b')
       | (Inr domain, b') \<Rightarrow>
           and_then (Init_settings env cfg b') (Init_authoritiesOf lib env domain)) = (None, b')"
    unfolding Init_cluster_def and_then_None by blast
  obtain rn b2 where n2: "Init_clusterName env cfg b1 = (rn, b2)" by (cases "Init_clusterName env cfg b1")
  with r obtain n where rn: "rn = Inr n"
    and r2: "and_then (Init_settings env cfg b2) (Init_authoritiesOf lib env n) = (None, b')"
    by (cases rn) simp_all
  from r2 obtain b3 where s3: "Init_settings env cfg b2 = (None, b3)"
    and a4: "Init_authoritiesOf lib env n b3 = (None, b')"
    unfolding and_then_None by blast
  note f1 = Init_clusterConfig_None[OF c1]
  note f2 = Init_clusterName_Inr[OF n2[unfolded rn]]
  from keepsD[OF keeps_Init_settings, of env cfg b2] s3 have c3: "core b3 = core b2" by simp
  from Init_authoritiesOf_None[OF a4] have g4: "grows b3 b'" and tu: "has_tls b' (UserCA, n)"
    and th: "has_tls b' (HostCA, n)" by simp_all
  have a1: "storedAuthorities b1 = storedAuthorities b" using f1 by blast
  have a2: "storedAuthorities b2 = storedAuthorities b1" using f2 by blast
  have "configured lib (Authorities cfg) b1"
    using assms(2) configured_authorities[OF a1, of lib "Authorities cfg"] by blast
  then have "configured lib (Authorities cfg) b2"
    using configured_authorities[OF a2, of lib "Authorities cfg"] by blast
  then have "configured lib (Authorities cfg) b3"
    using configured_core[OF c3, of lib "Authorities cfg"] by blast
  then have conf: "configured lib (Authorities cfg) b'" by (rule configured_grows[OF g4])
  have n4: "storedClusterName b' = storedClusterName b3" using g4 unfolding grows_def by blast
  have n3: "storedClusterName b3 = storedClusterName b2" using c3 unfolding core_eq_iff by blast
  have n2': "storedClusterName b2 = Some n" using f2 by blast
  have nm: "storedClusterName b' = Some n" unfolding n4 n3 n2' by (rule refl)
  have k4: "storedClusterConfig b' = storedClusterConfig b3" using g4 unfolding grows_def by blast
  have k3: "storedClusterConfig b3 = storedClusterConfig b2" using c3 unfolding core_eq_iff by blast
  have k2: "storedClusterConfig b2 = storedClusterConfig b1" using f2 by blast
  define x where "x = (case storedClusterConfig b of
                None \<Rightarrow> uuid_New env
              | Some c \<Rightarrow> if ClusterID c \<noteq> [] then ClusterID c else uuid_New env)"
  have x: "x \<noteq> []" using assms(3) by (cases "storedClusterConfig b") (simp_all add: x_def)
  have k1: "storedClusterConfig b1 = Some ((cfg_ClusterConfig cfg)\<lparr>ClusterID := x\<rparr>)"
    unfolding x_def using f1 by blast
  have cc': "storedClusterConfig b' = Some ((cfg_ClusterConfig cfg)\<lparr>ClusterID := x\<rparr>)"
    unfolding k4 k3 k2 k1 by (rule refl)
  have "bootstrapped lib cfg b'"
    unfolding bootstrapped_def nm cc' using conf x tu th by simp
  moreover have "\<forall>c. storedClusterConfig b = Some c \<longrightarrow> ClusterID c \<noteq> [] \<longrightarrow>
              map_option ClusterID (storedClusterConfig b') = Some (ClusterID c)"
    unfolding cc' by (simp add: x_def)
  ultimately show ?thesis by simp
qed

lemma Init_None:
  assumes "Init lib env cfg b = (None, b')" and "uuid_New env \<noteq> []"
  shows "bootstrapped lib cfg b' \<and>
         (\<forall>c. storedClusterConfig b = Some c \<longrightarrow> ClusterID c \<noteq> [] \<longrightarrow>
              map_option ClusterID (storedClusterConfig b') = Some (ClusterID c))"
proof -
  from assms(1) have ck: "Init_checks cfg = None"
    by (cases "Init_checks cfg") (simp_all add: Init_def)
  with assms(1) obtain b1 where c: "Init_config lib env cfg b = (None, b1)"
    and r: "Init_cluster lib env cfg b1 = (None, b')"
    by (auto simp add: Init_def and_then_None)
  from Init_config_None[OF c] have g: "grows b b1" and cf: "configured lib (Authorities cfg) b1"
    by simp_all
  from g have "storedClusterConfig b1 = storedClusterConfig b" by (simp add: grows_def)
  with Init_cluster_None[OF r cf assms(2)] show ?thesis by simp
qed

text \<open>
  C4. After a successful run of \<open>Init\<close> (in which \<open>uuid.New()\<close> gave a non-empty
  identifier, as it always does), a second run with the same configuration, whatever
  keys and identifiers it would generate and whatever fails in it, leaves the stored
  authorities, the stored cluster configuration with its cluster identifier, and the
  stored cluster name as the first run left them. And the first run keeps a cluster
  identifier that was stored before it.
\<close>

theorem Init_idempotent:
  assumes "Init lib env cfg b = (None, b1)" and "uuid_New env \<noteq> []"
  shows "storedAuthorities (snd (Init lib env' cfg b1)) = storedAuthorities b1 \<and>
         storedClusterConfig (snd (Init lib env' cfg b1)) = storedClusterConfig b1 \<and>
         storedClusterName (snd (Init lib env' cfg b1)) = storedClusterName b1 \<and>
         (\<exists>c. storedClusterConfig b1 = Some c \<and> ClusterID c \<noteq> []) \<and>
         (\<forall>c. storedClusterConfig b = Some c \<longrightarrow> ClusterID c \<noteq> [] \<longrightarrow>
              map_option ClusterID (storedClusterConfig b1) = Some (ClusterID c))"
proof -
  from Init_None[OF assms] have bs: "bootstrapped lib cfg b1"
    and keep: "\<forall>c. storedClusterConfig b = Some c \<longrightarrow> ClusterID c \<noteq> [] \<longrightarrow>
              map_option ClusterID (storedClusterConfig b1) = Some (ClusterID c)"
    by simp_all
  from Init_idle[OF bs, of env'] have "core (snd (Init lib env' cfg b1)) = core b1" .
  moreover from bs have "\<exists>c. storedClusterConfig b1 = Some c \<and> ClusterID c \<noteq> []"
    by (auto simp add: bootstrapped_def split: option.splits)
  ultimately show ?thesis using keep by (simp add: core_eq_iff)
qed

text \<open>Evaluation of the bootstrap of the cluster of the old format.\<close>

lemma demo_other_step: "other_step demo_chance c b = (None, b)"
  by (simp add: other_step_def demo_chance_def)

lemma demo_Init_config: "Init_config demo_authority_lib demo_chance demo_InitConfig b = (None, b)"
  by (simp add: Init_config_def demo_other_step and_then_def demo_InitConfig_def)

lemma demo_Init_settings: "Init_settings demo_chance cfg b = (None, b)"
  by (simp add: Init_settings_def Init_adminRole_def demo_other_step and_then_def)

lemma demo_Init_clusterConfig:
  "Init_clusterConfig demo_chance demo_InitConfig legacy_backend =
     (None, legacy_backend\<lparr>storedClusterConfig :=
        Some \<lparr>ClusterID = ''2fd8bd74-6a7c-4c39-a1e0-8f5ea0e0f6a1'', cc_Spec = ''node''\<rparr>\<rparr>)"
  by (simp add: Init_clusterConfig_def Init_clusterID_def store_GetClusterConfig_def
      store_SetClusterConfig_def demo_chance_def demo_InitConfig_def legacy_backend_def)

lemma demo_Init_clusterName:
  "storedClusterName b = Some ''me.localhost'' \<Longrightarrow>
   Init_clusterName demo_chance demo_InitConfig b = (Inr ''me.localhost'', b)"
  by (simp add: Init_clusterName_def store_SetClusterName_def store_GetClusterName_def
      demo_chance_def demo_InitConfig_def)

lemma demo_Init_userCA:
  "storedAuthorities b = [legacy_userCA, legacy_hostCA] \<Longrightarrow>
   Init_userCA demo_chance ''me.localhost'' b =
     (None, b\<lparr>storedAuthorities :=
        [legacy_hostCA,
         legacy_userCA\<lparr>TLSKeyPairs := [\<lparr>Cert = ''cert of fresh-tls-key'', Key = ''fresh-tls-key''\<rparr>]\<rparr>]\<rparr>)"
  by (simp add: Init_userCA_def store_GetCertAuthority_def find_authority_def ca_id_def
      migrateUserCA_def store_UpsertCertAuthority_def put_authority_def
      demo_chance_def legacy_userCA_def legacy_hostCA_def)

lemma demo_Init_hostCA:
  "storedAuthorities b =
     [legacy_hostCA,
      legacy_userCA\<lparr>TLSKeyPairs := [\<lparr>Cert = ''cert of fresh-tls-key'', Key = ''fresh-tls-key''\<rparr>]\<rparr>] \<Longrightarrow>
   Init_hostCA demo_authority_lib demo_chance ''me.localhost'' b =
     (None, b\<lparr>storedAuthorities :=
        [legacy_userCA\<lparr>TLSKeyPairs := [\<lparr>Cert = ''cert of fresh-tls-key'', Key = ''fresh-tls-key''\<rparr>]\<rparr>,
         legacy_hostCA\<lparr>TLSKeyPairs := [\<lparr>Cert = ''cert of old-host-key'', Key = ''old-host-key''\<rparr>]\<rparr>]\<rparr>)"
  by (simp add: Init_hostCA_def store_GetCertAuthority_def find_authority_def ca_id_def
      migrateHostCA_def hostPrivateKeyRSA_def store_UpsertCertAuthority_def put_authority_def
      demo_chance_def demo_authority_lib_def legacy_userCA_def legacy_hostCA_def)

lemma demo_Init:
  "Init demo_authority_lib demo_chance demo_InitConfig legacy_backend = (None, migrated_backend)"
proof -
  define b1 where "b1 = legacy_backend\<lparr>storedClusterConfig :=
        Some \<lparr>ClusterID = ''2fd8bd74-6a7c-4c39-a1e0-8f5ea0e0f6a1'', cc_Spec = ''node''\<rparr>\<rparr>"
  have n1: "storedClusterName b1 = Some ''me.localhost''"
    and a1: "storedAuthorities b1 = [legacy_userCA, legacy_hostCA]"
    by (simp_all add: b1_def legacy_backend_def)
  note u = demo_Init_userCA[OF a1]
  define b2 where "b2 = b1\<lparr>storedAuthorities :=
        [legacy_hostCA,
         legacy_userCA\<lparr>TLSKeyPairs := [\<lparr>Cert = ''cert of fresh-tls-key'', Key = ''fresh-tls-key''\<rparr>]\<rparr>]\<rparr>"
  have a2: "storedAuthorities b2 = [legacy_hostCA,
         legacy_userCA\<lparr>TLSKeyPairs := [\<lparr>Cert = ''cert of fresh-tls-key'', Key = ''fresh-tls-key''\<rparr>]\<rparr>]"
    by (simp add: b2_def)
  note h = demo_Init_hostCA[OF a2]
  have of1: "Init_authoritiesOf demo_authority_lib demo_chance ''me.localhost'' b1 = (None, migrated_backend)"
    unfolding Init_authoritiesOf_def u b2_def[symmetric]
    by (simp add: and_then_def h demo_other_step) (simp add: b2_def b1_def legacy_backend_def migrated_backend_def)
  have "Init_cluster demo_authority_lib demo_chance demo_InitConfig legacy_backend = (None, migrated_backend)"
    unfolding Init_cluster_def demo_Init_clusterConfig b1_def[symmetric]
    by (simp add: and_then_def demo_Init_clusterName[OF n1] demo_Init_settings of1)
  moreover have "Init_checks demo_InitConfig = None"
    by (simp add: Init_checks_def demo_InitConfig_def)
  ultimately show ?thesis
    by (simp add: Init_def demo_Init_config and_then_def)
qed

theorem Init_idempotent_witness:
  "Init demo_authority_lib demo_chance demo_InitConfig legacy_backend = (None, migrated_backend) \<and>
   storedAuthorities (snd (Init demo_authority_lib second_chance demo_InitConfig migrated_backend)) =
     storedAuthorities migrated_backend \<and>
   storedClusterConfig (snd (Init demo_authority_lib second_chance demo_InitConfig migrated_backend)) =
     Some \<lparr>ClusterID = ''2fd8bd74-6a7c-4c39-a1e0-8f5ea0e0f6a1'', cc_Spec = ''node''\<rparr>"
proof -
  have u: "uuid_New demo_chance \<noteq> []" by (simp add: demo_chance_def)
  from Init_idempotent[OF demo_Init u, where env' = second_chance] demo_Init show ?thesis
    by (simp add: migrated_backend_def)
qed

text \<open>
  C1 at the cluster of the old format. \<open>Init\<close> succeeds, and each authority has one
  TLS key pair. The key of the host authority is its SSH signing key; the key of the user
  authority is the one that \<open>tlsca.GenerateSelfSignedCA\<close> made, which is not the SSH
  signing key of the user authority.
\<close>

theorem Init_backfill_legacy:
  "Init demo_authority_lib demo_chance demo_InitConfig legacy_backend = (None, migrated_backend) \<and>
   map_option (\<lambda>ca. (SigningKeys ca, map Key (TLSKeyPairs ca)))
     (find_authority (storedAuthorities migrated_backend) (HostCA, ''me.localhost'')) =
     Some ([''old-host-key''], [''old-host-key'']) \<and>
   map_option (\<lambda>ca. (SigningKeys ca, map Key (TLSKeyPairs ca)))
     (find_authority (storedAuthorities migrated_backend) (UserCA, ''me.localhost'')) =
     Some ([''old-user-key''], [''fresh-tls-key''])"
  by (simp add: demo_Init)
     (simp add: migrated_backend_def find_authority_def ca_id_def legacy_userCA_def legacy_hostCA_def)

text \<open>
  What the host authority gets in general: when \<open>Init\<close> finds it with a signing key and
  without TLS key pairs, it stores it with exactly one TLS key pair, the one that
  \<open>tlsca.GenerateSelfSignedCAWithPrivateKey\<close> makes of the RSA key of the first signing
  key.
\<close>

lemma migrateHostCA_key:
  assumes "migrateHostCA lib env domain hostCA b = (None, b')"
  shows "\<exists>k ks rsa keyPEM certPEM.
           SigningKeys hostCA = k # ks \<and> ssh_ParseRawPrivateKey lib k = Inr (RSAPrivateKey rsa) \<and>
           GenerateSelfSignedCAWithPrivateKey lib rsa (clusterSubject domain) = Inr (keyPEM, certPEM) \<and>
           find_authority (storedAuthorities b') (ca_id hostCA) =
             Some (hostCA\<lparr>TLSKeyPairs := [\<lparr>Cert = certPEM, Key = keyPEM\<rparr>]\<rparr>)"
proof -
  from assms obtain rsa keyPEM certPEM where
    r: "hostPrivateKeyRSA lib hostCA = Inr rsa"
    and g: "GenerateSelfSignedCAWithPrivateKey lib rsa (clusterSubject domain) = Inr (keyPEM, certPEM)"
    and u: "store_UpsertCertAuthority env (hostCA\<lparr>TLSKeyPairs := [\<lparr>Cert = certPEM, Key = keyPEM\<rparr>]\<rparr>) b = (None, b')"
    by (auto simp add: migrateHostCA_def split: sum.splits)
  from r obtain k ks where "SigningKeys hostCA = k # ks" "ssh_ParseRawPrivateKey lib k = Inr (RSAPrivateKey rsa)"
    by (auto simp add: hostPrivateKeyRSA_def split: list.splits sum.splits private_key.splits)
  moreover from store_UpsertCertAuthority_None[OF u]
  have "find_authority (storedAuthorities b') (ca_id hostCA) =
             Some (hostCA\<lparr>TLSKeyPairs := [\<lparr>Cert = certPEM, Key = keyPEM\<rparr>]\<rparr>)"
    by (simp add: find_put_authority ca_id_def)
  ultimately show ?thesis using g by blast
qed

end
